theory Spec2Isabelle
  imports Complex_Main "HOL-Library.Word"
begin

unbundle bit_operations_syntax

section \<open>util.js: seeded random numbers and the random tape\<close>

text \<open>
  JavaScript numbers are modelled as \<^typ>\<open>real\<close>; the 32-bit integer operations of
  \<^verbatim>\<open>Math.imul\<close>, \<^verbatim>\<open>^\<close>, \<^verbatim>\<open>|\<close>, \<^verbatim>\<open><<\<close> and \<^verbatim>\<open>>>>\<close> are operations on \<^typ>\<open>32 word\<close>.
  A JavaScript string is its sequence of UTF-16 code units, which is what
  \<^verbatim>\<open>charCodeAt\<close> reads.
\<close>

type_synonym u32 = "32 word"
type_synonym jsstring = "16 word list"

definition clamp :: "real \<Rightarrow> real \<Rightarrow> real \<Rightarrow> real" where
  "clamp v a b = max a (min b v)"

definition lerp :: "real \<Rightarrow> real \<Rightarrow> real \<Rightarrow> real" where
  "lerp a b t = a + (b - a) * t"

subsection \<open>xmur3: string to 32-bit seed\<close>

text \<open>One round of the \<^verbatim>\<open>for\<close> loop of \<^verbatim>\<open>xmur3\<close>:
  \<^verbatim>\<open>h = Math.imul(h ^ str.charCodeAt(i), 3432918353); h = (h << 13) | (h >>> 19)\<close>.\<close>

definition xmur3_round :: "u32 \<Rightarrow> 16 word \<Rightarrow> u32" where
  "xmur3_round h c =
     (let h1 = (h XOR ucast c) * 3432918353
      in push_bit 13 h1 OR drop_bit 19 h1)"

definition xmur3_init :: "jsstring \<Rightarrow> u32" where
  "xmur3_init str = foldl xmur3_round (1779033703 XOR of_nat (length str)) str"

text \<open>One call of the closure that \<^verbatim>\<open>xmur3\<close> returns: the value returned and the new \<^verbatim>\<open>h\<close>.\<close>

definition xmur3_call :: "u32 \<Rightarrow> u32 \<times> u32" where
  "xmur3_call h =
     (let h1 = (h XOR drop_bit 16 h) * 2246822507;
          h2 = (h1 XOR drop_bit 13 h1) * 3266489909;
          h3 = h2 XOR drop_bit 16 h2
      in (h3, h3))"

subsection \<open>mulberry32\<close>

text \<open>
  The closure variable \<^verbatim>\<open>a\<close> of \<^verbatim>\<open>mulberry32\<close> is a JavaScript number that starts as
  an unsigned 32-bit value and grows by \<^verbatim>\<open>a += 0x6D2B79F5\<close> without being wrapped, so it
  is a non-negative integer-valued double. The addition is exact below \<open>2^53\<close>; above,
  it rounds to the nearest double (53 significant bits, ties to even), which
  \<open>dbl_round\<close> computes.
\<close>

fun bitlen :: "nat \<Rightarrow> nat" where
  "bitlen n = (if n = 0 then 0 else Suc (bitlen (n div 2)))"

declare bitlen.simps [simp del]

definition dbl_round :: "nat \<Rightarrow> nat" where
  "dbl_round n =
     (if n < 2 ^ 53 then n
      else let e = bitlen n - 53;
               q = n div 2 ^ e;
               r = n mod 2 ^ e;
               half = 2 ^ (e - 1)
           in if r < half \<or> (r = half \<and> even q) then q * 2 ^ e else (q + 1) * 2 ^ e)"

text \<open>\<^verbatim>\<open>(x >>> 0) / 4294967296\<close>: an unsigned 32-bit value divided by \<open>2^32\<close>, exact in a double.\<close>

definition u32_unit :: "u32 \<Rightarrow> real" where
  "u32_unit w = real (unat w) / 4294967296"

definition mulberry32_call :: "nat \<Rightarrow> real \<times> nat" where
  "mulberry32_call a =
     (let a' = dbl_round (a + 0x6D2B79F5);
          t0 = (of_nat a' :: u32);
          t1 = (t0 XOR drop_bit 15 t0) * (t0 OR 1);
          t2 = t1 XOR (t1 + (t1 XOR drop_bit 7 t1) * (t1 OR 61))
      in (u32_unit (t2 XOR drop_bit 14 t2), a'))"

text \<open>\<^verbatim>\<open>createSeededRand(seedStr)\<close>: the generator is the closure state \<^verbatim>\<open>a\<close>.\<close>

definition createSeededRand :: "jsstring \<Rightarrow> nat" where
  "createSeededRand seedStr = unat (fst (xmur3_call (xmur3_init seedStr)))"

text \<open>The first \<open>n\<close> values of a generator, in call order, and the generator afterwards.\<close>

fun gen_calls :: "nat \<Rightarrow> nat \<Rightarrow> real list \<times> nat" where
  "gen_calls a 0 = ([], a)"
| "gen_calls a (Suc n) =
     (let (v, a') = mulberry32_call a; (vs, a'') = gen_calls a' n in (v # vs, a''))"

text \<open>
  Two generators, each with its own closure variable, called in the order of a
  schedule (\<open>True\<close> calls the first generator, \<open>False\<close> the second); the result is the
  list of values each generator returned.
\<close>

fun two_gens :: "nat \<times> nat \<Rightarrow> bool list \<Rightarrow> real list \<times> real list" where
  "two_gens (a1, a2) [] = ([], [])"
| "two_gens (a1, a2) (b # bs) =
     (if b then
        (let (v, a1') = mulberry32_call a1; (o1, o2) = two_gens (a1', a2) bs in (v # o1, o2))
      else
        (let (v, a2') = mulberry32_call a2; (o1, o2) = two_gens (a1, a2') bs in (o1, v # o2)))"

subsection \<open>The tape recorder and the tape player\<close>

text \<open>The exceptions: the tape player's \<^verbatim>\<open>RNG tape underrun at index i (tape length n)\<close>
  and the \<^verbatim>\<open>TypeError\<close> of reading a property of \<^verbatim>\<open>null\<close>.\<close>

datatype error = TapeUnderrun nat nat | TypeError

text \<open>
  \<^verbatim>\<open>createTapeRandRecorder(seedStr, tapeOut)\<close>: the closure holds the base generator and
  a call counter; the array \<^verbatim>\<open>tapeOut\<close> belongs to the caller and is threaded through
  the calls.
\<close>

record recorder =
  rec_base :: nat
  rec_count :: nat

definition createTapeRandRecorder :: "jsstring \<Rightarrow> recorder" where
  "createTapeRandRecorder seedStr = \<lparr>rec_base = createSeededRand seedStr, rec_count = 0\<rparr>"

definition recorder_call :: "recorder \<Rightarrow> real list \<Rightarrow> real \<times> recorder \<times> real list" where
  "recorder_call r tapeOut =
     (let (v, b) = mulberry32_call (rec_base r)
      in (v, \<lparr>rec_base = b, rec_count = rec_count r + 1\<rparr>, tapeOut @ [v]))"

text \<open>\<^verbatim>\<open>createTapeRandPlayer(tapeIn)\<close>: the closure holds the cursor \<^verbatim>\<open>i\<close>, initially 0.\<close>

definition createTapeRandPlayer :: "nat" where
  "createTapeRandPlayer = 0"

definition player_call :: "real list \<Rightarrow> nat \<Rightarrow> error + (real \<times> nat)" where
  "player_call tapeIn i =
     (if i \<ge> length tapeIn then Inl (TapeUnderrun i (length tapeIn))
      else Inr (tapeIn ! i, i + 1))"

text \<open>\<open>n\<close> calls of the recorder: the values returned, the closure and the tape after.\<close>

fun recorder_calls :: "recorder \<Rightarrow> real list \<Rightarrow> nat \<Rightarrow> real list \<times> recorder \<times> real list" where
  "recorder_calls r tapeOut 0 = ([], r, tapeOut)"
| "recorder_calls r tapeOut (Suc n) =
     (let (v, r', t') = recorder_call r tapeOut;
          (vs, r'', t'') = recorder_calls r' t' n
      in (v # vs, r'', t''))"

text \<open>\<open>n\<close> calls of the player, stopping at the first error as the exception does.\<close>

fun player_calls :: "real list \<Rightarrow> nat \<Rightarrow> nat \<Rightarrow> error + (real list \<times> nat)" where
  "player_calls tapeIn i 0 = Inr ([], i)"
| "player_calls tapeIn i (Suc n) =
     (case player_call tapeIn i of
        Inl e \<Rightarrow> Inl e
      | Inr (v, i') \<Rightarrow>
          (case player_calls tapeIn i' n of
             Inl e \<Rightarrow> Inl e
           | Inr (vs, i'') \<Rightarrow> Inr (v # vs, i'')))"


subsection \<open>Numeric helpers of util.js\<close>

text \<open>
  \<^verbatim>\<open>Number(x) || d\<close> on a configuration number: the configuration loader keeps only
  finite numbers, so the expression is \<open>d\<close> exactly when \<open>x\<close> is 0.
\<close>

definition num_or :: "real \<Rightarrow> real \<Rightarrow> real" where
  "num_or x d = (if x = 0 then d else x)"

text \<open>\<^verbatim>\<open>x | 0\<close>: truncate towards zero, then wrap to a signed 32-bit integer.\<close>

definition trunc :: "real \<Rightarrow> int" where
  "trunc x = (if 0 \<le> x then \<lfloor>x\<rfloor> else \<lceil>x\<rceil>)"

definition toInt32 :: "real \<Rightarrow> int" where
  "toInt32 x = sint (word_of_int (trunc x) :: 32 word)"

text \<open>\<^verbatim>\<open>a % b\<close> on numbers: the remainder has the sign of the dividend.\<close>

definition js_mod :: "real \<Rightarrow> real \<Rightarrow> real" where
  "js_mod a b = a - b * real_of_int (trunc (a / b))"

record norm2_result =
  n_x :: real
  n_y :: real
  n_len :: real

definition norm2 :: "real \<Rightarrow> real \<Rightarrow> norm2_result" where
  "norm2 x y =
     (let l = sqrt (x * x + y * y)
      in if l > 1 / 10 ^ 9 then \<lparr>n_x = x / l, n_y = y / l, n_len = l\<rparr>
         else \<lparr>n_x = 0, n_y = 0, n_len = 0\<rparr>)"

definition approach :: "real \<Rightarrow> real \<Rightarrow> real \<Rightarrow> real" where
  "approach cur tgt md =
     (let d = tgt - cur in if \<bar>d\<bar> \<le> md then tgt else cur + sgn d * md)"

definition circleRect :: "real \<Rightarrow> real \<Rightarrow> real \<Rightarrow> real \<Rightarrow> real \<Rightarrow> real \<Rightarrow> real \<Rightarrow> bool" where
  "circleRect cx cy r rx ry rw rh =
     (let qx = clamp cx rx (rx + rw);
          qy = clamp cy ry (ry + rh);
          dx = cx - qx; dy = cy - qy
      in dx * dx + dy * dy \<le> r * r)"

definition circleCircle :: "real \<Rightarrow> real \<Rightarrow> real \<Rightarrow> real \<Rightarrow> real \<Rightarrow> real \<Rightarrow> bool" where
  "circleCircle ax ay ar bx by br =
     (let dx = ax - bx; dy = ay - by; rr = ar + br
      in dx * dx + dy * dy \<le> rr * rr)"

text \<open>\<^verbatim>\<open>hsla(h, s, l, a)\<close> builds a colour string from the normalised hue and the clamped
  other components; the model keeps the four numbers.\<close>

datatype color = Rgba string | Hsla real real real real

definition hsla :: "real \<Rightarrow> real \<Rightarrow> real \<Rightarrow> real \<Rightarrow> color" where
  "hsla h s l a =
     Hsla (js_mod (js_mod h 360 + 360) 360) (clamp s 0 100) (clamp l 0 100) (clamp a 0 1)"

subsection \<open>The swappable random source\<close>

text \<open>
  The module variable \<^verbatim>\<open>_rand01\<close> holds the current source: the default
  \<^verbatim>\<open>Math.random\<close> (an arbitrary stream of the host, with a position), a tape
  recorder, a tape player or a plain seeded generator. The recorder's \<^verbatim>\<open>tapeOut\<close>
  and the player's \<^verbatim>\<open>tapeIn\<close> are always the array \<^verbatim>\<open>activeRun.rngTape\<close> of main.js
  (both are created from it and \<^verbatim>\<open>activeRun\<close> is replaced only together with the
  source), so the model keeps that one array next to the source.
\<close>

datatype rand_source =
    MathRandomSrc "nat \<Rightarrow> real" nat
  | RecorderSrc recorder
  | PlayerSrc nat
  | SeededSrc nat

record rnd =
  src :: rand_source
  rngTape :: "real list"

type_synonym 'a rand_m = "rnd \<Rightarrow> error + ('a \<times> rnd)"

definition rand01 :: "real rand_m" where
  "rand01 r =
     (case src r of
        MathRandomSrc f i \<Rightarrow> Inr (f i, r\<lparr>src := MathRandomSrc f (i + 1)\<rparr>)
      | RecorderSrc rc \<Rightarrow>
          (let (v, rc', t') = recorder_call rc (rngTape r)
           in Inr (v, \<lparr>src = RecorderSrc rc', rngTape = t'\<rparr>))
      | PlayerSrc i \<Rightarrow>
          (case player_call (rngTape r) i of
             Inl e \<Rightarrow> Inl e
           | Inr (v, i') \<Rightarrow> Inr (v, r\<lparr>src := PlayerSrc i'\<rparr>))
      | SeededSrc a \<Rightarrow>
          (let (v, a') = mulberry32_call a in Inr (v, r\<lparr>src := SeededSrc a'\<rparr>)))"

text \<open>Sequencing of computations that draw random numbers; an exception ends the
  computation.\<close>

definition returnR :: "'a \<Rightarrow> 'a rand_m" where
  "returnR a r = Inr (a, r)"

definition bindR :: "'a rand_m \<Rightarrow> ('a \<Rightarrow> 'b rand_m) \<Rightarrow> 'b rand_m" where
  "bindR m f r = (case m r of Inl e \<Rightarrow> Inl e | Inr (a, r') \<Rightarrow> f a r')"

text \<open>\<^verbatim>\<open>rand(a, b) = a + (b - a) * _rand01()\<close>.\<close>

definition rand :: "real \<Rightarrow> real \<Rightarrow> real rand_m" where
  "rand a b = bindR rand01 (\<lambda>u. returnR (a + (b - a) * u))"

section \<open>config.js: the configuration\<close>

text \<open>
  The configuration object, one record per JSON object. \<^verbatim>\<open>loadConfig\<close> merges a
  loaded file into the defaults keeping the default's keys and types, so every field
  is present and every number is finite. The pipe colours are read by the renderer
  only and are left out.
\<close>

record cfg_player =
  maxSpeed :: real
  accel :: real
  friction :: real
  sizeScale :: real
  sizeMin :: real
  sizeMax :: real
  radiusScale :: real

record cfg_difficulty =
  timeToMax :: real
  scoreToMax :: real
  mixTime :: real
  mixScore :: real

record cfg_spawnInterval =
  si_start :: real
  si_end :: real
  si_min :: real
  si_max :: real

record cfg_gap =
  startScale :: real
  endScale :: real
  gap_min :: real
  gap_max :: real

record cfg_special =
  startCadence :: real
  endCadence :: real
  jitterMin :: real
  jitterMax :: real

record cfg_pipes =
  pipes_difficulty :: cfg_difficulty
  pipes_spawnInterval :: cfg_spawnInterval
  speed_start :: real
  speed_end :: real
  thickness_scale :: real
  thickness_min :: real
  thickness_max :: real
  pipes_gap :: cfg_gap
  pipes_special :: cfg_special
  weights_wall :: "real \<times> real"
  weights_aimed :: "real \<times> real"

record cfg_skills =
  dash_cooldown :: real
  dash_duration :: real
  dash_speed :: real
  phase_cooldown :: real
  phase_duration :: real
  teleport_cooldown :: real
  teleport_range :: real
  teleport_effectDuration :: real
  teleport_burstParticles :: real
  slowField_cooldown :: real
  slowField_duration :: real
  slowField_radius :: real
  slowField_slowFactor :: real

record cfg_orbs =
  orbs_enabled :: bool
  intervalMin :: real
  intervalMax :: real
  maxOnScreen :: real
  lifetime :: real
  orb_radius :: real
  driftSpeedMin :: real
  driftSpeedMax :: real
  safeDistance :: real

record cfg_scoring =
  pipeDodge :: real
  orbBase :: real
  orbComboBonus :: real
  orbComboMax :: real
  perfect_enabled :: bool
  perfect_bonus :: real
  perfect_windowScale :: real
  perfect_flashDuration :: real

record cfg_comboBar =
  glowAt :: real
  sparkleAt :: real
  sparkleRate :: real

record config =
  c_player :: cfg_player
  c_pipes :: cfg_pipes
  c_skills :: cfg_skills
  c_orbs :: cfg_orbs
  c_scoring :: cfg_scoring
  c_comboBar :: cfg_comboBar

definition DEFAULT_CONFIG :: config where
  "DEFAULT_CONFIG =
     \<lparr>c_player = \<lparr>maxSpeed = 420, accel = 2600, friction = 16, sizeScale = 55 / 1000,
                  sizeMin = 28, sizeMax = 54, radiusScale = 38 / 100\<rparr>,
      c_pipes = \<lparr>pipes_difficulty = \<lparr>timeToMax = 38, scoreToMax = 120, mixTime = 55 / 100,
                                mixScore = 45 / 100\<rparr>,
                 pipes_spawnInterval = \<lparr>si_start = 78 / 100, si_end = 23 / 100, si_min = 18 / 100,
                                   si_max = 90 / 100\<rparr>,
                 speed_start = 240, speed_end = 560,
                 thickness_scale = 55 / 1000, thickness_min = 28, thickness_max = 64,
                 pipes_gap = \<lparr>startScale = 30 / 100, endScale = 20 / 100, gap_min = 88,
                         gap_max = 190\<rparr>,
                 pipes_special = \<lparr>startCadence = 38 / 10, endCadence = 23 / 10, jitterMin = 2 / 10,
                             jitterMax = 7 / 10\<rparr>,
                 weights_wall = (18 / 100, 30 / 100),
                 weights_aimed = (26 / 100, 40 / 100)\<rparr>,
      c_skills = \<lparr>dash_cooldown = 115 / 100, dash_duration = 18 / 100, dash_speed = 900,
                  phase_cooldown = 175 / 100, phase_duration = 40 / 100,
                  teleport_cooldown = 210 / 100, teleport_range = 170,
                  teleport_effectDuration = 35 / 100, teleport_burstParticles = 34,
                  slowField_cooldown = 450 / 100, slowField_duration = 180 / 100,
                  slowField_radius = 210, slowField_slowFactor = 58 / 100\<rparr>,
      c_orbs = \<lparr>orbs_enabled = True, intervalMin = 95 / 100, intervalMax = 165 / 100,
                maxOnScreen = 6, lifetime = 10, orb_radius = 12, driftSpeedMin = 10,
                driftSpeedMax = 45, safeDistance = 120\<rparr>,
      c_scoring = \<lparr>pipeDodge = 1, orbBase = 5, orbComboBonus = 1, orbComboMax = 30,
                   perfect_enabled = True, perfect_bonus = 10,
                   perfect_windowScale = 75 / 1000, perfect_flashDuration = 55 / 100\<rparr>,
      c_comboBar = \<lparr>glowAt = 8, sparkleAt = 12, sparkleRate = 28\<rparr>\<rparr>"

section \<open>game.js: entities\<close>

datatype game_state = MENU | PLAY | OVER

subsection \<open>Pipe\<close>

record pipe =
  p_x :: real
  p_y :: real
  p_w :: real
  p_h :: real
  p_vx :: real
  p_vy :: real
  p_entered :: bool
  p_scored :: bool

definition new_Pipe :: "real \<Rightarrow> real \<Rightarrow> real \<Rightarrow> real \<Rightarrow> real \<Rightarrow> real \<Rightarrow> pipe" where
  "new_Pipe x y w h vx vy =
     \<lparr>p_x = x, p_y = y, p_w = w, p_h = h, p_vx = vx, p_vy = vy,
      p_entered = False, p_scored = False\<rparr>"

definition pipe_cx :: "pipe \<Rightarrow> real" where
  "pipe_cx p = p_x p + p_w p * (1 / 2)"

definition pipe_cy :: "pipe \<Rightarrow> real" where
  "pipe_cy p = p_y p + p_h p * (1 / 2)"

definition pipe_update :: "real \<Rightarrow> real \<Rightarrow> real \<Rightarrow> real \<Rightarrow> pipe \<Rightarrow> pipe" where
  "pipe_update dt mul W H p =
     (let p1 = p\<lparr>p_x := p_x p + p_vx p * dt * mul, p_y := p_y p + p_vy p * dt * mul\<rparr>
      in if \<not> p_entered p1
            \<and> p_x p1 + p_w p1 \<ge> 0 \<and> p_x p1 \<le> W \<and> p_y p1 + p_h p1 \<ge> 0 \<and> p_y p1 \<le> H
         then p1\<lparr>p_entered := True\<rparr> else p1)"

definition pipe_off :: "real \<Rightarrow> real \<Rightarrow> real \<Rightarrow> pipe \<Rightarrow> bool" where
  "pipe_off W H m p =
     (p_x p > W + m \<or> p_x p + p_w p < - m \<or> p_y p > H + m \<or> p_y p + p_h p < - m)"

subsection \<open>Gate\<close>

datatype axis = AxisX | AxisY

record gate =
  g_axis :: axis
  g_pos :: real
  g_prev :: real
  g_v :: real
  g_gapCenter :: real
  g_gapHalf :: real
  g_thick :: real
  g_entered :: bool
  g_cleared :: bool

definition new_Gate :: "axis \<Rightarrow> real \<Rightarrow> real \<Rightarrow> real \<Rightarrow> real \<Rightarrow> real \<Rightarrow> gate" where
  "new_Gate ax ps v gc gh th =
     \<lparr>g_axis = ax, g_pos = ps, g_prev = ps, g_v = v, g_gapCenter = gc, g_gapHalf = gh,
      g_thick = th, g_entered = False, g_cleared = False\<rparr>"

definition gate_update :: "real \<Rightarrow> real \<Rightarrow> real \<Rightarrow> gate \<Rightarrow> gate" where
  "gate_update dt W H g =
     (let g1 = g\<lparr>g_prev := g_pos g, g_pos := g_pos g + g_v g * dt\<rparr>;
          lim = (if g_axis g1 = AxisX then W else H)
      in if \<not> g_entered g1
            \<and> g_pos g1 + g_thick g1 * (1 / 2) \<ge> 0 \<and> g_pos g1 - g_thick g1 * (1 / 2) \<le> lim
         then g1\<lparr>g_entered := True\<rparr> else g1)"

definition gate_crossed :: "gate \<Rightarrow> real \<Rightarrow> bool" where
  "gate_crossed g playerAxis =
     (if g_cleared g \<or> \<not> g_entered g then False
      else if g_v g > 0 then g_prev g < playerAxis \<and> g_pos g \<ge> playerAxis
      else if g_v g < 0 then g_prev g > playerAxis \<and> g_pos g \<le> playerAxis
      else False)"

definition gate_off :: "real \<Rightarrow> real \<Rightarrow> real \<Rightarrow> gate \<Rightarrow> bool" where
  "gate_off W H m g =
     (if g_axis g = AxisX then g_pos g < - m \<or> g_pos g > W + m
      else g_pos g < - m \<or> g_pos g > H + m)"

subsection \<open>Orb\<close>

record orb =
  o_x :: real
  o_y :: real
  o_vx :: real
  o_vy :: real
  o_r :: real
  o_life :: real
  o_max :: real
  o_ph :: real

text \<open>The constructor draws the phase \<^verbatim>\<open>ph\<close> from the current random source.\<close>

definition new_Orb :: "real \<Rightarrow> real \<Rightarrow> real \<Rightarrow> real \<Rightarrow> real \<Rightarrow> real \<Rightarrow> orb rand_m" where
  "new_Orb x y vx vy r life =
     bindR (rand 0 (pi * 2)) (\<lambda>ph.
     returnR \<lparr>o_x = x, o_y = y, o_vx = vx, o_vy = vy, o_r = r, o_life = life, o_max = life,
              o_ph = ph\<rparr>)"

definition orb_update :: "real \<Rightarrow> real \<Rightarrow> real \<Rightarrow> orb \<Rightarrow> orb" where
  "orb_update dt W H ob =
     (let o1 = ob\<lparr>o_life := o_life ob - dt, o_ph := o_ph ob + dt * (22 / 10),
                  o_x := o_x ob + o_vx ob * dt, o_y := o_y ob + o_vy ob * dt\<rparr>;
          pad = o_r o1 + 4;
          o2 = (if o_x o1 < pad then o1\<lparr>o_x := pad, o_vx := \<bar>o_vx o1\<bar>\<rparr> else o1);
          o3 = (if o_x o2 > W - pad then o2\<lparr>o_x := W - pad, o_vx := - \<bar>o_vx o2\<bar>\<rparr> else o2);
          o4 = (if o_y o3 < pad then o3\<lparr>o_y := pad, o_vy := \<bar>o_vy o3\<bar>\<rparr> else o3);
          o5 = (if o_y o4 > H - pad then o4\<lparr>o_y := H - pad, o_vy := - \<bar>o_vy o4\<bar>\<rparr> else o4)
      in o5)"

definition orb_dead :: "orb \<Rightarrow> bool" where
  "orb_dead ob = (o_life ob \<le> 0)"

subsection \<open>Part and FloatText (visual effects)\<close>

record part =
  pt_x :: real
  pt_y :: real
  pt_vx :: real
  pt_vy :: real
  pt_life :: real
  pt_max :: real
  pt_size :: real
  pt_color :: color
  pt_add :: bool
  pt_drag :: real

definition new_Part ::
  "real \<Rightarrow> real \<Rightarrow> real \<Rightarrow> real \<Rightarrow> real \<Rightarrow> real \<Rightarrow> color \<Rightarrow> bool \<Rightarrow> part" where
  "new_Part x y vx vy life sz col ad =
     \<lparr>pt_x = x, pt_y = y, pt_vx = vx, pt_vy = vy, pt_life = life, pt_max = life,
      pt_size = sz, pt_color = col, pt_add = ad, pt_drag = 0\<rparr>"

definition part_update :: "real \<Rightarrow> part \<Rightarrow> part" where
  "part_update dt p =
     (let p1 = p\<lparr>pt_life := pt_life p - dt\<rparr>
      in if pt_life p1 \<le> 0 then p1
         else let p2 = (if pt_drag p1 > 0
                        then let d = exp (- pt_drag p1 * dt)
                             in p1\<lparr>pt_vx := pt_vx p1 * d, pt_vy := pt_vy p1 * d\<rparr>
                        else p1)
              in p2\<lparr>pt_x := pt_x p2 + pt_vx p2 * dt, pt_y := pt_y p2 + pt_vy p2 * dt\<rparr>)"

text \<open>The text of a \<^verbatim>\<open>FloatText\<close> is a fixed label or \<^verbatim>\<open>`+${n}`\<close> for a number \<open>n\<close>.\<close>

datatype ftxt = TxtLabel string | TxtPlus real

record floattext =
  ft_txt :: ftxt
  ft_x :: real
  ft_y :: real
  ft_vx :: real
  ft_vy :: real
  ft_life :: real
  ft_max :: real
  ft_color :: color
  ft_size :: real

definition new_FloatText :: "ftxt \<Rightarrow> real \<Rightarrow> real \<Rightarrow> color \<Rightarrow> floattext rand_m" where
  "new_FloatText txt x y col =
     bindR (rand (- 18) 18) (\<lambda>vx.
     bindR (rand (- 90) (- 55)) (\<lambda>vy.
     returnR \<lparr>ft_txt = txt, ft_x = x, ft_y = y, ft_vx = vx, ft_vy = vy,
              ft_life = 9 / 10, ft_max = 9 / 10, ft_color = col, ft_size = 18\<rparr>))"

definition float_update :: "real \<Rightarrow> floattext \<Rightarrow> floattext" where
  "float_update dt t =
     (let t1 = t\<lparr>ft_life := ft_life t - dt\<rparr>
      in if ft_life t1 \<le> 0 then t1
         else let t2 = t1\<lparr>ft_x := ft_x t1 + ft_vx t1 * dt, ft_y := ft_y t1 + ft_vy t1 * dt\<rparr>;
                  d = exp (- (27 / 10) * dt)
              in t2\<lparr>ft_vx := ft_vx t2 * d, ft_vy := ft_vy t2 * d\<rparr>)"

section \<open>game.js: the Game object\<close>

record player =
  pl_x :: real
  pl_y :: real
  pl_vx :: real
  pl_vy :: real
  pl_w :: real
  pl_h :: real
  pl_r :: real
  pl_lastX :: real
  pl_lastY :: real
  pl_invT :: real
  pl_dashT :: real
  pl_dashVX :: real
  pl_dashVY :: real

record slowfield =
  sf_x :: real
  sf_y :: real
  sf_r :: real
  sf_fac :: real
  sf_t :: real
  sf_tm :: real

record cooldowns =
  cd_dash :: real
  cd_phase :: real
  cd_teleport :: real
  cd_slowField :: real

datatype skill = Dash | Phase | Teleport | SlowField

text \<open>
  What the game reads from its \<^verbatim>\<open>input\<close> object: \<^verbatim>\<open>getMove()\<close> and \<^verbatim>\<open>cursor\<close>. The
  object is the real \<^verbatim>\<open>Input\<close> during a live run and the replay player's stand-in
  during a replay, so the game functions take this view as an argument.
\<close>

record cursor =
  cur_x :: real
  cur_y :: real
  cur_has :: bool

record input_view =
  mv_dx :: real
  mv_dy :: real
  in_cursor :: cursor

text \<open>
  The fields of \<^verbatim>\<open>Game\<close>. \<open>canvas_width\<close> and \<open>canvas_height\<close> are the size of the canvas
  the game draws on, \<open>trailId\<close> is what the \<^verbatim>\<open>getTrailId\<close> callback returns. The
  background dots (decoration moved with \<^verbatim>\<open>Math.random\<close>) and the audio switch are read
  by the renderer and the sound effects only and are left out.
\<close>

record game =
  state :: game_state
  W :: real
  H :: real
  canvas_width :: real
  canvas_height :: real
  cfg :: config
  trailId :: string
  player :: player
  pipes :: "pipe list"
  gates :: "gate list"
  orbs :: "orb list"
  parts :: "part list"
  floats :: "floattext list"
  score :: real
  timeAlive :: real
  pipeT :: real
  specialT :: real
  orbT :: real
  combo :: real
  comboBreakFlash :: real
  comboSparkAcc :: real
  perfectT :: real
  perfectMax :: real
  slowField :: "slowfield option"
  cds :: cooldowns
  trailAcc :: real
  trailHue :: real

text \<open>The constructor, for a configuration and a trail; the canvas has no size yet.\<close>

definition new_Game :: "config \<Rightarrow> string \<Rightarrow> game" where
  "new_Game c tid =
     \<lparr>state = MENU, W = 1, H = 1, canvas_width = 0, canvas_height = 0, cfg = c, trailId = tid,
      player = \<lparr>pl_x = 0, pl_y = 0, pl_vx = 0, pl_vy = 0, pl_w = 48, pl_h = 48, pl_r = 18,
                 pl_lastX = 0, pl_lastY = - 1, pl_invT = 0, pl_dashT = 0, pl_dashVX = 0,
                 pl_dashVY = 0\<rparr>,
      pipes = [], gates = [], orbs = [], parts = [], floats = [],
      score = 0, timeAlive = 0, pipeT = 0, specialT = 16 / 10, orbT = 1,
      combo = 0, comboBreakFlash = 0, comboSparkAcc = 0, perfectT = 0, perfectMax = 0,
      slowField = None,
      cds = \<lparr>cd_dash = 0, cd_phase = 0, cd_teleport = 0, cd_slowField = 0\<rparr>,
      trailAcc = 0, trailHue = 0\<rparr>"

text \<open>\<^verbatim>\<open>_computePlayerSize\<close> for a player image of natural size \<open>iw\<close> by \<open>ih\<close>
  (\<^verbatim>\<open>naturalWidth || 1\<close>, \<^verbatim>\<open>naturalHeight || 1\<close>).\<close>

definition computePlayerSize :: "real \<Rightarrow> real \<Rightarrow> game \<Rightarrow> game" where
  "computePlayerSize iw ih g =
     (let base = min (W g) (H g);
          pc = c_player (cfg g);
          target = clamp (base * sizeScale pc) (sizeMin pc) (sizeMax pc);
          w = target;
          h = target * (num_or ih 1 / num_or iw 1)
      in g\<lparr>player := (player g)\<lparr>pl_w := w, pl_h := h, pl_r := min w h * radiusScale pc\<rparr>\<rparr>)"

text \<open>\<^verbatim>\<open>resizeToWindow\<close> for a window of inner size \<open>innerW\<close> by \<open>innerH\<close> and a device
  pixel ratio.\<close>

definition resizeToWindow :: "real \<Rightarrow> real \<Rightarrow> real \<Rightarrow> real \<Rightarrow> real \<Rightarrow> game \<Rightarrow> game" where
  "resizeToWindow devicePixelRatio innerW innerH iw ih g =
     (let dpr = min (num_or devicePixelRatio 1) 2;
          cssW = max 1 innerW;
          cssH = max 1 innerH
      in computePlayerSize iw ih
           (g\<lparr>canvas_width := real_of_int \<lfloor>cssW * dpr\<rfloor>,
              canvas_height := real_of_int \<lfloor>cssH * dpr\<rfloor>,
              W := cssW, H := cssH\<rparr>))"

subsection \<open>Loops\<close>

text \<open>\<^verbatim>\<open>for (let i = i0; i < i0 + n; i++) body\<close> over a state, with random draws.\<close>

fun forR :: "nat \<Rightarrow> nat \<Rightarrow> (nat \<Rightarrow> 's \<Rightarrow> 's rand_m) \<Rightarrow> 's \<Rightarrow> 's rand_m" where
  "forR i 0 body s = returnR s"
| "forR i (Suc n) body s = bindR (body i s) (forR (Suc i) n body)"

text \<open>\<^verbatim>\<open>for (const x of xs) body\<close> over a state, with random draws.\<close>

fun forEachR :: "'a list \<Rightarrow> ('a \<Rightarrow> 's \<Rightarrow> 's rand_m) \<Rightarrow> 's \<Rightarrow> 's rand_m" where
  "forEachR [] body s = returnR s"
| "forEachR (x # xs) body s = bindR (body x s) (forEachR xs body)"

text \<open>
  Results of code that may also run forever: \<open>None\<close> is not returning, \<open>Some (Inl e)\<close>
  an exception, \<open>Some (Inr (a, r))\<close> a result with the random source after.
\<close>

type_synonym 'a exec_m = "rnd \<Rightarrow> (error + ('a \<times> rnd)) option"

definition liftR :: "'a rand_m \<Rightarrow> 'a exec_m" where
  "liftR m r = Some (m r)"

definition bindX :: "'a exec_m \<Rightarrow> ('a \<Rightarrow> 'b exec_m) \<Rightarrow> 'b exec_m" where
  "bindX m f r =
     (case m r of None \<Rightarrow> None | Some (Inl e) \<Rightarrow> Some (Inl e) | Some (Inr (a, r')) \<Rightarrow> f a r')"

text \<open>\<^verbatim>\<open>while (c(s)) body\<close> over a state, with random draws.\<close>

partial_function (option) whileR ::
  "('s \<Rightarrow> bool) \<Rightarrow> ('s \<Rightarrow> 's rand_m) \<Rightarrow> 's \<Rightarrow> rnd \<Rightarrow> (error + ('s \<times> rnd)) option" where
  "whileR c body s r =
     (if c s then
        (case body s r of Inl e \<Rightarrow> Some (Inl e) | Inr (s', r') \<Rightarrow> whileR c body s' r')
      else Some (Inr (s, r)))"

subsection \<open>Run reset\<close>

definition resetPlayer :: "game \<Rightarrow> game" where
  "resetPlayer g =
     g\<lparr>player := (player g)\<lparr>pl_x := W g * (1 / 2), pl_y := H g * (1 / 2), pl_vx := 0, pl_vy := 0,
                              pl_invT := 0, pl_dashT := 0, pl_lastX := 0, pl_lastY := - 1\<rparr>\<rparr>"

definition resetRun :: "bool \<Rightarrow> game \<Rightarrow> game rand_m" where
  "resetRun clearScore g =
     (let g1 = g\<lparr>pipes := [], gates := [], orbs := [], parts := [], floats := []\<rparr>;
          g2 = (if clearScore then g1\<lparr>score := 0\<rparr> else g1);
          g3 = g2\<lparr>timeAlive := 0, pipeT := 0, specialT := 16 / 10\<rparr>
      in bindR (rand (intervalMin (c_orbs (cfg g3))) (intervalMax (c_orbs (cfg g3)))) (\<lambda>t.
         returnR (resetPlayer
           (g3\<lparr>orbT := t, combo := 0, comboBreakFlash := 0, comboSparkAcc := 0,
                perfectT := 0, perfectMax := 0, slowField := None,
                cds := \<lparr>cd_dash = 0, cd_phase = 0, cd_teleport = 0, cd_slowField = 0\<rparr>,
                trailAcc := 0, trailHue := 0\<rparr>))))"

definition setStateMenu :: "game \<Rightarrow> game rand_m" where
  "setStateMenu g = resetRun False (g\<lparr>state := MENU\<rparr>)"

definition startRun :: "game \<Rightarrow> game rand_m" where
  "startRun g = resetRun True (g\<lparr>state := PLAY\<rparr>)"

subsection \<open>Difficulty and sizes\<close>

definition margin :: "game \<Rightarrow> real" where
  "margin g = clamp (min (W g) (H g) * (25 / 100)) 110 240"

definition difficulty01 :: "game \<Rightarrow> real" where
  "difficulty01 g =
     (let df = pipes_difficulty (c_pipes (cfg g));
          t = timeAlive g; s = score g;
          tc = max (1 / 1000) (num_or (timeToMax df) 38);
          sc = max (1 / 1000) (num_or (scoreToMax df) 120);
          mt = clamp (num_or (mixTime df) (55 / 100)) 0 1;
          ms = clamp (num_or (mixScore df) (45 / 100)) 0 1;
          dT = 1 - exp (- (t / tc));
          dS = 1 - exp (- (s / sc))
      in clamp (mt * dT + ms * dS) 0 1)"

definition spawnInterval :: "game \<Rightarrow> real" where
  "spawnInterval g =
     (let d = difficulty01 g; si = pipes_spawnInterval (c_pipes (cfg g))
      in clamp (lerp (si_start si) (si_end si) d) (si_min si) (si_max si))"

definition pipeSpeed :: "game \<Rightarrow> real" where
  "pipeSpeed g =
     (let d = difficulty01 g
      in lerp (speed_start (c_pipes (cfg g))) (speed_end (c_pipes (cfg g))) d)"

definition thickness :: "game \<Rightarrow> real" where
  "thickness g =
     (let base = min (W g) (H g); c = c_pipes (cfg g)
      in clamp (base * thickness_scale c) (thickness_min c) (thickness_max c))"

definition gapSize :: "game \<Rightarrow> real" where
  "gapSize g =
     (let d = difficulty01 g; base = min (W g) (H g); gp = pipes_gap (c_pipes (cfg g))
      in clamp (lerp (base * startScale gp) (base * endScale gp) d) (gap_min gp) (gap_max gp))"

record skill_ui =
  ui_x0 :: real
  ui_y0 :: real
  ui_size :: real
  ui_gap :: real
  ui_totalW :: real
  ui_barX :: real
  ui_barY :: real
  ui_barW :: real
  ui_barH :: real

definition skillUI :: "game \<Rightarrow> skill_ui" where
  "skillUI g =
     (let base = min (W g) (H g);
          sz = clamp (base * (7 / 100)) 46 64;
          gp = real_of_int (round (sz * (14 / 100)));
          pad = 16;
          x0 = pad;
          y0 = H g - pad - sz;
          totalW = 4 * sz + 3 * gp;
          barH = 10;
          barX = x0;
          barY = y0 - 16 - barH
      in \<lparr>ui_x0 = x0, ui_y0 = y0, ui_size = sz, ui_gap = gp, ui_totalW = totalW,
          ui_barX = barX, ui_barY = barY, ui_barW = totalW, ui_barH = barH\<rparr>)"

subsection \<open>Spawning\<close>

text \<open>The option objects passed to the spawn functions; an absent key is \<open>None\<close>.\<close>

record spawn_opts =
  opt_side :: "int option"
  opt_speed :: "real option"
  opt_gap :: "real option"
  opt_aimAtPlayer :: bool
  opt_spreadRad :: "real option"

definition no_opts :: spawn_opts where
  "no_opts = \<lparr>opt_side = None, opt_speed = None, opt_gap = None, opt_aimAtPlayer = False,
              opt_spreadRad = None\<rparr>"

text \<open>\<^verbatim>\<open>(typeof opts.side === "number") ? opts.side : ((rand(0, 4)) | 0)\<close>.\<close>

definition pick_side :: "spawn_opts \<Rightarrow> int rand_m" where
  "pick_side opts =
     (case opt_side opts of
        Some s \<Rightarrow> returnR s
      | None \<Rightarrow> bindR (rand 0 4) (\<lambda>v. returnR (toInt32 v)))"

definition spawnSinglePipe :: "spawn_opts \<Rightarrow> game \<Rightarrow> game rand_m" where
  "spawnSinglePipe opts g =
     (let th = thickness g in
      bindR (rand 3 (65 / 10)) (\<lambda>u.
      let len = clamp (th * u) (th * (26 / 10)) (max (W g) (H g) * (55 / 100));
          spd = (case opt_speed opts of Some s \<Rightarrow> s | None \<Rightarrow> pipeSpeed g)
      in
      bindR (pick_side opts) (\<lambda>side.
      bindR
        (if side = 0 then
           bindR (rand (- len * (15 / 100)) (H g - len * (85 / 100))) (\<lambda>y.
           bindR (rand (- spd * (28 / 100)) (spd * (28 / 100))) (\<lambda>vy.
           returnR (new_Pipe (- th - 12) y th len spd vy)))
         else if side = 1 then
           bindR (rand (- len * (15 / 100)) (H g - len * (85 / 100))) (\<lambda>y.
           bindR (rand (- spd * (28 / 100)) (spd * (28 / 100))) (\<lambda>vy.
           returnR (new_Pipe (W g + 12) y th len (- spd) vy)))
         else if side = 2 then
           bindR (rand (- len * (15 / 100)) (W g - len * (85 / 100))) (\<lambda>x.
           bindR (rand (- spd * (28 / 100)) (spd * (28 / 100))) (\<lambda>vx.
           returnR (new_Pipe x (- th - 12) len th vx spd)))
         else if side = 3 then
           bindR (rand (- len * (15 / 100)) (W g - len * (85 / 100))) (\<lambda>x.
           bindR (rand (- spd * (28 / 100)) (spd * (28 / 100))) (\<lambda>vx.
           returnR (new_Pipe x (H g + 12) len th vx (- spd))))
         else returnR (new_Pipe 0 0 0 0 0 0)) (\<lambda>p0.
      bindR
        (if opt_aimAtPlayer opts then
           bindR (if side = 0 then returnR (- th * (1 / 2))
                  else if side = 1 then returnR (W g + th * (1 / 2))
                  else rand 0 (W g)) (\<lambda>cx.
           bindR (if side = 2 then returnR (- th * (1 / 2))
                  else if side = 3 then returnR (H g + th * (1 / 2))
                  else rand 0 (H g)) (\<lambda>cy.
           let d0 = norm2 (pl_x (player g) - cx) (pl_y (player g) - cy) in
           bindR (case opt_spreadRad opts of
                    Some s \<Rightarrow> returnR s
                  | None \<Rightarrow> rand (- (22 / 100)) (22 / 100)) (\<lambda>spread.
           let cs = cos spread; sn = sin spread;
               ux = n_x d0 * cs - n_y d0 * sn;
               uy = n_x d0 * sn + n_y d0 * cs;
               p1 = p0\<lparr>p_vx := ux * spd, p_vy := uy * spd\<rparr>;
               pw = p_w p1; ph = p_h p1
           in returnR
                (if side = 0 then
                   p1\<lparr>p_x := - pw - 14, p_y := clamp (cy - ph * (1 / 2)) (- ph) (H g + ph)\<rparr>
                 else if side = 1 then
                   p1\<lparr>p_x := W g + 14, p_y := clamp (cy - ph * (1 / 2)) (- ph) (H g + ph)\<rparr>
                 else if side = 2 then
                   p1\<lparr>p_y := - ph - 14, p_x := clamp (cx - pw * (1 / 2)) (- pw) (W g + pw)\<rparr>
                 else if side = 3 then
                   p1\<lparr>p_y := H g + 14, p_x := clamp (cx - pw * (1 / 2)) (- pw) (W g + pw)\<rparr>
                 else p1))))
         else returnR p0) (\<lambda>p.
      returnR (g\<lparr>pipes := pipes g @ [p]\<rparr>))))))"

definition spawnWall :: "spawn_opts \<Rightarrow> game \<Rightarrow> game rand_m" where
  "spawnWall opts g =
     (let th = thickness g;
          spd = (case opt_speed opts of Some s \<Rightarrow> s | None \<Rightarrow> pipeSpeed g * (95 / 100));
          gp = (case opt_gap opts of Some x \<Rightarrow> x | None \<Rightarrow> gapSize g)
      in
      bindR (pick_side opts) (\<lambda>side.
      let pad = max 18 (pl_r (player g) * (11 / 10)) in
      if side = 0 \<or> side = 1 then
        bindR (rand (pad + gp * (1 / 2)) (H g - (pad + gp * (1 / 2)))) (\<lambda>gc.
        let top = gc - gp * (1 / 2); bot = gc + gp * (1 / 2);
            topLen = clamp top 10 (H g); botLen = clamp (H g - bot) 10 (H g);
            sx = (if side = 0 then - th - 16 else W g + 16);
            vx = (if side = 0 then spd else - spd);
            ps1 = (if topLen > 10 then pipes g @ [new_Pipe sx 0 th topLen vx 0] else pipes g);
            ps2 = (if botLen > 10 then ps1 @ [new_Pipe sx bot th botLen vx 0] else ps1)
        in returnR
             (g\<lparr>pipes := ps2,
                gates := gates g @ [new_Gate AxisX (sx + th * (1 / 2)) vx gc (gp * (1 / 2)) th]\<rparr>))
      else
        bindR (rand (pad + gp * (1 / 2)) (W g - (pad + gp * (1 / 2)))) (\<lambda>gc.
        let left = gc - gp * (1 / 2); right = gc + gp * (1 / 2);
            leftLen = clamp left 10 (W g); rightLen = clamp (W g - right) 10 (W g);
            sy = (if side = 2 then - th - 16 else H g + 16);
            vy = (if side = 2 then spd else - spd);
            ps1 = (if leftLen > 10 then pipes g @ [new_Pipe 0 sy leftLen th 0 vy] else pipes g);
            ps2 = (if rightLen > 10 then ps1 @ [new_Pipe right sy rightLen th 0 vy] else ps1)
        in returnR
             (g\<lparr>pipes := ps2,
                gates := gates g @ [new_Gate AxisY (sy + th * (1 / 2)) vy gc (gp * (1 / 2)) th]\<rparr>))))"

definition spawnBurst :: "game \<Rightarrow> game rand_m" where
  "spawnBurst g =
     (let d = difficulty01 g in
      bindR (rand 0 4) (\<lambda>v.
      let side = toInt32 v;
          count = \<lfloor>lerp 5 8 d\<rfloor>;
          spd = pipeSpeed g * lerp (92 / 100) (112 / 100) d;
          arc = lerp (65 / 100) (95 / 100) d
      in forR 0 (nat count)
           (\<lambda>i g'.
              let t = (if count = 1 then 1 / 2 else real i / real_of_int (count - 1));
                  spread = (t - 1 / 2) * arc
              in spawnSinglePipe
                   \<lparr>opt_side = Some side, opt_speed = Some spd, opt_gap = None,
                    opt_aimAtPlayer = True, opt_spreadRad = Some spread\<rparr> g')
           g))"

definition spawnCrossfire :: "game \<Rightarrow> game rand_m" where
  "spawnCrossfire g =
     (let d = difficulty01 g;
          spd = pipeSpeed g * lerp (95 / 100) (110 / 100) d
      in forEachR [0, 1, 2, 3]
           (\<lambda>side g'.
              bindR (rand (- (1 / 10)) (1 / 10)) (\<lambda>sr.
              spawnSinglePipe
                \<lparr>opt_side = Some side, opt_speed = Some spd, opt_gap = None,
                 opt_aimAtPlayer = True, opt_spreadRad = Some sr\<rparr> g'))
           g)"

text \<open>The placement loop of \<^verbatim>\<open>_spawnOrb\<close>: up to \<open>n\<close> tries, the first far enough from
  the player wins, else the centre of the play area.\<close>

fun orb_place :: "nat \<Rightarrow> game \<Rightarrow> real \<Rightarrow> real \<Rightarrow> (real \<times> real) rand_m" where
  "orb_place 0 g r safe = returnR (W g * (1 / 2), H g * (1 / 2))"
| "orb_place (Suc n) g r safe =
     bindR (rand (r + 10) (W g - r - 10)) (\<lambda>px.
     bindR (rand (r + 10) (H g - r - 10)) (\<lambda>py.
     if sqrt ((px - pl_x (player g)) * (px - pl_x (player g))
              + (py - pl_y (player g)) * (py - pl_y (player g)))
          \<ge> pl_r (player g) + r + safe
     then returnR (px, py)
     else orb_place n g r safe))"

definition spawnOrb :: "game \<Rightarrow> game rand_m" where
  "spawnOrb g =
     (let oc = c_orbs (cfg g) in
      if \<not> orbs_enabled oc then returnR g
      else if real (length (orbs g)) \<ge> maxOnScreen oc then returnR g
      else
        let r = clamp (num_or (orb_radius oc) 12) 6 40;
            life = clamp (num_or (lifetime oc) 10) 1 60;
            safe = clamp (num_or (safeDistance oc) 120) 0 800
        in
        bindR (orb_place 18 g r safe) (\<lambda>(x, y).
        bindR (rand (driftSpeedMin oc) (driftSpeedMax oc)) (\<lambda>sp.
        bindR (rand 0 (pi * 2)) (\<lambda>a.
        bindR (new_Orb x y (cos a * sp) (sin a * sp) r life) (\<lambda>ob.
        returnR (g\<lparr>orbs := orbs g @ [ob]\<rparr>))))))"

subsection \<open>Scoring helpers and cooldowns\<close>

definition orbPoints :: "game \<Rightarrow> real \<Rightarrow> real" where
  "orbPoints g comboNow =
     (let base = max 0 (num_or (orbBase (c_scoring (cfg g))) 0);
          bonus = max 0 (num_or (orbComboBonus (c_scoring (cfg g))) 0)
      in real_of_int (round (base + bonus * max 0 (comboNow - 1))))"

definition breakCombo :: "real \<Rightarrow> real \<Rightarrow> game \<Rightarrow> game rand_m" where
  "breakCombo x y g =
     bindR (if combo g > 0 then
              bindR (new_FloatText (TxtLabel ''COMBO BROKE'') x y (Rgba ''rgba(255,90,90,.95)''))
                (\<lambda>ft. returnR (g\<lparr>floats := floats g @ [ft]\<rparr>))
            else returnR g) (\<lambda>g1.
     returnR (g1\<lparr>combo := 0, comboBreakFlash := 35 / 100\<rparr>))"

definition tickCooldowns :: "real \<Rightarrow> game \<Rightarrow> game" where
  "tickCooldowns dt g =
     g\<lparr>cds := \<lparr>cd_dash = max 0 (cd_dash (cds g) - dt),
                cd_phase = max 0 (cd_phase (cds g) - dt),
                cd_teleport = max 0 (cd_teleport (cds g) - dt),
                cd_slowField = max 0 (cd_slowField (cds g) - dt)\<rparr>\<rparr>"

subsection \<open>Skills\<close>

definition cd_of :: "skill \<Rightarrow> cooldowns \<Rightarrow> real" where
  "cd_of name c =
     (case name of Dash \<Rightarrow> cd_dash c | Phase \<Rightarrow> cd_phase c
      | Teleport \<Rightarrow> cd_teleport c | SlowField \<Rightarrow> cd_slowField c)"

text \<open>The block \<^verbatim>\<open>if (name === "dash")\<close> of \<^verbatim>\<open>_useSkill\<close>.\<close>

definition useDash :: "input_view \<Rightarrow> game \<Rightarrow> game rand_m" where
  "useDash inp g =
     (let d = c_skills (cfg g);
          dur = clamp (num_or (dash_duration d) 0) 0 (12 / 10);
          p = player g;
          n = norm2 (mv_dx inp) (mv_dy inp);
          dx = (if n_len n > 0 then n_x n else pl_lastX p);
          dy = (if n_len n > 0 then n_y n else pl_lastY p);
          nn = norm2 dx dy;
          p1 = p\<lparr>pl_dashVX := (if n_len nn > 0 then n_x nn else 0),
                 pl_dashVY := (if n_len nn > 0 then n_y nn else - 1),
                 pl_dashT := dur\<rparr>;
          g1 = g\<lparr>player := p1, cds := (cds g)\<lparr>cd_dash := max 0 (num_or (dash_cooldown d) 0)\<rparr>\<rparr>
      in forR 0 18
           (\<lambda>i g'.
              bindR (rand 0 (pi * 2)) (\<lambda>a.
              bindR (rand 40 260) (\<lambda>sp.
              let vx = cos a * sp - pl_dashVX p1 * 220;
                  vy = sin a * sp - pl_dashVY p1 * 220
              in
              bindR (rand (18 / 100) (34 / 100)) (\<lambda>life.
              bindR (rand 1 (22 / 10)) (\<lambda>sz.
              returnR
                (g'\<lparr>parts := parts g' @
                     [(new_Part (pl_x p1) (pl_y p1) vx vy life sz
                         (Rgba ''rgba(255,255,255,.80)'') True)\<lparr>pt_drag := 95 / 10\<rparr>]\<rparr>))))))
           g1)"

text \<open>The block \<^verbatim>\<open>if (name === "phase")\<close>.\<close>

definition usePhase :: "game \<Rightarrow> game rand_m" where
  "usePhase g =
     (let ph = c_skills (cfg g);
          dur = clamp (num_or (phase_duration ph) 0) 0 2;
          p = player g;
          p1 = p\<lparr>pl_invT := max (pl_invT p) dur\<rparr>;
          g1 = g\<lparr>player := p1, cds := (cds g)\<lparr>cd_phase := max 0 (num_or (phase_cooldown ph) 0)\<rparr>\<rparr>
      in bindR (new_FloatText (TxtLabel ''PHASE'') (pl_x p1) (pl_y p1 - pl_r p1 * (16 / 10))
                  (Rgba ''rgba(160,220,255,.95)''))
           (\<lambda>ft. returnR (g1\<lparr>floats := floats g1 @ [ft]\<rparr>)))"

text \<open>The block \<^verbatim>\<open>if (name === "teleport")\<close>. The cursor read is \<^verbatim>\<open>this.input.cursor\<close>;
  \<^verbatim>\<open>this.canvas?.width || this.W\<close> is the canvas width unless that is 0.\<close>

definition useTeleport :: "input_view \<Rightarrow> game \<Rightarrow> game rand_m" where
  "useTeleport inp g =
     (let t = c_skills (cfg g);
          ed = clamp (num_or (teleport_effectDuration t) (35 / 100)) (1 / 10) (12 / 10);
          burst = \<lfloor>clamp (num_or (teleport_burstParticles t) 0) 0 240\<rfloor>;
          cur = in_cursor inp
      in
      if \<not> cur_has cur then returnR g
      else
        let p = player g;
            pad = pl_r p + 2;
            ox = pl_x p; oy = pl_y p;
            cw = num_or (canvas_width g) (W g);
            ch = num_or (canvas_height g) (H g);
            sx = (if cw > 0 then W g / cw else 1);
            sy = (if ch > 0 then H g / ch else 1);
            tx = cur_x cur * sx;
            ty = cur_y cur * sy;
            nx = clamp tx pad (W g - pad);
            ny = clamp ty pad (H g - pad)
        in
        bindR
          (forR 0 (nat burst)
             (\<lambda>i g'.
                bindR (rand 0 (pi * 2)) (\<lambda>a0.
                bindR (rand 80 420) (\<lambda>sp0.
                bindR (rand (22 / 100) (50 / 100)) (\<lambda>life0.
                bindR (rand 1 (22 / 10)) (\<lambda>sz0.
                let p0 = (new_Part ox oy (cos a0 * sp0) (sin a0 * sp0) life0 sz0
                            (Rgba ''rgba(210,170,255,.92)'') True)\<lparr>pt_drag := 75 / 10\<rparr>
                in
                bindR (rand 0 (pi * 2)) (\<lambda>a1.
                bindR (rand 80 420) (\<lambda>sp1.
                bindR (rand (22 / 100) (55 / 100)) (\<lambda>life1.
                bindR (rand 1 (24 / 10)) (\<lambda>sz1.
                let p1 = (new_Part nx ny (cos a1 * sp1) (sin a1 * sp1) life1 sz1
                            (Rgba ''rgba(255,255,255,.82)'') True)\<lparr>pt_drag := 7\<rparr>
                in returnR (g'\<lparr>parts := parts g' @ [p0, p1]\<rparr>))))))))))
             g) (\<lambda>g1.
        let p2 = (player g1)\<lparr>pl_x := nx, pl_y := ny,
                               pl_vx := pl_vx (player g1) * (25 / 100),
                               pl_vy := pl_vy (player g1) * (25 / 100)\<rparr>;
            g2 = g1\<lparr>player := p2,
                    cds := (cds g1)\<lparr>cd_teleport := max 0 (num_or (teleport_cooldown t) 0)\<rparr>\<rparr>
        in
        bindR (new_FloatText (TxtLabel ''TELEPORT'') (pl_x p2) (pl_y p2 - pl_r p2 * (17 / 10))
                 (Rgba ''rgba(230,200,255,.95)'')) (\<lambda>ft.
        forR 0 26
          (\<lambda>i g'.
             bindR (rand 0 (pi * 2)) (\<lambda>a.
             bindR (rand 40 160) (\<lambda>sp.
             bindR (rand (9 / 10) (17 / 10)) (\<lambda>sz.
             returnR
               (g'\<lparr>parts := parts g' @
                    [(new_Part nx ny (cos a * sp) (sin a * sp) ed sz
                        (Rgba ''rgba(255,255,255,.45)'') True)\<lparr>pt_drag := 10\<rparr>]\<rparr>)))))
          (g2\<lparr>floats := floats g2 @ [ft]\<rparr>))))"

text \<open>The block \<^verbatim>\<open>if (name === "slowField")\<close>.\<close>

definition useSlowField :: "game \<Rightarrow> game rand_m" where
  "useSlowField g =
     (let s = c_skills (cfg g);
          dur = clamp (num_or (slowField_duration s) 0) 0 8;
          rad = clamp (num_or (slowField_radius s) 0) 40 900;
          fac = clamp (num_or (slowField_slowFactor s) (6 / 10)) (10 / 100) 1;
          p = player g;
          g1 = g\<lparr>slowField := Some \<lparr>sf_x = pl_x p, sf_y = pl_y p, sf_r = rad, sf_fac = fac,
                                     sf_t = dur, sf_tm = dur\<rparr>,
                  cds := (cds g)\<lparr>cd_slowField := max 0 (num_or (slowField_cooldown s) 0)\<rparr>\<rparr>
      in bindR (new_FloatText (TxtLabel ''SLOW FIELD'') (pl_x p) (pl_y p - pl_r p * (18 / 10))
                  (Rgba ''rgba(120,210,255,.95)''))
           (\<lambda>ft. returnR (g1\<lparr>floats := floats g1 @ [ft]\<rparr>)))"

text \<open>
  \<^verbatim>\<open>_useSkill(name)\<close>. Every skill name has an entry in \<^verbatim>\<open>cfg.skills\<close> (the loader keeps
  the default's keys), so the first guard never returns.
\<close>

definition useSkill :: "input_view \<Rightarrow> skill \<Rightarrow> game \<Rightarrow> game rand_m" where
  "useSkill inp name g =
     (if cd_of name (cds g) > 0 then returnR g
      else case name of
             Dash \<Rightarrow> useDash inp g
           | Phase \<Rightarrow> usePhase g
           | Teleport \<Rightarrow> useTeleport inp g
           | SlowField \<Rightarrow> useSlowField g)"

definition handleAction :: "input_view \<Rightarrow> skill \<Rightarrow> game \<Rightarrow> game rand_m" where
  "handleAction inp actionId g =
     (if state g \<noteq> PLAY then returnR g else useSkill inp actionId g)"

subsection \<open>Player motion\<close>

text \<open>\<^verbatim>\<open>_updatePlayer(dt)\<close>, in three parts: the invulnerability and dash timers; the last
  direction and the velocity (dash override, or acceleration and friction); the
  position, clamped to the play area.\<close>

definition playerTimers :: "real \<Rightarrow> player \<Rightarrow> player" where
  "playerTimers dt p =
     (let p1 = (if pl_invT p > 0 then p\<lparr>pl_invT := max 0 (pl_invT p - dt)\<rparr> else p)
      in if pl_dashT p1 > 0 then p1\<lparr>pl_dashT := max 0 (pl_dashT p1 - dt)\<rparr> else p1)"

definition playerVelocity :: "input_view \<Rightarrow> real \<Rightarrow> config \<Rightarrow> player \<Rightarrow> player" where
  "playerVelocity inp dt c p2 =
     (let n = norm2 (mv_dx inp) (mv_dy inp);
          p3 = (if n_len n > 0 then p2\<lparr>pl_lastX := n_x n, pl_lastY := n_y n\<rparr> else p2)
      in if pl_dashT p3 > 0 then
           let p3a = (if n_len n > 0 then p3\<lparr>pl_dashVX := n_x n, pl_dashVY := n_y n\<rparr>
                      else p3);
               dashSpeed = max 0 (num_or (dash_speed (c_skills c)) 0)
           in p3a\<lparr>pl_vx := pl_dashVX p3a * dashSpeed, pl_vy := pl_dashVY p3a * dashSpeed\<rparr>
         else
           let maxS = num_or (maxSpeed (c_player c)) 0;
               acl = num_or (accel (c_player c)) 0;
               fr = num_or (friction (c_player c)) 0;
               tvx = n_x n * maxS; tvy = n_y n * maxS;
               p3b = p3\<lparr>pl_vx := approach (pl_vx p3) tvx (acl * dt),
                        pl_vy := approach (pl_vy p3) tvy (acl * dt)\<rparr>
           in if n_len n = 0
              then let damp = exp (- fr * dt)
                   in p3b\<lparr>pl_vx := pl_vx p3b * damp, pl_vy := pl_vy p3b * damp\<rparr>
              else p3b)"

definition updatePlayer :: "input_view \<Rightarrow> real \<Rightarrow> game \<Rightarrow> game" where
  "updatePlayer inp dt g =
     (let p4 = playerVelocity inp dt (cfg g) (playerTimers dt (player g));
          p5 = p4\<lparr>pl_x := pl_x p4 + pl_vx p4 * dt, pl_y := pl_y p4 + pl_vy p4 * dt\<rparr>;
          pad = pl_r p5 + 2
      in g\<lparr>player := p5\<lparr>pl_x := clamp (pl_x p5) pad (W g - pad),
                          pl_y := clamp (pl_y p5) pad (H g - pad)\<rparr>\<rparr>)"

subsection \<open>Trail particles\<close>

record trail_style =
  ts_rate :: real
  ts_life :: "real \<times> real"
  ts_size :: "real \<times> real"
  ts_speed :: "real \<times> real"
  ts_drag :: real
  ts_add :: bool

definition trailStyle :: "string \<Rightarrow> trail_style" where
  "trailStyle tid =
     (if tid = ''rainbow'' then
        \<lparr>ts_rate = 95, ts_life = (18 / 100, 34 / 100), ts_size = (7, 10), ts_speed = (35, 170),
         ts_drag = 105 / 10, ts_add = True\<rparr>
      else if tid = ''gothic'' then
        \<lparr>ts_rate = 78, ts_life = (20 / 100, 40 / 100), ts_size = (7, 10), ts_speed = (30, 150),
         ts_drag = 95 / 10, ts_add = True\<rparr>
      else
        \<lparr>ts_rate = 55, ts_life = (18 / 100, 32 / 100), ts_size = (8 / 10, 2),
         ts_speed = (25, 120), ts_drag = 115 / 10, ts_add = True\<rparr>)"

definition emitTrail :: "real \<Rightarrow> game \<Rightarrow> game rand_m" where
  "emitTrail dt g =
     (let tid = trailId g;
          st = trailStyle tid;
          g1 = g\<lparr>trailHue := js_mod (trailHue g + dt * 220) 360,
                  trailAcc := trailAcc g + dt * ts_rate st\<rparr>;
          n = toInt32 (trailAcc g1);
          g2 = g1\<lparr>trailAcc := trailAcc g1 - real_of_int n\<rparr>;
          p = player g2;
          v = norm2 (pl_vx p) (pl_vy p);
          backX = (if n_len v > 12 then - n_x v else - pl_lastX p);
          backY = (if n_len v > 12 then - n_y v else - pl_lastY p);
          bx = pl_x p + backX * pl_r p * (95 / 100);
          by = pl_y p + backY * pl_r p * (95 / 100)
      in forR 0 (nat n)
           (\<lambda>i g'.
              bindR (rand 0 (pi * 2)) (\<lambda>jitter.
              bindR (rand 0 (pl_r p * (35 / 100))) (\<lambda>j1.
              bindR (rand 0 (pl_r p * (35 / 100))) (\<lambda>j2.
              let jx = cos jitter * j1; jy = sin jitter * j2 in
              bindR (rand (fst (ts_speed st)) (snd (ts_speed st))) (\<lambda>sp.
              bindR (rand 0 (pi * 2)) (\<lambda>a.
              let vx = backX * sp + cos a * sp * (55 / 100);
                  vy = backY * sp + sin a * sp * (55 / 100)
              in
              bindR (rand (fst (ts_life st)) (snd (ts_life st))) (\<lambda>life.
              bindR (rand (fst (ts_size st)) (snd (ts_size st))) (\<lambda>sz.
              bindR
                (if tid = ''rainbow'' then
                   returnR (hsla (js_mod (trailHue g2 + real i * 11) 360) 100 70 (85 / 100))
                 else if tid = ''gothic'' then
                   bindR (rand 0 1) (\<lambda>u.
                   returnR (if u < 16 / 100 then Rgba ''rgba(0,0,0,.55)''
                            else Rgba ''rgba(170,90,255,.72)''))
                 else returnR (Rgba ''rgba(140,220,255,.62)'')) (\<lambda>col.
              returnR
                (g'\<lparr>parts := parts g' @
                     [(new_Part (bx + jx) (by + jy) vx vy life sz col (ts_add st))
                        \<lparr>pt_drag := ts_drag st\<rparr>]\<rparr>))))))))))
           g2)"

subsection \<open>One simulation step\<close>

text \<open>The timers at the start of \<^verbatim>\<open>update\<close>: time alive, cooldowns, the combo-break and
  perfect flashes and the slow field.\<close>

definition tickTimers :: "real \<Rightarrow> game \<Rightarrow> game" where
  "tickTimers dt g =
     (let g1 = tickCooldowns dt (g\<lparr>timeAlive := timeAlive g + dt\<rparr>);
          g2 = (if comboBreakFlash g1 > 0
                then g1\<lparr>comboBreakFlash := max 0 (comboBreakFlash g1 - dt)\<rparr> else g1);
          g3 = (if perfectT g2 > 0 then g2\<lparr>perfectT := max 0 (perfectT g2 - dt)\<rparr> else g2)
      in case slowField g3 of
           None \<Rightarrow> g3
         | Some sf \<Rightarrow>
             (let sf1 = sf\<lparr>sf_t := max 0 (sf_t sf - dt)\<rparr>
              in if sf_t sf1 \<le> 0 then g3\<lparr>slowField := None\<rparr>
                 else g3\<lparr>slowField := Some sf1\<rparr>))"

definition comboSparkles :: "real \<Rightarrow> game \<Rightarrow> game rand_m" where
  "comboSparkles dt g =
     (let sparkle = num_or (sparkleAt (c_comboBar (cfg g))) 9999 in
      if combo g \<ge> sparkle then
        let rate = max 0 (num_or (sparkleRate (c_comboBar (cfg g))) 0);
            g1 = g\<lparr>comboSparkAcc := comboSparkAcc g + dt * rate\<rparr>;
            n = toInt32 (comboSparkAcc g1);
            g2 = g1\<lparr>comboSparkAcc := comboSparkAcc g1 - real_of_int n\<rparr>;
            ui = skillUI g2
        in forR 0 (nat n)
             (\<lambda>i g'.
                bindR (rand (ui_barX ui) (ui_barX ui + ui_barW ui)) (\<lambda>px.
                bindR (rand (ui_barY ui - 8) (ui_barY ui + ui_barH ui + 8)) (\<lambda>py.
                bindR (rand 0 (pi * 2)) (\<lambda>a.
                bindR (rand 20 90) (\<lambda>sp.
                bindR (rand (18 / 100) (35 / 100)) (\<lambda>life.
                bindR (rand (9 / 10) (17 / 10)) (\<lambda>sz.
                returnR
                  (g'\<lparr>parts := parts g' @
                       [(new_Part px py (cos a * sp) (sin a * sp) life sz
                           (Rgba ''rgba(255,255,255,.7)'') True)\<lparr>pt_drag := 105 / 10\<rparr>]\<rparr>))))))))
             g2
      else returnR (g\<lparr>comboSparkAcc := 0\<rparr>))"

text \<open>The body of \<^verbatim>\<open>while (this.pipeT <= 0)\<close>. The arguments of the spawn call are
  evaluated left to right: the side is drawn first.\<close>

definition spawnPipes :: "game \<Rightarrow> game rand_m" where
  "spawnPipes g0 =
     (let g = g0\<lparr>pipeT := pipeT g0 + spawnInterval g0\<rparr>;
          d = difficulty01 g
      in
      bindR (rand 0 1) (\<lambda>r.
      let wall = weights_wall (c_pipes (cfg g));
          aimed = weights_aimed (c_pipes (cfg g));
          wallChance = lerp (fst wall) (snd wall) d;
          aimedChance = lerp (fst aimed) (snd aimed) d
      in
      bindR (rand 0 4) (\<lambda>v.
      let side = toInt32 v in
      if r < wallChance then
        spawnWall \<lparr>opt_side = Some side, opt_speed = Some (pipeSpeed g * (95 / 100)),
                   opt_gap = Some (gapSize g), opt_aimAtPlayer = False, opt_spreadRad = None\<rparr> g
      else if r < wallChance + aimedChance then
        spawnSinglePipe \<lparr>opt_side = Some side, opt_speed = Some (pipeSpeed g), opt_gap = None,
                         opt_aimAtPlayer = True, opt_spreadRad = None\<rparr> g
      else
        spawnSinglePipe \<lparr>opt_side = Some side, opt_speed = Some (pipeSpeed g), opt_gap = None,
                         opt_aimAtPlayer = False, opt_spreadRad = None\<rparr> g)))"

definition spawnSpecial :: "real \<Rightarrow> game \<Rightarrow> game rand_m" where
  "spawnSpecial dt g0 =
     (let g = g0\<lparr>specialT := specialT g0 - dt\<rparr> in
      if specialT g \<le> 0 then
        bindR (rand 0 1) (\<lambda>r.
        bindR
          (if r < 48 / 100 then spawnBurst g
           else if r < 78 / 100 then spawnCrossfire g
           else bindR (rand 0 4) (\<lambda>v.
                spawnWall \<lparr>opt_side = Some (toInt32 v),
                           opt_speed = Some (pipeSpeed g * (105 / 100)),
                           opt_gap = Some (gapSize g), opt_aimAtPlayer = False,
                           opt_spreadRad = None\<rparr> g)) (\<lambda>g1.
        let d = difficulty01 g1; sp = pipes_special (c_pipes (cfg g1)) in
        bindR (rand (jitterMin sp) (jitterMax sp)) (\<lambda>j.
        returnR (g1\<lparr>specialT := lerp (startCadence sp) (endCadence sp) d + j\<rparr>))))
      else returnR g)"

definition spawnOrbs :: "real \<Rightarrow> game \<Rightarrow> game rand_m" where
  "spawnOrbs dt g0 =
     (let oc = c_orbs (cfg g0) in
      if orbs_enabled oc then
        let g = g0\<lparr>orbT := orbT g0 - dt\<rparr> in
        if orbT g \<le> 0 then
          bindR (spawnOrb g) (\<lambda>g1.
          let a = min (intervalMin oc) (intervalMax oc);
              b = max (intervalMin oc) (intervalMax oc)
          in bindR (rand a b) (\<lambda>t. returnR (g1\<lparr>orbT := t\<rparr>)))
        else returnR g
      else returnR g0)"

text \<open>The gates move, then each gate that the player crosses is cleared and may award
  the perfect bonus.\<close>

definition perfectGate :: "nat \<Rightarrow> game \<Rightarrow> game rand_m" where
  "perfectGate i g =
     (let sc = c_scoring (cfg g);
          bonus = max 0 (num_or (perfect_bonus sc) 0);
          wS = clamp (num_or (perfect_windowScale sc) (75 / 1000)) 0 1;
          gt = gates g ! i
      in
      if g_cleared gt then returnR g
      else
        let pAxis = (if g_axis gt = AxisX then pl_x (player g) else pl_y (player g)) in
        if gate_crossed gt pAxis then
          let g1 = g\<lparr>gates := (gates g)[i := gt\<lparr>g_cleared := True\<rparr>]\<rparr>;
              perp = (if g_axis gt = AxisX then pl_y (player g) else pl_x (player g));
              dist = \<bar>perp - g_gapCenter gt\<bar>;
              thresh = max 3 (g_gapHalf gt * wS) * (110 / 100)
          in
          if dist \<le> thresh then
            let fd = clamp (num_or (perfect_flashDuration sc) (55 / 100)) (15 / 100) 2;
                g2 = g1\<lparr>score := score g1 + bonus, perfectT := fd, perfectMax := fd\<rparr>
            in
            bindR (new_FloatText (TxtPlus bonus) (pl_x (player g2))
                     (pl_y (player g2) - pl_r (player g2) * 2)
                     (Rgba ''rgba(255,255,255,.95)'')) (\<lambda>ft.
            forR 0 28
              (\<lambda>k g'.
                 bindR (rand 0 (pi * 2)) (\<lambda>a.
                 bindR (rand 60 320) (\<lambda>sp.
                 bindR (rand (20 / 100) (45 / 100)) (\<lambda>life.
                 bindR (rand 1 (22 / 10)) (\<lambda>sz.
                 returnR
                   (g'\<lparr>parts := parts g' @
                        [(new_Part (pl_x (player g')) (pl_y (player g')) (cos a * sp)
                            (sin a * sp) life sz (Rgba ''rgba(255,255,255,.85)'') True)
                           \<lparr>pt_drag := 85 / 10\<rparr>]\<rparr>))))))
              (g2\<lparr>floats := floats g2 @ [ft]\<rparr>))
          else returnR g1
        else returnR g)"

definition updateGates :: "real \<Rightarrow> game \<Rightarrow> game rand_m" where
  "updateGates dt g0 =
     (let g = g0\<lparr>gates := map (gate_update dt (W g0) (H g0)) (gates g0)\<rparr> in
      if perfect_enabled (c_scoring (cfg g)) then forR 0 (length (gates g)) perfectGate g
      else returnR g)"

definition updatePipes :: "real \<Rightarrow> game \<Rightarrow> game" where
  "updatePipes dt g =
     g\<lparr>pipes :=
         map (\<lambda>p. let mul =
                      (case slowField g of
                         None \<Rightarrow> 1
                       | Some sf \<Rightarrow>
                           (let dx = pipe_cx p - sf_x sf; dy = pipe_cy p - sf_y sf
                            in if dx * dx + dy * dy \<le> sf_r sf * sf_r sf then sf_fac sf else 1))
                   in pipe_update dt mul (W g) (H g) p)
           (pipes g)\<rparr>"

text \<open>Every orb is updated once and the dead ones are spliced out; an expiry breaks
  the combo.\<close>

definition expireOrbs :: "real \<Rightarrow> game \<Rightarrow> game rand_m" where
  "expireOrbs dt g =
     (let os = map (orb_update dt (W g) (H g)) (orbs g);
          expired = list_ex orb_dead os;
          g1 = g\<lparr>orbs := filter (\<lambda>ob. \<not> orb_dead ob) os\<rparr>
      in if expired then
           (let ui = skillUI g1
            in breakCombo (ui_barX ui + ui_barW ui * (1 / 2)) (ui_barY ui - 10) g1)
         else returnR g1)"

text \<open>What the pickup loop does for one orb that touches the player, after splicing it
  out.\<close>

definition pickupOne :: "orb \<Rightarrow> game \<Rightarrow> game rand_m" where
  "pickupOne ob g =
     (let maxC = max 1 (num_or (orbComboMax (c_scoring (cfg g))) 30);
          g1 = g\<lparr>combo := min maxC (combo g + 1)\<rparr>;
          pts = orbPoints g1 (combo g1);
          g2 = g1\<lparr>score := score g1 + pts\<rparr>;
          col = (if combo g2 \<ge> num_or (glowAt (c_comboBar (cfg g2))) 9999
                 then Rgba ''rgba(255,255,255,.98)'' else Rgba ''rgba(120,210,255,.95)'')
      in
      bindR (new_FloatText (TxtPlus pts) (o_x ob) (o_y ob) col) (\<lambda>ft.
      forR 0 18
        (\<lambda>k g'.
           bindR (rand 0 (pi * 2)) (\<lambda>a.
           bindR (rand 40 240) (\<lambda>sp.
           bindR (rand (18 / 100) (38 / 100)) (\<lambda>life.
           bindR (rand 1 2) (\<lambda>sz.
           returnR
             (g'\<lparr>parts := parts g' @
                  [(new_Part (o_x ob) (o_y ob) (cos a * sp) (sin a * sp) life sz
                      (Rgba ''rgba(255,255,255,.7)'') True)\<lparr>pt_drag := 10\<rparr>]\<rparr>))))))
        (g2\<lparr>floats := floats g2 @ [ft]\<rparr>)))"

definition touches :: "game \<Rightarrow> orb \<Rightarrow> bool" where
  "touches g ob =
     circleCircle (pl_x (player g)) (pl_y (player g)) (pl_r (player g)) (o_x ob) (o_y ob) (o_r ob)"

text \<open>The pickup loop runs from the last orb to the first; the player does not move
  during it, so the orbs picked up are those that touch the player, handled in
  reverse order, and the others stay.\<close>

definition pickupOrbs :: "game \<Rightarrow> game rand_m" where
  "pickupOrbs g =
     forEachR (filter (touches g) (rev (orbs g))) pickupOne
       (g\<lparr>orbs := filter (\<lambda>ob. \<not> touches g ob) (orbs g)\<rparr>)"

definition hitsPipe :: "game \<Rightarrow> pipe \<Rightarrow> bool" where
  "hitsPipe g p =
     circleRect (pl_x (player g)) (pl_y (player g)) (pl_r (player g)) (p_x p) (p_y p) (p_w p) (p_h p)"

definition collides :: "game \<Rightarrow> bool" where
  "collides g = (pl_invT (player g) \<le> 0 \<and> list_ex (hitsPipe g) (pipes g))"

text \<open>Pipes and gates off the field are removed, from the last to the first; a removed
  pipe not yet scored adds the dodge score.\<close>

definition removeOffField :: "game \<Rightarrow> game" where
  "removeOffField g =
     (let m = margin g;
          dodge = max 0 (num_or (pipeDodge (c_scoring (cfg g))) 0)
      in g\<lparr>score := foldl (\<lambda>s p. if pipe_off (W g) (H g) m p \<and> \<not> p_scored p then s + dodge else s)
                         (score g) (rev (pipes g)),
           pipes := filter (\<lambda>p. \<not> pipe_off (W g) (H g) m p) (pipes g),
           gates := filter (\<lambda>gt. \<not> gate_off (W g) (H g) m gt) (gates g)\<rparr>)"

definition updateFx :: "real \<Rightarrow> game \<Rightarrow> game" where
  "updateFx dt g =
     g\<lparr>parts := filter (\<lambda>p. \<not> pt_life p \<le> 0) (map (part_update dt) (parts g)),
       floats := filter (\<lambda>t. \<not> ft_life t \<le> 0) (map (float_update dt) (floats g))\<rparr>"

text \<open>\<^verbatim>\<open>xs.splice(0, xs.length - cap)\<close> when \<^verbatim>\<open>xs.length > cap\<close>.\<close>

definition cap_list :: "nat \<Rightarrow> 'a list \<Rightarrow> 'a list" where
  "cap_list cap xs = (if length xs > cap then drop (length xs - cap) xs else xs)"

definition caps :: "game \<Rightarrow> game" where
  "caps g =
     g\<lparr>pipes := cap_list 280 (pipes g),
       parts := cap_list 1100 (parts g),
       floats := cap_list 80 (floats g)\<rparr>"

text \<open>
  \<^verbatim>\<open>update(dt)\<close>. The collision branch also calls the \<^verbatim>\<open>onGameOver\<close> callback; it is
  the only place where the state becomes \<open>OVER\<close>, and the callers below run the
  callback when they see that change.
\<close>

definition update :: "input_view \<Rightarrow> real \<Rightarrow> game \<Rightarrow> game exec_m" where
  "update inp dt g =
     (if state g = OVER then liftR (returnR g)
      else if state g \<noteq> PLAY then liftR (returnR g)
      else
        let g1 = updatePlayer inp dt (tickTimers dt g) in
        bindX (liftR (bindR (emitTrail dt g1) (comboSparkles dt))) (\<lambda>g2.
        bindX (whileR (\<lambda>s. pipeT s \<le> 0) spawnPipes (g2\<lparr>pipeT := pipeT g2 - dt\<rparr>)) (\<lambda>g3.
        bindX (liftR
                 (bindR (spawnSpecial dt g3) (\<lambda>g4.
                  bindR (spawnOrbs dt g4) (\<lambda>g5.
                  bindR (updateGates dt g5) (\<lambda>g6.
                  bindR (expireOrbs dt (updatePipes dt g6)) pickupOrbs))))) (\<lambda>g7.
        liftR (returnR
                 (if collides g7 then g7\<lparr>state := OVER\<rparr>
                  else caps (updateFx dt (removeOffField g7))))))))"

section \<open>input.js and main.js: the live loop and the replay player\<close>

subsection \<open>Input\<close>

record input =
  keys :: "string set"
  in_cur :: cursor

definition getMove :: "input \<Rightarrow> real \<times> real" where
  "getMove i =
     (let dy0 = (if ''KeyW'' \<in> keys i then - 1 else 0);
          dy = (if ''KeyS'' \<in> keys i then dy0 + 1 else dy0);
          dx0 = (if ''KeyA'' \<in> keys i then - 1 else 0);
          dx = (if ''KeyD'' \<in> keys i then dx0 + 1 else dx0)
      in (dx, dy))"

definition input_reset :: "input \<Rightarrow> input" where
  "input_reset i = i\<lparr>keys := {}\<rparr>"

text \<open>What the game sees of the real input object.\<close>

definition view_of :: "input \<Rightarrow> input_view" where
  "view_of i = \<lparr>mv_dx = fst (getMove i), mv_dy = snd (getMove i), in_cursor = in_cur i\<rparr>"

subsection \<open>The captured run\<close>

record action =
  a_id :: skill
  a_cursor :: cursor

record tick =
  tk_move :: "real \<times> real"
  tk_cursor :: cursor
  tk_actions :: "action list"

text \<open>\<^verbatim>\<open>activeRun\<close>; its \<^verbatim>\<open>rngTape\<close> array is the \<open>rngTape\<close> kept with the random source.\<close>

record run =
  r_seed :: jsstring
  r_ticks :: "tick list"
  r_pendingActions :: "action list"
  r_ended :: bool

text \<open>
  The variables of main.js that the simulation depends on. \<open>m_trace\<close> is not a program
  variable: it records the game after every simulation step that the current run or
  replay takes in state Playing, for the statements about every tick.
\<close>

record main =
  m_acc :: real
  m_lastTs :: real
  m_activeRun :: "run option"
  m_replayDriving :: bool
  m_input :: input
  m_game :: game
  m_rnd :: rnd
  m_trace :: "game list"

definition SIM_DT :: real where
  "SIM_DT = 1 / 120"

definition MAX_FRAME :: real where
  "MAX_FRAME = 1 / 20"

type_synonym 'a outcome = "(error + 'a) option"

text \<open>Run a game function on the game and the random source of main.js.\<close>

definition on_game :: "game exec_m \<Rightarrow> main \<Rightarrow> main outcome" where
  "on_game f m =
     (case f (m_rnd m) of
        None \<Rightarrow> None
      | Some (Inl e) \<Rightarrow> Some (Inl e)
      | Some (Inr (g, r)) \<Rightarrow> Some (Inr (m\<lparr>m_game := g, m_rnd := r\<rparr>)))"

definition bindO :: "'a outcome \<Rightarrow> ('a \<Rightarrow> 'b outcome) \<Rightarrow> 'b outcome" where
  "bindO x f = (case x of None \<Rightarrow> None | Some (Inl e) \<Rightarrow> Some (Inl e) | Some (Inr a) \<Rightarrow> f a)"

text \<open>
  The \<^verbatim>\<open>onGameOver\<close> callback seals the run (\<^verbatim>\<open>activeRun.ended = true\<close>); the rest of it
  updates the page and submits the score. The model runs it at once, as happens for
  a guest; for a signed-in user the sealing waits for the score submission.
\<close>

definition onGameOver :: "main \<Rightarrow> main" where
  "onGameOver m =
     (case m_activeRun m of
        None \<Rightarrow> m
      | Some run \<Rightarrow> m\<lparr>m_activeRun := Some (run\<lparr>r_ended := True\<rparr>)\<rparr>)"

text \<open>\<^verbatim>\<open>game.update(SIM_DT)\<close> with the input view \<open>inp\<close>, the callback included; a step
  taken in state Playing records the game in the trace.\<close>

definition step_game :: "input_view \<Rightarrow> main \<Rightarrow> main outcome" where
  "step_game inp m =
     bindO (on_game (update inp SIM_DT (m_game m)) m) (\<lambda>m1.
       let m2 = (if state (m_game m) = PLAY \<and> state (m_game m1) = OVER then onGameOver m1 else m1)
       in Some (Inr (if state (m_game m) = PLAY then m2\<lparr>m_trace := m_trace m2 @ [m_game m2]\<rparr>
                     else m2)))"

subsection \<open>Events of a live run\<close>

text \<open>The action callback of the input layer: the action is queued with the cursor of
  that moment, never applied at once.\<close>

definition onAction :: "skill \<Rightarrow> main \<Rightarrow> main" where
  "onAction actionId m =
     (case m_activeRun m of
        None \<Rightarrow> m
      | Some run \<Rightarrow>
          if state (m_game m) = PLAY then
            m\<lparr>m_activeRun := Some (run\<lparr>r_pendingActions := r_pendingActions run @
                 [\<lparr>a_id = actionId, a_cursor = in_cur (m_input m)\<rparr>]\<rparr>)\<rparr>
          else m)"

text \<open>The action loop of a tick: the cursor of the input object is set to the action's
  cursor, then the action is handled.\<close>

definition applyAction :: "action \<Rightarrow> input \<times> game \<Rightarrow> (input \<times> game) rand_m" where
  "applyAction a ig =
     (let i1 = (fst ig)\<lparr>in_cur := a_cursor a\<rparr>
      in bindR (handleAction (view_of i1) (a_id a) (snd ig)) (\<lambda>g1. returnR (i1, g1)))"

definition applyActions :: "action list \<Rightarrow> main \<Rightarrow> main outcome" where
  "applyActions as m =
     (case forEachR as applyAction (m_input m, m_game m) (m_rnd m) of
        Inl e \<Rightarrow> Some (Inl e)
      | Inr ((i1, g1), r1) \<Rightarrow> Some (Inr (m\<lparr>m_input := i1, m_game := g1, m_rnd := r1\<rparr>)))"

text \<open>One round of the \<^verbatim>\<open>while (acc >= SIM_DT)\<close> loop of \<^verbatim>\<open>frame\<close>, up to and including
  \<^verbatim>\<open>acc -= SIM_DT\<close>.\<close>

definition liveTick :: "main \<Rightarrow> main outcome" where
  "liveTick m =
     (let snap_move = getMove (m_input m);
          snap_cursor = in_cur (m_input m);
          recording = (m_activeRun m \<noteq> None \<and> state (m_game m) = PLAY);
          actions = (case m_activeRun m of
                       Some run \<Rightarrow> if state (m_game m) = PLAY then r_pendingActions run else []
                     | None \<Rightarrow> []);
          m1 = (case m_activeRun m of
                  Some run \<Rightarrow>
                    if state (m_game m) = PLAY then
                      m\<lparr>m_activeRun := Some (run\<lparr>r_pendingActions := [],
                           r_ticks := r_ticks run @
                             [\<lparr>tk_move = snap_move, tk_cursor = snap_cursor,
                               tk_actions = actions\<rparr>]\<rparr>)\<rparr>
                    else m
                | None \<Rightarrow> m)
      in
      bindO (if state (m_game m1) = PLAY \<and> actions \<noteq> [] then applyActions actions m1
             else Some (Inr m1)) (\<lambda>m2.
      bindO (step_game (view_of (m_input m2)) m2) (\<lambda>m3.
      Some (Inr (m3\<lparr>m_acc := m_acc m3 - SIM_DT\<rparr>)))))"

partial_function (option) frameLoop :: "main \<Rightarrow> (error + main) option" where
  "frameLoop m =
     (if m_acc m \<ge> SIM_DT then
        (case liveTick m of
           None \<Rightarrow> None
         | Some (Inl e) \<Rightarrow> Some (Inl e)
         | Some (Inr m1) \<Rightarrow>
             if state (m_game m1) = OVER then
               Some (Inr (case m_activeRun m1 of
                            None \<Rightarrow> m1
                          | Some run \<Rightarrow> m1\<lparr>m_activeRun := Some (run\<lparr>r_pendingActions := []\<rparr>)\<rparr>))
             else frameLoop m1)
      else Some (Inr m))"

definition frame :: "real \<Rightarrow> main \<Rightarrow> main outcome" where
  "frame ts m =
     (let dt = clamp ((ts - m_lastTs m) / 1000) 0 MAX_FRAME;
          m1 = m\<lparr>m_lastTs := ts\<rparr>
      in if \<not> m_replayDriving m1 then frameLoop (m1\<lparr>m_acc := m_acc m1 + dt\<rparr>)
         else Some (Inr m1))"

text \<open>
  What happens between the start of a run and its end: keys go down and up, the
  pointer moves (to a position in canvas coordinates), a bound key or button fires
  an action, the display calls \<^verbatim>\<open>frame\<close>.
\<close>

datatype event =
    KeyDown string
  | KeyUp string
  | PointerMove real real
  | OnAction skill
  | Frame real

definition handle_event :: "event \<Rightarrow> main \<Rightarrow> main outcome" where
  "handle_event ev m =
     (case ev of
        KeyDown code \<Rightarrow> Some (Inr (m\<lparr>m_input := (m_input m)\<lparr>keys := insert code (keys (m_input m))\<rparr>\<rparr>))
      | KeyUp code \<Rightarrow> Some (Inr (m\<lparr>m_input := (m_input m)\<lparr>keys := keys (m_input m) - {code}\<rparr>\<rparr>))
      | PointerMove x y \<Rightarrow>
          Some (Inr (m\<lparr>m_input := (m_input m)\<lparr>in_cur := \<lparr>cur_x = x, cur_y = y, cur_has = True\<rparr>\<rparr>\<rparr>))
      | OnAction a \<Rightarrow> Some (Inr (onAction a m))
      | Frame ts \<Rightarrow> frame ts m)"

fun handle_events :: "event list \<Rightarrow> main \<Rightarrow> main outcome" where
  "handle_events [] m = Some (Inr m)"
| "handle_events (ev # evs) m = bindO (handle_event ev m) (handle_events evs)"

subsection \<open>Starting a run\<close>

text \<open>\<^verbatim>\<open>startGame()\<close> with the seed read from the page (or generated).\<close>

definition startGame :: "jsstring \<Rightarrow> main \<Rightarrow> main outcome" where
  "startGame seed m =
     (let m1 = m\<lparr>m_input := input_reset (m_input m),
                  m_activeRun := Some \<lparr>r_seed = seed, r_ticks = [], r_pendingActions = [],
                                      r_ended = False\<rparr>,
                  m_rnd := \<lparr>src = RecorderSrc (createTapeRandRecorder seed), rngTape = []\<rparr>,
                  m_acc := 0, m_trace := []\<rparr>
      in on_game (liftR (startRun (m_game m1))) m1)"

definition toMenu :: "main \<Rightarrow> main outcome" where
  "toMenu m = on_game (liftR (setStateMenu (m_game m))) m"

subsection \<open>The replay player\<close>

text \<open>One round of the \<^verbatim>\<open>for\<close> loop of \<^verbatim>\<open>playReplay\<close>: the stand-in input object takes
  the tick's move and cursor, the tick's actions are applied, the game steps once.\<close>

definition replayAction :: "action \<Rightarrow> input_view \<times> game \<Rightarrow> (input_view \<times> game) rand_m" where
  "replayAction a vg =
     (let v1 = (fst vg)\<lparr>in_cursor := a_cursor a\<rparr>
      in bindR (handleAction v1 (a_id a) (snd vg)) (\<lambda>g1. returnR (v1, g1)))"

definition replayTick :: "tick \<Rightarrow> main \<Rightarrow> main outcome" where
  "replayTick tk m =
     (let v0 = \<lparr>mv_dx = fst (tk_move tk), mv_dy = snd (tk_move tk), in_cursor = tk_cursor tk\<rparr>
      in case forEachR (tk_actions tk) replayAction (v0, m_game m) (m_rnd m) of
           Inl e \<Rightarrow> Some (Inl e)
         | Inr ((v1, g1), r1) \<Rightarrow> step_game v1 (m\<lparr>m_game := g1, m_rnd := r1\<rparr>))"

fun replayLoop :: "tick list \<Rightarrow> main \<Rightarrow> main outcome" where
  "replayLoop [] m = Some (Inr m)"
| "replayLoop (tk # tks) m =
     bindO (replayTick tk m) (\<lambda>m1.
       if state (m_game m1) = OVER then Some (Inr m1) else replayLoop tks m1)"

text \<open>
  \<^verbatim>\<open>playReplay\<close>. The first statement installs a tape player on \<^verbatim>\<open>activeRun.rngTape\<close>
  (a \<^verbatim>\<open>TypeError\<close> when there is no run); when a replay is available, the statement
  \<^verbatim>\<open>setRandSource(createSeededRand(activeRun.seed))\<close> inside the \<^verbatim>\<open>try\<close> block then
  replaces that source. The result says whether a replay was played.
\<close>

definition playReplay :: "main \<Rightarrow> (main \<times> bool) outcome" where
  "playReplay m =
     (case m_activeRun m of
        None \<Rightarrow> Some (Inl TypeError)
      | Some run \<Rightarrow>
          let m1 = m\<lparr>m_rnd := (m_rnd m)\<lparr>src := PlayerSrc createTapeRandPlayer\<rparr>\<rparr> in
          if \<not> r_ended run \<or> r_ticks run = [] then Some (Inr (m1, False))
          else
            let m2 = m1\<lparr>m_replayDriving := True\<rparr>;
                m3 = m2\<lparr>m_rnd := (m_rnd m2)\<lparr>src := SeededSrc (createSeededRand (r_seed run))\<rparr>\<rparr>;
                m4 = m3\<lparr>m_acc := 0, m_input := input_reset (m_input m3), m_trace := []\<rparr>
            in
            bindO (on_game (liftR (startRun (m_game m4))) m4) (\<lambda>m5.
            bindO (replayLoop (r_ticks run) m5) (\<lambda>m6.
            Some (Inr (m6\<lparr>m_replayDriving := False\<rparr>, True)))))"

section \<open>Vocabulary for the proofs\<close>

text \<open>A random source that cannot raise: anything but a tape player.\<close>

definition no_player :: "rnd \<Rightarrow> bool" where
  "no_player r = (case src r of PlayerSrc i \<Rightarrow> False | _ \<Rightarrow> True)"

text \<open>A computation returns on every source that cannot raise, and leaves such a
  source.\<close>

definition returns :: "'a rand_m \<Rightarrow> bool" where
  "returns m = (\<forall>r. no_player r \<longrightarrow> (\<exists>x r'. m r = Inr (x, r') \<and> no_player r'))"

text \<open>Every result of a computation satisfies \<open>P\<close>.\<close>

definition yields :: "('a \<Rightarrow> bool) \<Rightarrow> 'a rand_m \<Rightarrow> bool" where
  "yields P m = (\<forall>r x r'. m r = Inr (x, r') \<longrightarrow> P x)"

text \<open>A game for the worked examples: the default configuration in an 800 by 600
  window with a square player image, and a random source that always returns 0.\<close>

definition example_game :: game where
  "example_game = resizeToWindow 1 800 600 48 48 (new_Game DEFAULT_CONFIG ''classic'')"

definition zero_rnd :: rnd where
  "zero_rnd = \<lparr>src = MathRandomSrc (\<lambda>n. 0) 0, rngTape = []\<rparr>"

definition example_orb :: orb where
  "example_orb = \<lparr>o_x = 400, o_y = 300, o_vx = 0, o_vy = 0, o_r = 12, o_life = 10, o_max = 10,
                  o_ph = 0\<rparr>"

text \<open>The game without its visual effects (particles and floating texts).\<close>

definition sans_fx :: "game \<Rightarrow> game" where
  "sans_fx g = g\<lparr>parts := [], floats := []\<rparr>"

text \<open>The fields that nothing in a simulation step writes after the player has moved:
  the state (until the collision check), the play area, the canvas, the configuration,
  the trail and the player.\<close>

definition setting ::
  "game \<Rightarrow> game_state \<times> real \<times> real \<times> real \<times> real \<times> config \<times> string \<times> player" where
  "setting g =
     (state g, W g, H g, canvas_width g, canvas_height g, cfg g, trailId g, player g)"

text \<open>What the pipe spawn loop's interval depends on, and its timer.\<close>

definition pace :: "game \<Rightarrow> real \<times> real \<times> config \<times> real" where
  "pace g = (timeAlive g, score g, cfg g, pipeT g)"

text \<open>The player's centre lies in the play area inset by the player's radius plus 2.\<close>

definition player_contained :: "game \<Rightarrow> bool" where
  "player_contained g =
     (pl_r (player g) + 2 \<le> pl_x (player g) \<and> pl_x (player g) \<le> W g - pl_r (player g) - 2
      \<and> pl_r (player g) + 2 \<le> pl_y (player g) \<and> pl_y (player g) \<le> H g - pl_r (player g) - 2)"

text \<open>More examples: a game in a 20 by 20 window; inputs with no key, the right key or
  the up key held and no pointer position.\<close>

definition tiny_game :: game where
  "tiny_game = resizeToWindow 1 20 20 48 48 (new_Game DEFAULT_CONFIG ''classic'')"

definition no_cursor :: cursor where
  "no_cursor = \<lparr>cur_x = 0, cur_y = 0, cur_has = False\<rparr>"

definition idle_input :: input_view where
  "idle_input = \<lparr>mv_dx = 0, mv_dy = 0, in_cursor = no_cursor\<rparr>"

definition right_input :: input_view where
  "right_input = \<lparr>mv_dx = 1, mv_dy = 0, in_cursor = no_cursor\<rparr>"

definition up_input :: input_view where
  "up_input = \<lparr>mv_dx = 0, mv_dy = - 1, in_cursor = no_cursor\<rparr>"

text \<open>The example game in state Playing with the player at the centre, and what a dash
  activated there with the right key held, followed by one step with the up key
  held, leads to.\<close>

definition playing_game :: game where
  "playing_game =
     example_game\<lparr>state := PLAY, player := (player example_game)\<lparr>pl_x := 400, pl_y := 300\<rparr>,
                  pipeT := 1\<rparr>"

definition after_dash :: "game \<times> rnd" where
  "after_dash = projr (handleAction right_input Dash playing_game zero_rnd)"

definition after_dash_step :: "game \<times> rnd" where
  "after_dash_step = projr (the (update up_input SIM_DT (fst after_dash) (snd after_dash)))"

text \<open>An invulnerable player under a stationary pipe, the oldest of 281 pipes.\<close>

definition near_pipe :: pipe where
  "near_pipe = (new_Pipe 390 250 28 100 0 0)\<lparr>p_entered := True\<rparr>"

definition far_pipe :: pipe where
  "far_pipe = (new_Pipe 0 0 28 100 0 0)\<lparr>p_entered := True\<rparr>"

definition crowded_game :: game where
  "crowded_game =
     playing_game\<lparr>player := (player playing_game)\<lparr>pl_invT := 4 / 10\<rparr>,
                  pipes := near_pipe # replicate 280 far_pipe\<rparr>"

text \<open>The player, not invulnerable, under a stationary pipe.\<close>

definition doomed_game :: game where
  "doomed_game = playing_game\<lparr>pipes := [near_pipe]\<rparr>"

text \<open>The same dash followed by one step with no key held.\<close>

definition after_dash_idle :: "game \<times> rnd" where
  "after_dash_idle = projr (the (update idle_input SIM_DT (fst after_dash) (snd after_dash)))"

text \<open>A computation that may not return neither raises on a source that cannot raise
  nor leaves such a source.\<close>

definition sound :: "'a exec_m \<Rightarrow> bool" where
  "sound m = (\<forall>r y. no_player r \<longrightarrow> m r = Some y \<longrightarrow> (\<exists>x r'. y = Inr (x, r') \<and> no_player r'))"


definition sound_main :: "main outcome \<Rightarrow> bool" where
  "sound_main x = (case x of None \<Rightarrow> True | Some (Inl e) \<Rightarrow> False
                   | Some (Inr m) \<Rightarrow> no_player (m_rnd m))"


text \<open>The variables of main.js after a run of one tick with seed \<^verbatim>\<open>x\<close> has ended, with
  a tape that holds nothing.\<close>

definition replay_ready :: main where
  "replay_ready =
     \<lparr>m_acc = 0, m_lastTs = 0,
      m_activeRun = Some \<lparr>r_seed = [0x78],
                           r_ticks = [\<lparr>tk_move = (0, 0), tk_cursor = no_cursor, tk_actions = []\<rparr>],
                           r_pendingActions = [], r_ended = True\<rparr>,
      m_replayDriving = False,
      m_input = \<lparr>keys = {}, in_cur = no_cursor\<rparr>,
      m_game = example_game\<lparr>state := OVER\<rparr>,
      m_rnd = \<lparr>src = RecorderSrc (createTapeRandRecorder [0x78]), rngTape = []\<rparr>,
      m_trace = []\<rparr>"

text \<open>What one orb pickup does to the pair of combo and score: the combo goes up by one,
  capped at \<open>orbComboMax\<close> (taken as 30 when it is 0, and as 1 when below 1); the points
  are computed from the new combo, with \<open>orbBase\<close> and \<open>orbComboBonus\<close> taken as 0 when
  negative, and rounded.\<close>

definition scoring_step :: "config \<Rightarrow> real \<times> real \<Rightarrow> real \<times> real" where
  "scoring_step c cs =
     (let newCombo = min (max 1 (num_or (orbComboMax (c_scoring c)) 30)) (fst cs + 1)
      in (newCombo,
          snd cs + real_of_int (round (max 0 (num_or (orbBase (c_scoring c)) 0)
                     + max 0 (num_or (orbComboBonus (c_scoring c)) 0) * max 0 (newCombo - 1)))))"

text \<open>The combo and the score of a game; and the fields that neither the trail, the combo
  sparkles nor an orb pickup change.\<close>

definition tally :: "game \<Rightarrow> real \<times> real" where
  "tally g = (combo g, score g)"

definition still :: "game \<Rightarrow> (game_state \<times> real \<times> real \<times> real \<times> real \<times> config \<times> string \<times> player)
    \<times> pipe list \<times> gate list \<times> orb list \<times> real \<times> real \<times> real" where
  "still g = (setting g, pipes g, gates g, orbs g, pipeT g, specialT g, orbT g)"

text \<open>The playing example with a given combo, score and orbs; an orb far from the player
  that expires within one step; and the example with one orb on the player, combo 5
  and \<open>orbComboMax = 0\<close>.\<close>

definition orb_game :: "real \<Rightarrow> real \<Rightarrow> orb list \<Rightarrow> game" where
  "orb_game c s os = playing_game\<lparr>combo := c, score := s, orbs := os\<rparr>"

definition dying_orb :: orb where
  "dying_orb = \<lparr>o_x = 100, o_y = 100, o_vx = 0, o_vy = 0, o_r = 12, o_life = 1 / 240, o_max = 10,
                o_ph = 0\<rparr>"

definition zero_max_game :: game where
  "zero_max_game =
     (orb_game 5 0 [example_orb])
       \<lparr>cfg := DEFAULT_CONFIG\<lparr>c_scoring := (c_scoring DEFAULT_CONFIG)\<lparr>orbComboMax := 0\<rparr>\<rparr>\<rparr>"
section \<open>Properties of the random sources\<close>

lemma recorder_calls_tape:
  "recorder_calls r t n = (vs, r', t') \<Longrightarrow> t' = t @ vs \<and> length vs = n"
proof (induction n arbitrary: r t vs r' t')
  case 0
  then show ?case by simp
next
  case (Suc n)
  obtain v r1 t1 where c: "recorder_call r t = (v, r1, t1)"
    by (metis prod_cases3)
  obtain ws r2 t2 where rc: "recorder_calls r1 t1 n = (ws, r2, t2)"
    by (metis prod_cases3)
  from c have t1: "t1 = t @ [v]"
    by (auto simp: recorder_call_def Let_def split: prod.splits)
  from Suc.prems c rc have "vs = v # ws" "t' = t2" by simp_all
  with Suc.IH [OF rc] t1 show ?case by simp
qed

lemma player_calls_segment:
  "player_calls (pre @ vs @ post) (length pre) (length vs) = Inr (vs, length pre + length vs)"
proof (induction vs arbitrary: pre)
  case Nil
  then show ?case by simp
next
  case (Cons v vs)
  have step: "player_call (pre @ (v # vs) @ post) (length pre) = Inr (v, length (pre @ [v]))"
    by (simp add: player_call_def nth_append)
  from Cons.IH [of "pre @ [v]"] step show ?case by simp
qed

text \<open>
  Claim C3 (tape round-trip fidelity). For every seed string and every \<open>n\<close>: call a
  recorder created for the seed \<open>n\<close> times, starting from an empty tape; a player
  created from the resulting tape returns, over its first \<open>n\<close> calls, exactly the
  values the recorder returned, in the same order, and raises no error.
\<close>

theorem tape_roundtrip:
  "player_calls (snd (snd (recorder_calls (createTapeRandRecorder seed) [] n)))
       createTapeRandPlayer n
     = Inr (fst (recorder_calls (createTapeRandRecorder seed) [] n), n)"
proof -
  obtain vs r' t' where rc: "recorder_calls (createTapeRandRecorder seed) [] n = (vs, r', t')"
    by (metis prod_cases3)
  from recorder_calls_tape [OF rc] have t': "t' = vs" and len: "length vs = n" by simp_all
  from player_calls_segment [of "[]" vs "[]"] len
  have "player_calls vs 0 n = Inr (vs, n)" by simp
  with rc t' show ?thesis by (simp add: createTapeRandPlayer_def)
qed

lemma u32_unit_range: "0 \<le> u32_unit w \<and> u32_unit w < 1"
proof -
  have "unat w < (4294967296 :: nat)"
    using unsigned_less [of w, where 'a = nat] by simp
  then have "real (unat w) < real (4294967296 :: nat)"
    by (rule less_imp_of_nat_less)
  then have lt: "real (unat w) / 4294967296 < 1" by simp
  have "0 \<le> real (unat w)" by (rule of_nat_0_le_iff)
  then have "0 \<le> real (unat w) / 4294967296" by (rule divide_nonneg_pos) simp
  with lt show ?thesis unfolding u32_unit_def by blast
qed

lemma mulberry32_call_range: "0 \<le> fst (mulberry32_call a) \<and> fst (mulberry32_call a) < 1"
  using u32_unit_range by (simp add: mulberry32_call_def Let_def)

lemma gen_calls_range: "v \<in> set (fst (gen_calls a n)) \<Longrightarrow> 0 \<le> v \<and> v < 1"
proof (induction n arbitrary: a)
  case 0
  then show ?case by simp
next
  case (Suc n)
  obtain w a1 where m: "mulberry32_call a = (w, a1)" by (cases "mulberry32_call a")
  obtain ws a2 where g: "gen_calls a1 n = (ws, a2)" by (cases "gen_calls a1 n")
  from Suc.prems m g have "v = w \<or> v \<in> set ws" by simp
  then show ?case
  proof
    assume "v = w"
    with mulberry32_call_range [of a] m show ?thesis by simp
  next
    assume "v \<in> set ws"
    with Suc.IH [of a1] g show ?thesis by simp
  qed
qed

lemma gen_calls_Suc:
  "gen_calls a (Suc n) =
     (fst (mulberry32_call a) # fst (gen_calls (snd (mulberry32_call a)) n),
      snd (gen_calls (snd (mulberry32_call a)) n))"
  by (simp add: case_prod_beta)

lemma gen_calls_length: "length (fst (gen_calls a n)) = n"
  by (induction n arbitrary: a) (simp_all add: case_prod_beta)

lemma gen_calls_nth_stable:
  "k < m \<Longrightarrow> k < n \<Longrightarrow> fst (gen_calls a m) ! k = fst (gen_calls a n) ! k"
proof (induction k arbitrary: a m n)
  case 0
  then obtain m' n' where "m = Suc m'" "n = Suc n'" by (metis not0_implies_Suc less_nat_zero_code)
  then show ?case by (simp add: case_prod_beta)
next
  case (Suc k)
  then obtain m' n' where mn: "m = Suc m'" "n = Suc n'" "k < m'" "k < n'"
    by (metis Suc_less_eq2)
  obtain w a1 where m: "mulberry32_call a = (w, a1)" by (cases "mulberry32_call a")
  from Suc.IH [OF mn(3,4), of a1] mn m show ?case by (simp add: case_prod_beta)
qed

lemma two_gens_eq:
  "two_gens (a1, a2) sched =
     (fst (gen_calls a1 (length (filter id sched))),
      fst (gen_calls a2 (length (filter Not sched))))"
proof (induction sched arbitrary: a1 a2)
  case Nil
  show ?case by simp
next
  case (Cons b bs)
  show ?case
  proof (cases b)
    case True
    obtain v a1' where m: "mulberry32_call a1 = (v, a1')" by (cases "mulberry32_call a1")
    from True m Cons.IH [of a1' a2] show ?thesis by (simp add: case_prod_beta)
  next
    case False
    obtain v a2' where m: "mulberry32_call a2 = (v, a2')" by (cases "mulberry32_call a2")
    from False m Cons.IH [of a1 a2'] show ?thesis by (simp add: case_prod_beta)
  qed
qed

text \<open>
  Claim C4 (SeededRandom determinism and range). Two generators created by
  \<open>createSeededRand\<close> from the same seed string, called in any interleaving, return the
  same value at every call index, and every value either of them returns is at least
  0 and strictly less than 1.
\<close>

theorem seeded_rand_deterministic_range:
  assumes "two_gens (createSeededRand seed, createSeededRand seed) sched = (o1, o2)"
  shows "(\<forall>k. k < length o1 \<and> k < length o2 \<longrightarrow> o1 ! k = o2 ! k)
       \<and> (\<forall>v \<in> set o1 \<union> set o2. 0 \<le> v \<and> v < 1)"
proof -
  define a where "a = createSeededRand seed"
  define m where "m = length (filter id sched)"
  define n where "n = length (filter Not sched)"
  from assms two_gens_eq [of a a sched]
  have o1: "o1 = fst (gen_calls a m)" and o2: "o2 = fst (gen_calls a n)"
    by (simp_all add: a_def m_def n_def)
  have same: "o1 ! k = o2 ! k" if k: "k < length o1 \<and> k < length o2" for k
  proof -
    from k have "k < m" "k < n" by (simp_all add: o1 o2 gen_calls_length)
    then show ?thesis unfolding o1 o2 by (rule gen_calls_nth_stable)
  qed
  have range: "0 \<le> v \<and> v < 1" if v: "v \<in> set o1 \<union> set o2" for v
  proof -
    from v have "v \<in> set (fst (gen_calls a m)) \<or> v \<in> set (fst (gen_calls a n))"
      by (simp add: o1 o2)
    then show ?thesis using gen_calls_range by blast
  qed
  from same range show ?thesis by blast
qed


lemma seed_x: "createSeededRand [0x78] = 3439761885"
  by (simp add: createSeededRand_def xmur3_call_def xmur3_init_def xmur3_round_def Let_def)

lemma mul1: "mulberry32_call 3439761885 = (1269555759 / 2147483648, 5271327698)"
  by (simp add: mulberry32_call_def dbl_round_def u32_unit_def Let_def)

lemma mul2: "mulberry32_call 5271327698 = (636501815 / 1073741824, 7102893511)"
  by (simp add: mulberry32_call_def dbl_round_def u32_unit_def Let_def)

text \<open>The seed \<open>"x"\<close>, the first generator called twice and the second once.\<close>

theorem seeded_rand_deterministic_range_witness:
  "two_gens (createSeededRand [0x78], createSeededRand [0x78]) [True, False, True]
     = ([1269555759 / 2147483648, 636501815 / 1073741824], [1269555759 / 2147483648])
   \<and> [1269555759 / 2147483648, 636501815 / 1073741824 :: real] ! 0 = [1269555759 / 2147483648] ! 0
   \<and> (0::real) \<le> 636501815 / 1073741824 \<and> (636501815 / 1073741824 :: real) < 1"
proof -
  have e: "two_gens (createSeededRand [0x78], createSeededRand [0x78]) [True, False, True]
     = ([1269555759 / 2147483648, 636501815 / 1073741824], [1269555759 / 2147483648])"
    by (simp add: seed_x mul1 mul2)
  from seeded_rand_deterministic_range [OF e] e show ?thesis by simp
qed

section \<open>Computations with random draws\<close>

lemma returnR_Inr [simp]: "returnR a r = Inr (b, r') \<longleftrightarrow> b = a \<and> r' = r"
  by (auto simp: returnR_def)

lemma bindR_Inr:
  "bindR m f r = Inr (b, r'') \<longleftrightarrow> (\<exists>a r'. m r = Inr (a, r') \<and> f a r' = Inr (b, r''))"
  by (auto simp: bindR_def split: sum.splits)

lemma yields_returnR: "P a \<Longrightarrow> yields P (returnR a)"
  by (simp add: yields_def)

lemma yields_bindR:
  "yields Q m \<Longrightarrow> (\<And>a. Q a \<Longrightarrow> yields P (f a)) \<Longrightarrow> yields P (bindR m f)"
  unfolding yields_def bindR_Inr by blast

lemma yields_any: "yields (\<lambda>x. True) m"
  by (simp add: yields_def)

lemma yields_bindR_any: "(\<And>a. yields P (f a)) \<Longrightarrow> yields P (bindR m f)"
  by (rule yields_bindR [OF yields_any])

lemma yields_forR:
  "P s \<Longrightarrow> (\<And>i s. P s \<Longrightarrow> yields P (body i s)) \<Longrightarrow> yields P (forR i n body s)"
proof (induction n arbitrary: i s)
  case 0
  then show ?case by (simp add: yields_returnR)
next
  case (Suc n)
  show ?case unfolding forR.simps
    by (rule yields_bindR [where Q = P]) (auto intro: Suc)
qed

lemma yields_forEachR:
  "P s \<Longrightarrow> (\<And>x s. P s \<Longrightarrow> yields P (body x s)) \<Longrightarrow> yields P (forEachR xs body s)"
proof (induction xs arbitrary: s)
  case Nil
  then show ?case by (simp add: yields_returnR)
next
  case (Cons x xs)
  show ?case unfolding forEachR.simps
    by (rule yields_bindR [where Q = P]) (auto intro: Cons)
qed

lemma yieldsD: "yields P m \<Longrightarrow> m r = Inr (x, r') \<Longrightarrow> P x"
  unfolding yields_def by blast

lemma yields_if: "(c \<Longrightarrow> yields P a) \<Longrightarrow> (\<not> c \<Longrightarrow> yields P b) \<Longrightarrow> yields P (if c then a else b)"
  by simp

lemma returns_returnR: "returns (returnR a)"
  by (simp add: returns_def)

lemma returns_rand01: "returns rand01"
  unfolding returns_def
  by (auto simp: rand01_def no_player_def recorder_call_def case_prod_beta Let_def
      split: rand_source.splits)

lemma returns_bindR: "returns m \<Longrightarrow> (\<And>a. returns (f a)) \<Longrightarrow> returns (bindR m f)"
  unfolding returns_def bindR_Inr by metis

lemma returns_rand: "returns (rand a b)"
  unfolding rand_def by (intro returns_bindR returns_rand01 returns_returnR)

lemma returns_forR: "(\<And>i s. returns (body i s)) \<Longrightarrow> returns (forR i n body s)"
  by (induction n arbitrary: i s) (auto intro: returns_returnR returns_bindR)

lemma returns_forEachR: "(\<And>x s. returns (body x s)) \<Longrightarrow> returns (forEachR xs body s)"
  by (induction xs arbitrary: s) (auto intro: returns_returnR returns_bindR)

lemma returns_if: "returns a \<Longrightarrow> returns b \<Longrightarrow> returns (if c then a else b)"
  by simp

lemma returns_new_FloatText: "returns (new_FloatText t x y c)"
  unfolding new_FloatText_def by (intro returns_bindR returns_rand returns_returnR)

lemma yields_pickupOne:
  "yields (\<lambda>g'. combo g' = min (max 1 (num_or (orbComboMax (c_scoring (cfg g))) 30)) (combo g + 1)
              \<and> score g' = score g + orbPoints g (combo g') \<and> cfg g' = cfg g) (pickupOne ob g)"
  unfolding pickupOne_def Let_def
  apply (rule yields_bindR_any)
  apply (rule yields_forR)
   apply (simp add: orbPoints_def)
  apply (intro yields_bindR_any yields_returnR)
  apply simp
  done

lemma returns_pickupOne: "returns (pickupOne ob g)"
  unfolding pickupOne_def Let_def
  by (intro returns_bindR returns_forR returns_rand returns_returnR returns_new_FloatText)


lemma returnsD:
  "returns m \<Longrightarrow> no_player r \<Longrightarrow> m r = Inr (fst (projr (m r)), snd (projr (m r)))"
  unfolding returns_def by (metis fst_conv snd_conv sum.sel(2))

section \<open>Orb pickup\<close>

lemma no_player_zero_rnd: "no_player zero_rnd"
  by (simp add: no_player_def zero_rnd_def)

lemma cfg_example_game: "cfg example_game = DEFAULT_CONFIG"
  by (simp add: example_game_def resizeToWindow_def computePlayerSize_def new_Game_def Let_def)

lemma yields_breakCombo: "yields (\<lambda>g'. combo g' = 0 \<and> score g' = score g \<and> cfg g' = cfg g) (breakCombo x y g)"
  unfolding breakCombo_def
  apply (rule yields_bindR [where Q = "\<lambda>g'. score g' = score g \<and> cfg g' = cfg g"])
   apply (auto intro!: yields_bindR_any yields_returnR)
  done

lemma returns_breakCombo: "returns (breakCombo x y g)"
  unfolding breakCombo_def
  by (intro returns_bindR returns_if returns_returnR returns_new_FloatText)

lemma pickupOrbs_single:
  "filter (touches g) (rev (orbs g)) = [ob] \<Longrightarrow>
   pickupOrbs g = pickupOne ob (g\<lparr>orbs := filter (\<lambda>ob. \<not> touches g ob) (orbs g)\<rparr>)"
  by (simp add: pickupOrbs_def bindR_def returnR_def fun_eq_iff split: sum.splits)

lemma example_scoring: "orbComboMax (c_scoring DEFAULT_CONFIG) = 30"
  "orbBase (c_scoring DEFAULT_CONFIG) = 5" "orbComboBonus (c_scoring DEFAULT_CONFIG) = 1"
  by (simp_all add: DEFAULT_CONFIG_def)

lemma r5: "round (5::real) = 5" "round (6::real) = 6" "round (7 :: real) = 7"
  by (simp_all add: round_def)

section \<open>Skill activation\<close>

lemma sans_fx_simps [simp]:
  "sans_fx (g\<lparr>parts := ps\<rparr>) = sans_fx g"
  "sans_fx (g\<lparr>floats := fs\<rparr>) = sans_fx g"
  by (simp_all add: sans_fx_def)

lemma sans_fx_fields:
  "state (sans_fx g) = state g" "W (sans_fx g) = W g" "H (sans_fx g) = H g"
  "canvas_width (sans_fx g) = canvas_width g" "canvas_height (sans_fx g) = canvas_height g"
  "cfg (sans_fx g) = cfg g" "trailId (sans_fx g) = trailId g" "player (sans_fx g) = player g"
  "pipes (sans_fx g) = pipes g" "gates (sans_fx g) = gates g" "orbs (sans_fx g) = orbs g"
  "score (sans_fx g) = score g" "timeAlive (sans_fx g) = timeAlive g" "pipeT (sans_fx g) = pipeT g"
  "specialT (sans_fx g) = specialT g" "orbT (sans_fx g) = orbT g" "combo (sans_fx g) = combo g"
  "comboBreakFlash (sans_fx g) = comboBreakFlash g" "comboSparkAcc (sans_fx g) = comboSparkAcc g"
  "perfectT (sans_fx g) = perfectT g" "perfectMax (sans_fx g) = perfectMax g"
  "slowField (sans_fx g) = slowField g" "cds (sans_fx g) = cds g"
  "trailAcc (sans_fx g) = trailAcc g" "trailHue (sans_fx g) = trailHue g"
  by (simp_all add: sans_fx_def)

lemma sans_fx_eqD:
  assumes "sans_fx g' = sans_fx g"
  shows "state g' = state g" "W g' = W g" "H g' = H g"
    "canvas_width g' = canvas_width g" "canvas_height g' = canvas_height g"
    "cfg g' = cfg g" "trailId g' = trailId g" "player g' = player g"
    "pipes g' = pipes g" "gates g' = gates g" "orbs g' = orbs g"
    "score g' = score g" "timeAlive g' = timeAlive g" "pipeT g' = pipeT g"
    "specialT g' = specialT g" "orbT g' = orbT g" "combo g' = combo g"
    "comboBreakFlash g' = comboBreakFlash g" "comboSparkAcc g' = comboSparkAcc g"
    "perfectT g' = perfectT g" "perfectMax g' = perfectMax g"
    "slowField g' = slowField g" "cds g' = cds g"
    "trailAcc g' = trailAcc g" "trailHue g' = trailHue g"
  using arg_cong [OF assms, of state] arg_cong [OF assms, of W] arg_cong [OF assms, of H]
    arg_cong [OF assms, of canvas_width] arg_cong [OF assms, of canvas_height]
    arg_cong [OF assms, of cfg] arg_cong [OF assms, of trailId] arg_cong [OF assms, of player]
    arg_cong [OF assms, of pipes] arg_cong [OF assms, of gates] arg_cong [OF assms, of orbs]
    arg_cong [OF assms, of score] arg_cong [OF assms, of timeAlive] arg_cong [OF assms, of pipeT]
    arg_cong [OF assms, of specialT] arg_cong [OF assms, of orbT] arg_cong [OF assms, of combo]
    arg_cong [OF assms, of comboBreakFlash] arg_cong [OF assms, of comboSparkAcc]
    arg_cong [OF assms, of perfectT] arg_cong [OF assms, of perfectMax]
    arg_cong [OF assms, of slowField] arg_cong [OF assms, of cds]
    arg_cong [OF assms, of trailAcc] arg_cong [OF assms, of trailHue]
  by (simp_all add: sans_fx_fields)

text \<open>A loop that only adds particles keeps the rest of the game.\<close>

lemma yields_fx_forR:
  assumes "sans_fx s = c"
    and "\<And>i s. yields (\<lambda>s'. sans_fx s' = sans_fx s) (body i s)"
  shows "yields (\<lambda>s'. sans_fx s' = c) (forR i n body s)"
proof (rule yields_forR [where P = "\<lambda>s'. sans_fx s' = c"])
  show "sans_fx s = c" by fact
next
  fix j t assume "sans_fx t = c"
  with assms(2) [of t j] show "yields (\<lambda>s'. sans_fx s' = c) (body j t)" by simp
qed

lemma yields_useDash:
  "yields (\<lambda>g'. sans_fx g' = sans_fx
     (let n = norm2 (mv_dx inp) (mv_dy inp);
          dx = (if n_len n > 0 then n_x n else pl_lastX (player g));
          dy = (if n_len n > 0 then n_y n else pl_lastY (player g));
          nn = norm2 dx dy
      in g\<lparr>player := (player g)\<lparr>pl_dashVX := (if n_len nn > 0 then n_x nn else 0),
                 pl_dashVY := (if n_len nn > 0 then n_y nn else - 1),
                 pl_dashT := clamp (dash_duration (c_skills (cfg g))) 0 (12 / 10)\<rparr>,
            cds := (cds g)\<lparr>cd_dash := max 0 (dash_cooldown (c_skills (cfg g)))\<rparr>\<rparr>))
     (useDash inp g)"
  unfolding useDash_def Let_def
  apply (rule yields_fx_forR)
   apply (simp add: num_or_def)
  apply (intro yields_bindR_any yields_returnR)
  apply simp
  done

lemma yields_usePhase:
  "yields (\<lambda>g'. sans_fx g' = sans_fx
     (g\<lparr>player := (player g)\<lparr>pl_invT := max (pl_invT (player g))
                                    (clamp (phase_duration (c_skills (cfg g))) 0 2)\<rparr>,
        cds := (cds g)\<lparr>cd_phase := max 0 (phase_cooldown (c_skills (cfg g)))\<rparr>\<rparr>))
     (usePhase g)"
  unfolding usePhase_def Let_def
  apply (intro yields_bindR_any yields_returnR)
  apply (simp add: num_or_def)
  done

lemma yields_useSlowField:
  "yields (\<lambda>g'. sans_fx g' = sans_fx
     (g\<lparr>slowField := Some \<lparr>sf_x = pl_x (player g), sf_y = pl_y (player g),
           sf_r = clamp (slowField_radius (c_skills (cfg g))) 40 900,
           sf_fac = clamp (num_or (slowField_slowFactor (c_skills (cfg g))) (6 / 10)) (10 / 100) 1,
           sf_t = clamp (slowField_duration (c_skills (cfg g))) 0 8,
           sf_tm = clamp (slowField_duration (c_skills (cfg g))) 0 8\<rparr>,
        cds := (cds g)\<lparr>cd_slowField := max 0 (slowField_cooldown (c_skills (cfg g)))\<rparr>\<rparr>))
     (useSlowField g)"
  unfolding useSlowField_def Let_def
  apply (intro yields_bindR_any yields_returnR)
  apply (simp add: num_or_def)
  done

text \<open>Where a teleport lands: the cursor, scaled from canvas to play-area coordinates
  and clamped.\<close>

lemma sans_fx_upd:
  "sans_fx (g\<lparr>player := p, cds := c\<rparr>) = (sans_fx g)\<lparr>player := p, cds := c\<rparr>"
  by (simp add: sans_fx_def)

lemma yields_useTeleport:
  assumes "cur_has (in_cursor inp)"
  shows "yields (\<lambda>g'. sans_fx g' = sans_fx
     (let pad = pl_r (player g) + 2;
          cw = num_or (canvas_width g) (W g);
          ch = num_or (canvas_height g) (H g);
          sx = (if cw > 0 then W g / cw else 1);
          sy = (if ch > 0 then H g / ch else 1)
      in g\<lparr>player := (player g)\<lparr>pl_x := clamp (cur_x (in_cursor inp) * sx) pad (W g - pad),
                                  pl_y := clamp (cur_y (in_cursor inp) * sy) pad (H g - pad),
                                  pl_vx := pl_vx (player g) * (25 / 100),
                                  pl_vy := pl_vy (player g) * (25 / 100)\<rparr>,
            cds := (cds g)\<lparr>cd_teleport := max 0 (teleport_cooldown (c_skills (cfg g)))\<rparr>\<rparr>))
     (useTeleport inp g)"
  unfolding useTeleport_def Let_def
proof (simp only: assms not_True_eq_False if_False,
    rule yields_bindR [where Q = "\<lambda>g1. sans_fx g1 = sans_fx g"], goal_cases)
  case 1
  show ?case
    by (rule yields_fx_forR, simp, intro yields_bindR_any yields_returnR, simp)
next
  case (2 g1)
  note eq = sans_fx_eqD [OF 2]
  show ?case
    apply (rule yields_bindR_any)
    apply (rule yields_fx_forR)
     apply (simp add: sans_fx_upd 2 eq num_or_def)
    apply (intro yields_bindR_any yields_returnR)
    apply simp
    done
qed

lemma returns_useDash: "returns (useDash inp g)"
  unfolding useDash_def Let_def
  by (intro returns_bindR returns_forR returns_rand returns_returnR)

lemma returns_usePhase: "returns (usePhase g)"
  unfolding usePhase_def Let_def
  by (intro returns_bindR returns_new_FloatText returns_returnR)

lemma returns_useSlowField: "returns (useSlowField g)"
  unfolding useSlowField_def Let_def
  by (intro returns_bindR returns_new_FloatText returns_returnR)

lemma returns_useTeleport: "returns (useTeleport inp g)"
  unfolding useTeleport_def Let_def
  by (intro returns_if returns_bindR returns_forR returns_rand returns_returnR
      returns_new_FloatText)

lemma returns_useSkill: "returns (useSkill inp name g)"
  unfolding useSkill_def
  by (cases name)
    (simp_all add: returns_returnR returns_useDash returns_usePhase returns_useTeleport
      returns_useSlowField)

lemma returns_handleAction: "returns (handleAction inp name g)"
  unfolding handleAction_def by (simp add: returns_returnR returns_useSkill)

lemma yieldsE:
  assumes "yields P m" "returns m" "no_player r"
  obtains x r' where "m r = Inr (x, r')" "P x" "no_player r'"
  using assms unfolding yields_def returns_def by blast

text \<open>
  Claim C5 (invalid skill activation is a silent no-op). In state Playing, an
  activation of a skill whose cooldown remaining is positive, and an activation of
  teleport while no pointer position is known, raise no error and return the game and
  the random source unchanged (so they start no cooldown). An activation at cooldown
  remaining exactly 0 (with a known pointer position for teleport, and a random source
  that is not an exhausted tape) succeeds: it returns, starts the skill's cooldown and
  applies the skill's effect.
\<close>

theorem invalid_activation_noop:
  assumes "state g = PLAY"
  shows "(cd_of name (cds g) > 0 \<longrightarrow> handleAction inp name g r = Inr (g, r))
    \<and> (\<not> cur_has (in_cursor inp) \<longrightarrow> handleAction inp Teleport g r = Inr (g, r))
    \<and> (cd_of name (cds g) = 0 \<and> (name = Teleport \<longrightarrow> cur_has (in_cursor inp)) \<and> no_player r \<longrightarrow>
         (\<exists>g' r'. handleAction inp name g r = Inr (g', r') \<and>
            (case name of
               Dash \<Rightarrow> cd_dash (cds g') = max 0 (dash_cooldown (c_skills (cfg g)))
                       \<and> pl_dashT (player g') = clamp (dash_duration (c_skills (cfg g))) 0 (12 / 10)
             | Phase \<Rightarrow> cd_phase (cds g') = max 0 (phase_cooldown (c_skills (cfg g)))
                       \<and> pl_invT (player g') =
                           max (pl_invT (player g)) (clamp (phase_duration (c_skills (cfg g))) 0 2)
             | Teleport \<Rightarrow> cd_teleport (cds g') = max 0 (teleport_cooldown (c_skills (cfg g)))
                       \<and> pl_x (player g') =
                           clamp (cur_x (in_cursor inp) *
                                  (if num_or (canvas_width g) (W g) > 0
                                   then W g / num_or (canvas_width g) (W g) else 1))
                             (pl_r (player g) + 2) (W g - (pl_r (player g) + 2))
                       \<and> pl_y (player g') =
                           clamp (cur_y (in_cursor inp) *
                                  (if num_or (canvas_height g) (H g) > 0
                                   then H g / num_or (canvas_height g) (H g) else 1))
                             (pl_r (player g) + 2) (H g - (pl_r (player g) + 2))
             | SlowField \<Rightarrow> cd_slowField (cds g') = max 0 (slowField_cooldown (c_skills (cfg g)))
                       \<and> slowField g' \<noteq> None)))"
proof (intro conjI impI)
  assume "cd_of name (cds g) > 0"
  with assms show "handleAction inp name g r = Inr (g, r)"
    by (simp add: handleAction_def useSkill_def returnR_def)
next
  assume "\<not> cur_has (in_cursor inp)"
  with assms show "handleAction inp Teleport g r = Inr (g, r)"
    by (simp add: handleAction_def useSkill_def useTeleport_def returnR_def Let_def)
next
  assume a: "cd_of name (cds g) = 0 \<and> (name = Teleport \<longrightarrow> cur_has (in_cursor inp)) \<and> no_player r"
  then have np: "no_player r" and cd0: "cd_of name (cds g) = 0" by simp_all
  show "\<exists>g' r'. handleAction inp name g r = Inr (g', r') \<and>
            (case name of
               Dash \<Rightarrow> cd_dash (cds g') = max 0 (dash_cooldown (c_skills (cfg g)))
                       \<and> pl_dashT (player g') = clamp (dash_duration (c_skills (cfg g))) 0 (12 / 10)
             | Phase \<Rightarrow> cd_phase (cds g') = max 0 (phase_cooldown (c_skills (cfg g)))
                       \<and> pl_invT (player g') =
                           max (pl_invT (player g)) (clamp (phase_duration (c_skills (cfg g))) 0 2)
             | Teleport \<Rightarrow> cd_teleport (cds g') = max 0 (teleport_cooldown (c_skills (cfg g)))
                       \<and> pl_x (player g') =
                           clamp (cur_x (in_cursor inp) *
                                  (if num_or (canvas_width g) (W g) > 0
                                   then W g / num_or (canvas_width g) (W g) else 1))
                             (pl_r (player g) + 2) (W g - (pl_r (player g) + 2))
                       \<and> pl_y (player g') =
                           clamp (cur_y (in_cursor inp) *
                                  (if num_or (canvas_height g) (H g) > 0
                                   then H g / num_or (canvas_height g) (H g) else 1))
                             (pl_r (player g) + 2) (H g - (pl_r (player g) + 2))
             | SlowField \<Rightarrow> cd_slowField (cds g') = max 0 (slowField_cooldown (c_skills (cfg g)))
                       \<and> slowField g' \<noteq> None)"
  proof (cases name)
    case Dash
    from yieldsE [OF yields_useDash returns_useDash np, of inp g]
    obtain g' r' where run: "useDash inp g r = Inr (g', r')"
      and eq: "sans_fx g' = sans_fx
        (let n = norm2 (mv_dx inp) (mv_dy inp);
             dx = (if n_len n > 0 then n_x n else pl_lastX (player g));
             dy = (if n_len n > 0 then n_y n else pl_lastY (player g));
             nn = norm2 dx dy
         in g\<lparr>player := (player g)\<lparr>pl_dashVX := (if n_len nn > 0 then n_x nn else 0),
                 pl_dashVY := (if n_len nn > 0 then n_y nn else - 1),
                 pl_dashT := clamp (dash_duration (c_skills (cfg g))) 0 (12 / 10)\<rparr>,
               cds := (cds g)\<lparr>cd_dash := max 0 (dash_cooldown (c_skills (cfg g)))\<rparr>\<rparr>)"
      by blast
    from sans_fx_eqD(8,23) [OF eq]
    have "cd_dash (cds g') = max 0 (dash_cooldown (c_skills (cfg g)))"
      "pl_dashT (player g') = clamp (dash_duration (c_skills (cfg g))) 0 (12 / 10)"
      by (simp_all add: Let_def)
    with run Dash cd0 assms show ?thesis
      by (simp add: handleAction_def useSkill_def)
  next
    case Phase
    from yieldsE [OF yields_usePhase returns_usePhase np, of g]
    obtain g' r' where run: "usePhase g r = Inr (g', r')"
      and eq: "sans_fx g' = sans_fx
        (g\<lparr>player := (player g)\<lparr>pl_invT := max (pl_invT (player g))
                                    (clamp (phase_duration (c_skills (cfg g))) 0 2)\<rparr>,
           cds := (cds g)\<lparr>cd_phase := max 0 (phase_cooldown (c_skills (cfg g)))\<rparr>\<rparr>)"
      by blast
    from sans_fx_eqD(8,23) [OF eq]
    have "cd_phase (cds g') = max 0 (phase_cooldown (c_skills (cfg g)))"
      "pl_invT (player g') = max (pl_invT (player g)) (clamp (phase_duration (c_skills (cfg g))) 0 2)"
      by simp_all
    with run Phase cd0 assms show ?thesis
      by (simp add: handleAction_def useSkill_def)
  next
    case Teleport
    with a have has: "cur_has (in_cursor inp)" by simp
    from yieldsE [OF yields_useTeleport [OF has] returns_useTeleport np, of g]
    obtain g' r' where run: "useTeleport inp g r = Inr (g', r')"
      and eq: "sans_fx g' = sans_fx
        (let pad = pl_r (player g) + 2;
          cw = num_or (canvas_width g) (W g);
          ch = num_or (canvas_height g) (H g);
          sx = (if cw > 0 then W g / cw else 1);
          sy = (if ch > 0 then H g / ch else 1)
         in g\<lparr>player := (player g)\<lparr>pl_x := clamp (cur_x (in_cursor inp) * sx) pad (W g - pad),
                                  pl_y := clamp (cur_y (in_cursor inp) * sy) pad (H g - pad),
                                  pl_vx := pl_vx (player g) * (25 / 100),
                                  pl_vy := pl_vy (player g) * (25 / 100)\<rparr>,
            cds := (cds g)\<lparr>cd_teleport := max 0 (teleport_cooldown (c_skills (cfg g)))\<rparr>\<rparr>)"
      by blast
    from sans_fx_eqD(8,23) [OF eq]
    have e: "cd_teleport (cds g') = max 0 (teleport_cooldown (c_skills (cfg g)))"
      "pl_x (player g') =
         clamp (cur_x (in_cursor inp) *
                (if num_or (canvas_width g) (W g) > 0
                 then W g / num_or (canvas_width g) (W g) else 1))
           (pl_r (player g) + 2) (W g - (pl_r (player g) + 2))"
      "pl_y (player g') =
         clamp (cur_y (in_cursor inp) *
                (if num_or (canvas_height g) (H g) > 0
                 then H g / num_or (canvas_height g) (H g) else 1))
           (pl_r (player g) + 2) (H g - (pl_r (player g) + 2))"
      by (simp_all add: Let_def)
    with run Teleport cd0 assms show ?thesis
      by (simp add: handleAction_def useSkill_def)
  next
    case SlowField
    from yieldsE [OF yields_useSlowField returns_useSlowField np, of g]
    obtain g' r' where run: "useSlowField g r = Inr (g', r')"
      and eq: "sans_fx g' = sans_fx
     (g\<lparr>slowField := Some \<lparr>sf_x = pl_x (player g), sf_y = pl_y (player g),
           sf_r = clamp (slowField_radius (c_skills (cfg g))) 40 900,
           sf_fac = clamp (num_or (slowField_slowFactor (c_skills (cfg g))) (6 / 10)) (10 / 100) 1,
           sf_t = clamp (slowField_duration (c_skills (cfg g))) 0 8,
           sf_tm = clamp (slowField_duration (c_skills (cfg g))) 0 8\<rparr>,
        cds := (cds g)\<lparr>cd_slowField := max 0 (slowField_cooldown (c_skills (cfg g)))\<rparr>\<rparr>)"
      by blast
    from sans_fx_eqD(22,23) [OF eq]
    have "cd_slowField (cds g') = max 0 (slowField_cooldown (c_skills (cfg g)))"
      "slowField g' \<noteq> None"
      by simp_all
    with run SlowField cd0 assms show ?thesis
      by (simp add: handleAction_def useSkill_def)
  qed
qed


lemma example_game_fields:
  "cfg example_game = DEFAULT_CONFIG" "W example_game = 800" "H example_game = 600"
  "canvas_width example_game = 800" "canvas_height example_game = 600"
  "pl_r (player example_game) = 1254 / 100" "cds example_game = \<lparr>cd_dash = 0, cd_phase = 0, cd_teleport = 0, cd_slowField = 0\<rparr>"
  by (simp_all add: example_game_def resizeToWindow_def computePlayerSize_def new_Game_def
      Let_def num_or_def DEFAULT_CONFIG_def clamp_def)

text \<open>Dash at cooldown remaining 0.0001 and teleport without a pointer position change
  nothing; dash at cooldown remaining 0 starts the cooldown of 1.15 s.\<close>

theorem invalid_activation_noop_witness:
  "handleAction \<lparr>mv_dx = 1, mv_dy = 0, in_cursor = \<lparr>cur_x = 0, cur_y = 0, cur_has = False\<rparr>\<rparr>
       Dash (example_game\<lparr>state := PLAY, cds := (cds example_game)\<lparr>cd_dash := 1 / 10000\<rparr>\<rparr>) zero_rnd
     = Inr (example_game\<lparr>state := PLAY, cds := (cds example_game)\<lparr>cd_dash := 1 / 10000\<rparr>\<rparr>, zero_rnd)
   \<and> handleAction \<lparr>mv_dx = 1, mv_dy = 0, in_cursor = \<lparr>cur_x = 0, cur_y = 0, cur_has = False\<rparr>\<rparr>
       Teleport (example_game\<lparr>state := PLAY\<rparr>) zero_rnd
     = Inr (example_game\<lparr>state := PLAY\<rparr>, zero_rnd)
   \<and> cd_dash (cds (fst (projr (handleAction
         \<lparr>mv_dx = 1, mv_dy = 0, in_cursor = \<lparr>cur_x = 0, cur_y = 0, cur_has = False\<rparr>\<rparr>
         Dash (example_game\<lparr>state := PLAY\<rparr>) zero_rnd)))) = 115 / 100"
proof -
  let ?inp = "\<lparr>mv_dx = 1, mv_dy = 0, in_cursor = \<lparr>cur_x = 0, cur_y = 0, cur_has = False\<rparr>\<rparr>"
  let ?g1 = "example_game\<lparr>state := PLAY, cds := (cds example_game)\<lparr>cd_dash := 1 / 10000\<rparr>\<rparr>"
  let ?g2 = "example_game\<lparr>state := PLAY\<rparr>"
  have a: "handleAction ?inp Dash ?g1 zero_rnd = Inr (?g1, zero_rnd)"
    using invalid_activation_noop [of ?g1 Dash ?inp zero_rnd] by (simp add: cd_of_def)
  have b: "handleAction ?inp Teleport ?g2 zero_rnd = Inr (?g2, zero_rnd)"
    using invalid_activation_noop [of ?g2 Teleport ?inp zero_rnd] by simp
  have c: "cd_dash (cds (fst (projr (handleAction ?inp Dash ?g2 zero_rnd)))) = 115 / 100"
    using invalid_activation_noop [of ?g2 Dash ?inp zero_rnd]
    by (auto simp: cd_of_def example_game_fields no_player_zero_rnd DEFAULT_CONFIG_def)
  from a b c show ?thesis by blast
qed

section \<open>What a simulation step leaves alone\<close>

lemma whileR_invariant:
  assumes run: "whileR c body s r = Some (Inr (s', r'))"
    and Ps: "P s"
    and step: "\<And>s. P s \<Longrightarrow> c s \<Longrightarrow> yields P (body s)"
  shows "P s' \<and> \<not> c s'"
proof -
  have "c0 = c \<longrightarrow> body0 = body \<longrightarrow> (\<forall>s' r'. y = Inr (s', r') \<longrightarrow> P s0 \<longrightarrow> P s' \<and> \<not> c s')"
    if "whileR c0 body0 s0 r0 = Some y" for c0 body0 s0 r0 y
  proof (rule whileR.raw_induct
      [where P = "\<lambda>c0 body0 s0 r0 y. c0 = c \<longrightarrow> body0 = body \<longrightarrow>
                    (\<forall>s' r'. y = Inr (s', r') \<longrightarrow> P s0 \<longrightarrow> P s' \<and> \<not> c s')", OF _ that],
      goal_cases)
    case (1 w c0 body0 s0 r0 y)
    show ?case
    proof (intro allI impI)
      fix s' r'
      assume c0: "c0 = c" and b0: "body0 = body" and y: "y = Inr (s', r')" and P0: "P s0"
      show "P s' \<and> \<not> c s'"
      proof (cases "c s0")
        case False
        with 1(2) y P0 c0 show ?thesis by simp
      next
        case True
        with 1(2) y c0 b0 obtain s1 r1 where b: "body s0 r0 = Inr (s1, r1)"
          and w: "w c body s1 r1 = Some y"
          by (auto split: sum.splits)
        from step [OF P0 True] b have "P s1" by (rule yieldsD)
        with 1(1) [OF w] y show ?thesis by blast
      qed
    qed
  qed
  from this [OF run] Ps show ?thesis by blast
qed

lemma yields_bindR_same:
  "yields P m \<Longrightarrow> (\<And>a. P a \<Longrightarrow> yields P (f a)) \<Longrightarrow> yields P (bindR m f)"
  by (rule yields_bindR)

lemmas yields_intros =
  yields_bindR_same yields_bindR_any yields_returnR yields_if yields_forR yields_forEachR

lemma setting_eqD:
  assumes "setting g' = setting g"
  shows "state g' = state g" "W g' = W g" "H g' = H g" "canvas_width g' = canvas_width g"
    "canvas_height g' = canvas_height g" "cfg g' = cfg g" "trailId g' = trailId g"
    "player g' = player g"
  using assms by (simp_all add: setting_def)

lemma setting_upd [simp]:
  "setting (g\<lparr>pipes := a\<rparr>) = setting g" "setting (g\<lparr>gates := b\<rparr>) = setting g"
  "setting (g\<lparr>orbs := c\<rparr>) = setting g" "setting (g\<lparr>parts := d\<rparr>) = setting g"
  "setting (g\<lparr>floats := e\<rparr>) = setting g" "setting (g\<lparr>score := f\<rparr>) = setting g"
  "setting (g\<lparr>timeAlive := t\<rparr>) = setting g" "setting (g\<lparr>pipeT := t\<rparr>) = setting g"
  "setting (g\<lparr>specialT := t\<rparr>) = setting g" "setting (g\<lparr>orbT := t\<rparr>) = setting g"
  "setting (g\<lparr>combo := t\<rparr>) = setting g" "setting (g\<lparr>comboBreakFlash := t\<rparr>) = setting g"
  "setting (g\<lparr>comboSparkAcc := t\<rparr>) = setting g" "setting (g\<lparr>perfectT := t\<rparr>) = setting g"
  "setting (g\<lparr>perfectMax := t\<rparr>) = setting g" "setting (g\<lparr>slowField := sf\<rparr>) = setting g"
  "setting (g\<lparr>cds := cd\<rparr>) = setting g" "setting (g\<lparr>trailAcc := t\<rparr>) = setting g"
  "setting (g\<lparr>trailHue := t\<rparr>) = setting g"
  by (simp_all add: setting_def)

lemma set_spawnSinglePipe:
  "setting g = c \<Longrightarrow> yields (\<lambda>g'. setting g' = c) (spawnSinglePipe opts g)"
  unfolding spawnSinglePipe_def Let_def
  by (intro yields_intros) simp

lemma set_spawnWall:
  "setting g = c \<Longrightarrow> yields (\<lambda>g'. setting g' = c) (spawnWall opts g)"
  unfolding spawnWall_def Let_def
  by (intro yields_intros) simp_all

lemma set_spawnBurst:
  "setting g = c \<Longrightarrow> yields (\<lambda>g'. setting g' = c) (spawnBurst g)"
  unfolding spawnBurst_def Let_def
  by (intro yields_intros set_spawnSinglePipe)

lemma set_spawnCrossfire:
  "setting g = c \<Longrightarrow> yields (\<lambda>g'. setting g' = c) (spawnCrossfire g)"
  unfolding spawnCrossfire_def Let_def
  by (intro yields_intros set_spawnSinglePipe)

lemma set_spawnOrb:
  "setting g = c \<Longrightarrow> yields (\<lambda>g'. setting g' = c) (spawnOrb g)"
  unfolding spawnOrb_def Let_def case_prod_beta
  by (intro yields_intros) simp_all

lemma set_breakCombo:
  "setting g = c \<Longrightarrow> yields (\<lambda>g'. setting g' = c) (breakCombo x y g)"
  unfolding breakCombo_def
  by (intro yields_intros) simp_all

lemma set_emitTrail:
  "setting g = c \<Longrightarrow> yields (\<lambda>g'. setting g' = c) (emitTrail dt g)"
  unfolding emitTrail_def Let_def
  by (intro yields_intros) simp_all

lemma set_comboSparkles:
  "setting g = c \<Longrightarrow> yields (\<lambda>g'. setting g' = c) (comboSparkles dt g)"
  unfolding comboSparkles_def Let_def
  by (intro yields_intros) simp_all

lemma set_spawnPipes:
  "setting g = c \<Longrightarrow> yields (\<lambda>g'. setting g' = c) (spawnPipes g)"
  unfolding spawnPipes_def Let_def
  by (intro yields_intros set_spawnWall set_spawnSinglePipe) simp_all

lemma set_spawnSpecial:
  "setting g = c \<Longrightarrow> yields (\<lambda>g'. setting g' = c) (spawnSpecial dt g)"
  unfolding spawnSpecial_def Let_def
  by (intro yields_intros set_spawnWall set_spawnBurst set_spawnCrossfire) simp_all

lemma set_spawnOrbs:
  "setting g = c \<Longrightarrow> yields (\<lambda>g'. setting g' = c) (spawnOrbs dt g)"
  unfolding spawnOrbs_def Let_def
  by (intro yields_intros set_spawnOrb) simp_all

lemma set_perfectGate:
  "setting g = c \<Longrightarrow> yields (\<lambda>g'. setting g' = c) (perfectGate i g)"
  unfolding perfectGate_def Let_def
  by (intro yields_intros) simp_all

lemma set_updateGates:
  "setting g = c \<Longrightarrow> yields (\<lambda>g'. setting g' = c) (updateGates dt g)"
  unfolding updateGates_def Let_def
  by (intro yields_intros set_perfectGate) simp_all

lemma set_expireOrbs:
  "setting g = c \<Longrightarrow> yields (\<lambda>g'. setting g' = c) (expireOrbs dt g)"
  unfolding expireOrbs_def Let_def
  by (intro yields_intros set_breakCombo) simp_all

lemma set_pickupOne:
  "setting g = c \<Longrightarrow> yields (\<lambda>g'. setting g' = c) (pickupOne ob g)"
  unfolding pickupOne_def Let_def
  by (intro yields_intros) simp_all

lemma set_pickupOrbs:
  "setting g = c \<Longrightarrow> yields (\<lambda>g'. setting g' = c) (pickupOrbs g)"
  unfolding pickupOrbs_def
  by (intro yields_intros set_pickupOne) simp_all

lemma setting_pure [simp]:
  "setting (updatePipes dt g) = setting g"
  "setting (removeOffField g) = setting g"
  "setting (updateFx dt g) = setting g"
  "setting (caps g) = setting g"
  by (simp_all add: updatePipes_def removeOffField_def updateFx_def caps_def Let_def)


lemma bindX_Some:
  "bindX m f r = Some (Inr (b, r'')) \<longleftrightarrow>
     (\<exists>a r'. m r = Some (Inr (a, r')) \<and> f a r' = Some (Inr (b, r'')))"
  by (auto simp: bindX_def split: option.splits sum.splits)

lemma liftR_Some [simp]: "liftR m r = Some x \<longleftrightarrow> m r = x"
  by (auto simp: liftR_def)

lemma setting_tickTimers:
  "setting (tickTimers dt g) = setting g"
  by (simp add: tickTimers_def tickCooldowns_def Let_def split: option.splits)

lemma setting_updatePlayer:
  "setting (updatePlayer inp dt g) =
     (state g, W g, H g, canvas_width g, canvas_height g, cfg g, trailId g,
      player (updatePlayer inp dt g))"
  by (simp add: updatePlayer_def setting_def Let_def)

text \<open>The shape of a step in state Playing: some game \<open>g7\<close> with the setting left by the
  player's motion reaches the collision check, which ends the run or lets the step
  finish.\<close>

lemma update_PLAY:
  assumes play: "state g = PLAY"
    and run: "update inp dt g r = Some (Inr (g', r'))"
  obtains g7 where "setting g7 = setting (updatePlayer inp dt (tickTimers dt g))"
    and "g' = (if collides g7 then g7\<lparr>state := OVER\<rparr> else caps (updateFx dt (removeOffField g7)))"
proof -
  let ?g1 = "updatePlayer inp dt (tickTimers dt g)"
  let ?c = "setting ?g1"
  from play run obtain g2 r2 g3 r3 g7 r7 where
    a: "bindR (emitTrail dt ?g1) (comboSparkles dt) r = Inr (g2, r2)"
    and w: "whileR (\<lambda>s. pipeT s \<le> 0) spawnPipes (g2\<lparr>pipeT := pipeT g2 - dt\<rparr>) r2 = Some (Inr (g3, r3))"
    and b: "bindR (spawnSpecial dt g3) (\<lambda>g4.
                  bindR (spawnOrbs dt g4) (\<lambda>g5.
                  bindR (updateGates dt g5) (\<lambda>g6.
                  bindR (expireOrbs dt (updatePipes dt g6)) pickupOrbs))) r3 = Inr (g7, r7)"
    and fin: "g' = (if collides g7 then g7\<lparr>state := OVER\<rparr> else caps (updateFx dt (removeOffField g7)))"
    unfolding update_def Let_def by (auto simp: bindX_Some)
  have "yields (\<lambda>s. setting s = ?c) (bindR (emitTrail dt ?g1) (comboSparkles dt))"
    by (intro yields_intros set_emitTrail set_comboSparkles) simp_all
  from yieldsD [OF this a] have s2: "setting g2 = ?c" .
  have "setting g3 = ?c \<and> \<not> pipeT g3 \<le> 0"
    by (rule whileR_invariant [OF w, where P = "\<lambda>s. setting s = ?c"])
      (simp_all add: s2 set_spawnPipes)
  then have s3: "setting g3 = ?c" by simp
  have "yields (\<lambda>s. setting s = ?c) (bindR (spawnSpecial dt g3) (\<lambda>g4.
                  bindR (spawnOrbs dt g4) (\<lambda>g5.
                  bindR (updateGates dt g5) (\<lambda>g6.
                  bindR (expireOrbs dt (updatePipes dt g6)) pickupOrbs))))"
    by (intro yields_intros set_spawnSpecial set_spawnOrbs set_updateGates set_expireOrbs
        set_pickupOrbs) (simp_all add: s3)
  from yieldsD [OF this b] have "setting g7 = ?c" .
  with fin that show thesis by blast
qed

section \<open>A simulation step returns\<close>

lemmas returns_intros =
  returns_bindR returns_returnR returns_rand returns_if returns_forR returns_forEachR
  returns_new_FloatText

lemma returns_case_option:
  "returns a \<Longrightarrow> (\<And>x. returns (b x)) \<Longrightarrow> returns (case opt of None \<Rightarrow> a | Some x \<Rightarrow> b x)"
  by (cases opt) simp_all

lemma returns_pick_side: "returns (pick_side opts)"
  unfolding pick_side_def by (intro returns_case_option returns_intros)

lemma returns_new_Orb: "returns (new_Orb x y vx vy r life)"
  unfolding new_Orb_def by (intro returns_intros)

lemma returns_orb_place: "returns (orb_place n g r safe)"
  by (induction n) (auto intro!: returns_intros)

lemma returns_spawnSinglePipe: "returns (spawnSinglePipe opts g)"
  unfolding spawnSinglePipe_def Let_def
  by (intro returns_intros returns_pick_side returns_case_option)

lemma returns_spawnWall: "returns (spawnWall opts g)"
  unfolding spawnWall_def Let_def
  by (intro returns_intros returns_pick_side)

lemma returns_spawnBurst: "returns (spawnBurst g)"
  unfolding spawnBurst_def Let_def
  by (intro returns_intros returns_spawnSinglePipe)

lemma returns_spawnCrossfire: "returns (spawnCrossfire g)"
  unfolding spawnCrossfire_def Let_def
  by (intro returns_intros returns_spawnSinglePipe)

lemma returns_spawnOrb: "returns (spawnOrb g)"
  unfolding spawnOrb_def Let_def case_prod_beta
  by (intro returns_intros returns_orb_place returns_new_Orb)

lemma returns_emitTrail: "returns (emitTrail dt g)"
  unfolding emitTrail_def Let_def
  by (intro returns_intros)

lemma returns_comboSparkles: "returns (comboSparkles dt g)"
  unfolding comboSparkles_def Let_def
  by (intro returns_intros)

lemma returns_spawnPipes: "returns (spawnPipes g)"
  unfolding spawnPipes_def Let_def
  by (intro returns_intros returns_spawnWall returns_spawnSinglePipe)

lemma returns_spawnSpecial: "returns (spawnSpecial dt g)"
  unfolding spawnSpecial_def Let_def
  by (intro returns_intros returns_spawnWall returns_spawnBurst returns_spawnCrossfire)

lemma returns_spawnOrbs: "returns (spawnOrbs dt g)"
  unfolding spawnOrbs_def Let_def
  by (intro returns_intros returns_spawnOrb)

lemma returns_perfectGate: "returns (perfectGate i g)"
  unfolding perfectGate_def Let_def
  by (intro returns_intros)

lemma returns_updateGates: "returns (updateGates dt g)"
  unfolding updateGates_def Let_def
  by (intro returns_intros returns_perfectGate)

lemma returns_expireOrbs: "returns (expireOrbs dt g)"
  unfolding expireOrbs_def Let_def
  by (intro returns_intros returns_breakCombo)

lemma returns_pickupOrbs: "returns (pickupOrbs g)"
  unfolding pickupOrbs_def
  by (intro returns_intros returns_pickupOne)

lemma returns_resetRun: "returns (resetRun b g)"
  unfolding resetRun_def Let_def by (intro returns_intros)

lemma returns_startRun: "returns (startRun g)"
  unfolding startRun_def by (rule returns_resetRun)

text \<open>A loop whose body returns and decreases a measure, under an invariant, returns.\<close>

lemma whileR_returns:
  fixes m :: "'s \<Rightarrow> nat"
  assumes "I s" "no_player r"
    and body: "\<And>s. I s \<Longrightarrow> c s \<Longrightarrow> returns (body s)"
    and dec: "\<And>s. I s \<Longrightarrow> c s \<Longrightarrow> yields (\<lambda>s'. I s' \<and> m s' < m s) (body s)"
  shows "\<exists>s' r'. whileR c body s r = Some (Inr (s', r')) \<and> no_player r'"
  using assms(1,2)
proof (induction "m s" arbitrary: s r rule: less_induct)
  case less
  show ?case
  proof (cases "c s")
    case False
    with less.prems show ?thesis by (subst whileR.simps) simp
  next
    case True
    from body [OF less.prems(1) True] less.prems(2)
    obtain s1 r1 where b: "body s r = Inr (s1, r1)" and np: "no_player r1"
      unfolding returns_def by blast
    from yieldsD [OF dec [OF less.prems(1) True] b] have "I s1" "m s1 < m s" by simp_all
    from less.hyps [OF this(2,1) np] True b show ?thesis
      by (subst whileR.simps) simp
  qed
qed

lemma pace_upd [simp]:
  "pace (g\<lparr>pipes := a\<rparr>) = pace g" "pace (g\<lparr>gates := b\<rparr>) = pace g"
  by (simp_all add: pace_def)

lemma pace_spawnSinglePipe:
  "pace g = c \<Longrightarrow> yields (\<lambda>g'. pace g' = c) (spawnSinglePipe opts g)"
  unfolding spawnSinglePipe_def Let_def
  by (intro yields_intros) simp

lemma pace_spawnWall:
  "pace g = c \<Longrightarrow> yields (\<lambda>g'. pace g' = c) (spawnWall opts g)"
  unfolding spawnWall_def Let_def
  by (intro yields_intros) simp_all

lemma pace_spawnPipes:
  "yields (\<lambda>g'. pace g' = (timeAlive g, score g, cfg g, pipeT g + spawnInterval g)) (spawnPipes g)"
  unfolding spawnPipes_def Let_def
  by (intro yields_intros pace_spawnWall pace_spawnSinglePipe) (simp_all add: pace_def)

lemma spawnInterval_pace:
  "timeAlive g' = timeAlive g \<Longrightarrow> score g' = score g \<Longrightarrow> cfg g' = cfg g \<Longrightarrow>
   spawnInterval g' = spawnInterval g"
  by (simp add: spawnInterval_def difficulty01_def)

lemma spawnInterval_ge: "spawnInterval g \<ge> si_min (pipes_spawnInterval (c_pipes (cfg g)))"
  by (simp add: spawnInterval_def clamp_def Let_def)

text \<open>The measure of the pipe spawn loop: how many intervals fit below zero.\<close>

lemma spawn_loop_returns:
  assumes pos: "si_min (pipes_spawnInterval (c_pipes (cfg g))) > 0" and np: "no_player r"
  shows "\<exists>g' r'. whileR (\<lambda>s. pipeT s \<le> 0) spawnPipes g r = Some (Inr (g', r')) \<and> no_player r'"
proof -
  define k where "k = spawnInterval g"
  from pos spawnInterval_ge [of g] have k: "k > 0" by (simp add: k_def)
  define I where "I = (\<lambda>s::game. timeAlive s = timeAlive g \<and> score s = score g \<and> cfg s = cfg g)"
  define m where "m = (\<lambda>s::game. if pipeT s \<le> 0 then nat \<lfloor>- pipeT s / k\<rfloor> + 1 else 0)"
  have dec: "yields (\<lambda>s'. I s' \<and> m s' < m s) (spawnPipes s)" if "I s" "pipeT s \<le> 0" for s
  proof -
    from that(1) have sk: "spawnInterval s = k"
      unfolding I_def k_def by (intro spawnInterval_pace) simp_all
    have "I s' \<and> m s' < m s"
      if p: "pace s' = (timeAlive s, score s, cfg s, pipeT s + spawnInterval s)" for s'
    proof -
      from p \<open>I s\<close> have Is': "I s'" and pt: "pipeT s' = pipeT s + k"
        by (simp_all add: pace_def I_def sk)
      have "m s' < m s"
      proof (cases "pipeT s' \<le> 0")
        case False
        with \<open>pipeT s \<le> 0\<close> show ?thesis by (simp add: m_def)
      next
        case True
        have "- pipeT s' / k = - pipeT s / k - 1"
          using k by (simp add: pt field_simps)
        then have fl: "\<lfloor>- pipeT s' / k\<rfloor> = \<lfloor>- pipeT s / k\<rfloor> - 1" by simp
        from True have "0 \<le> - pipeT s'" by simp
        with k have "0 \<le> - pipeT s' / k" by (intro divide_nonneg_pos)
        then have "0 \<le> \<lfloor>- pipeT s' / k\<rfloor>" by simp
        with fl have "nat \<lfloor>- pipeT s' / k\<rfloor> < nat \<lfloor>- pipeT s / k\<rfloor>" by simp
        with True \<open>pipeT s \<le> 0\<close> show ?thesis by (simp add: m_def)
      qed
      with Is' show ?thesis by simp
    qed
    with pace_spawnPipes [of s] show ?thesis unfolding yields_def by blast
  qed
  have "I g" by (simp add: I_def)
  from whileR_returns [of I g r "\<lambda>s. pipeT s \<le> 0" spawnPipes m, OF this np returns_spawnPipes dec]
  show ?thesis by blast
qed

lemma returnsE:
  assumes "returns m" "no_player r"
  obtains x r' where "m r = Inr (x, r')" "no_player r'"
  using assms unfolding returns_def by blast

text \<open>A step returns when the spawn interval has a positive lower bound and the random
  source is not a tape player.\<close>

lemma update_returns:
  assumes pos: "si_min (pipes_spawnInterval (c_pipes (cfg g))) > 0" and np: "no_player r"
  shows "\<exists>g' r'. update inp dt g r = Some (Inr (g', r')) \<and> no_player r'"
proof (cases "state g = PLAY")
  case False
  with np show ?thesis by (auto simp: update_def liftR_def returnR_def)
next
  case True
  let ?g1 = "updatePlayer inp dt (tickTimers dt g)"
  have "returns (bindR (emitTrail dt ?g1) (comboSparkles dt))"
    by (intro returns_intros returns_emitTrail returns_comboSparkles)
  from returnsE [OF this np] obtain g2 r2
    where a: "bindR (emitTrail dt ?g1) (comboSparkles dt) r = Inr (g2, r2)" and np2: "no_player r2"
    by blast
  have "yields (\<lambda>s. setting s = setting ?g1) (bindR (emitTrail dt ?g1) (comboSparkles dt))"
    by (intro yields_intros set_emitTrail set_comboSparkles) simp_all
  from yieldsD [OF this a] have "cfg g2 = cfg ?g1"
    by (simp add: setting_def)
  moreover have "cfg ?g1 = cfg g"
    using setting_updatePlayer [of inp dt "tickTimers dt g"] setting_tickTimers [of dt g]
    by (simp add: setting_def)
  ultimately have "cfg g2 = cfg g" by simp
  with pos have "si_min (pipes_spawnInterval (c_pipes (cfg (g2\<lparr>pipeT := pipeT g2 - dt\<rparr>)))) > 0"
    by simp
  from spawn_loop_returns [OF this np2] obtain g3 r3
    where w: "whileR (\<lambda>s. pipeT s \<le> 0) spawnPipes (g2\<lparr>pipeT := pipeT g2 - dt\<rparr>) r2
                = Some (Inr (g3, r3))" and np3: "no_player r3"
    by blast
  have "returns (bindR (spawnSpecial dt g3) (\<lambda>g4.
                  bindR (spawnOrbs dt g4) (\<lambda>g5.
                  bindR (updateGates dt g5) (\<lambda>g6.
                  bindR (expireOrbs dt (updatePipes dt g6)) pickupOrbs))))"
    by (intro returns_intros returns_spawnSpecial returns_spawnOrbs returns_updateGates
        returns_expireOrbs returns_pickupOrbs)
  from returnsE [OF this np3] obtain g7 r7
    where b: "bindR (spawnSpecial dt g3) (\<lambda>g4.
                  bindR (spawnOrbs dt g4) (\<lambda>g5.
                  bindR (updateGates dt g5) (\<lambda>g6.
                  bindR (expireOrbs dt (updatePipes dt g6)) pickupOrbs))) r3 = Inr (g7, r7)"
      and np7: "no_player r7"
    by blast
  from True a w b np7 show ?thesis
    unfolding update_def Let_def by (simp add: bindX_def liftR_def returnR_def)
qed

section \<open>The player stays in the play area\<close>

lemma update_keeps:
  assumes "state g = PLAY" and "update inp dt g r = Some (Inr (g', r'))"
  shows "player g' = player (updatePlayer inp dt (tickTimers dt g))"
    and "W g' = W g" and "H g' = H g" and "cfg g' = cfg g"
    and "canvas_width g' = canvas_width g" and "canvas_height g' = canvas_height g"
    and "trailId g' = trailId g"
proof -
  from update_PLAY [OF assms] obtain g7
    where s: "setting g7 = setting (updatePlayer inp dt (tickTimers dt g))"
      and g': "g' = (if collides g7 then g7\<lparr>state := OVER\<rparr> else caps (updateFx dt (removeOffField g7)))"
    by blast
  have s': "setting g' = (if collides g7 then OVER else state g7, snd (setting g7))"
    using g' setting_pure(2,3,4) by (auto simp: setting_def)
  from s have "setting g7 = (state g, W g, H g, canvas_width g, canvas_height g, cfg g,
      trailId g, player (updatePlayer inp dt (tickTimers dt g)))"
    using setting_tickTimers [of dt g]
    by (simp add: setting_def updatePlayer_def Let_def)
  with s' show "player g' = player (updatePlayer inp dt (tickTimers dt g))"
    and "W g' = W g" and "H g' = H g" and "cfg g' = cfg g"
    and "canvas_width g' = canvas_width g" and "canvas_height g' = canvas_height g"
    and "trailId g' = trailId g"
    by (simp_all add: setting_def)
qed

lemma clamp_between: "a \<le> b \<Longrightarrow> a \<le> clamp v a b \<and> clamp v a b \<le> b"
  by (simp add: clamp_def)

lemma playerTimers_r [simp]: "pl_r (playerTimers dt p) = pl_r p"
  by (simp add: playerTimers_def Let_def)

lemma playerVelocity_r [simp]: "pl_r (playerVelocity inp dt c p) = pl_r p"
  by (simp add: playerVelocity_def Let_def)

lemma updatePlayer_fields [simp]:
  "state (updatePlayer inp dt g) = state g" "W (updatePlayer inp dt g) = W g"
  "H (updatePlayer inp dt g) = H g" "cfg (updatePlayer inp dt g) = cfg g"
  "canvas_width (updatePlayer inp dt g) = canvas_width g"
  "canvas_height (updatePlayer inp dt g) = canvas_height g"
  "trailId (updatePlayer inp dt g) = trailId g"
  "pl_r (player (updatePlayer inp dt g)) = pl_r (player g)"
  by (simp_all add: updatePlayer_def Let_def)

lemma updatePlayer_contained:
  assumes "2 * (pl_r (player g) + 2) \<le> W g" "2 * (pl_r (player g) + 2) \<le> H g"
  shows "player_contained (updatePlayer inp dt g)"
proof -
  from assms have "pl_r (player g) + 2 \<le> W g - (pl_r (player g) + 2)"
    "pl_r (player g) + 2 \<le> H g - (pl_r (player g) + 2)" by simp_all
  from clamp_between [OF this(1)] clamp_between [OF this(2)] show ?thesis
    unfolding player_contained_def updatePlayer_fields
    by (simp add: updatePlayer_def Let_def algebra_simps)
qed

lemma player_tickTimers [simp]:
  "player (tickTimers dt g) = player g" "W (tickTimers dt g) = W g" "H (tickTimers dt g) = H g"
  "cfg (tickTimers dt g) = cfg g" "state (tickTimers dt g) = state g"
  using setting_tickTimers [of dt g] by (simp_all add: setting_def)

lemma updatePlayer_x_lower: "pl_r (player g) + 2 \<le> pl_x (player (updatePlayer inp dt g))"
  by (simp add: updatePlayer_def Let_def clamp_def)

lemma contained_cong:
  "pl_x (player g') = pl_x (player g) \<Longrightarrow> pl_y (player g') = pl_y (player g) \<Longrightarrow>
   pl_r (player g') = pl_r (player g) \<Longrightarrow> W g' = W g \<Longrightarrow> H g' = H g \<Longrightarrow>
   player_contained g' = player_contained g"
  by (simp add: player_contained_def)

lemma useSkill_contained:
  assumes run: "useSkill inp name g r = Inr (g', r')"
    and big: "2 * (pl_r (player g) + 2) \<le> W g" "2 * (pl_r (player g) + 2) \<le> H g"
  shows "(player_contained g \<longrightarrow> player_contained g')
       \<and> (name = Teleport \<and> cd_teleport (cds g) \<le> 0 \<and> cur_has (in_cursor inp) \<longrightarrow> player_contained g')"
proof (cases "cd_of name (cds g) > 0")
  case True
  with run have "g' = g" by (simp add: useSkill_def)
  with True show ?thesis by (auto simp: cd_of_def)
next
  case False
  show ?thesis
  proof (cases name)
    case Dash
    with False run have "useDash inp g r = Inr (g', r')" by (simp add: useSkill_def)
    from sans_fx_eqD(2,3,8) [OF yieldsD [OF yields_useDash this]]
    have "player_contained g' = player_contained g" by (intro contained_cong) (simp_all add: Let_def)
    with Dash show ?thesis by simp
  next
    case Phase
    with False run have "usePhase g r = Inr (g', r')" by (simp add: useSkill_def)
    from sans_fx_eqD(2,3,8) [OF yieldsD [OF yields_usePhase this]]
    have "player_contained g' = player_contained g" by (intro contained_cong) simp_all
    with Phase show ?thesis by simp
  next
    case SlowField
    with False run have "useSlowField g r = Inr (g', r')" by (simp add: useSkill_def)
    from sans_fx_eqD(2,3,8) [OF yieldsD [OF yields_useSlowField this]]
    have "player_contained g' = player_contained g" by (intro contained_cong) simp_all
    with SlowField show ?thesis by simp
  next
    case Teleport
    with False run have tp: "useTeleport inp g r = Inr (g', r')" by (simp add: useSkill_def)
    show ?thesis
    proof (cases "cur_has (in_cursor inp)")
      case False
      with tp have "g' = g" by (simp add: useTeleport_def Let_def)
      with False show ?thesis by simp
    next
      case True
      from big have b: "pl_r (player g) + 2 \<le> W g - (pl_r (player g) + 2)"
        "pl_r (player g) + 2 \<le> H g - (pl_r (player g) + 2)" by simp_all
      from sans_fx_eqD(2,3,8) [OF yieldsD [OF yields_useTeleport [OF True] tp]]
        clamp_between [OF b(1)] clamp_between [OF b(2)]
      have "player_contained g'" by (simp add: player_contained_def Let_def algebra_simps)
      then show ?thesis by simp
    qed
  qed
qed


lemma tiny_game_fields:
  "cfg tiny_game = DEFAULT_CONFIG" "W tiny_game = 20" "H tiny_game = 20"
  "pl_r (player tiny_game) = 1064 / 100"
  by (simp_all add: tiny_game_def resizeToWindow_def computePlayerSize_def new_Game_def
      Let_def num_or_def DEFAULT_CONFIG_def clamp_def)

lemma default_si_min: "si_min (pipes_spawnInterval (c_pipes DEFAULT_CONFIG)) = 18 / 100"
  by (simp add: DEFAULT_CONFIG_def)

lemma update_the:
  assumes "si_min (pipes_spawnInterval (c_pipes (cfg g))) > 0" "no_player r"
  shows "update inp dt g r = Some (Inr (fst (projr (the (update inp dt g r))),
                                        snd (projr (the (update inp dt g r)))))"
  using update_returns [OF assms, of inp dt] by auto



section \<open>Collision and game over\<close>

lemma has_pipe_upd [simp]:
  "pipes (g\<lparr>gates := b\<rparr>) = pipes g"
  "pipes (g\<lparr>orbs := c\<rparr>) = pipes g" "pipes (g\<lparr>parts := d\<rparr>) = pipes g"
  "pipes (g\<lparr>floats := e\<rparr>) = pipes g" "pipes (g\<lparr>score := f\<rparr>) = pipes g"
  by simp_all

lemma hp_spawnSinglePipe:
  "p \<in> set (pipes g) \<Longrightarrow> yields (\<lambda>g'. p \<in> set (pipes g')) (spawnSinglePipe opts g)"
  unfolding spawnSinglePipe_def Let_def
  by (intro yields_intros) simp

lemma hp_spawnWall:
  "p \<in> set (pipes g) \<Longrightarrow> yields (\<lambda>g'. p \<in> set (pipes g')) (spawnWall opts g)"
  unfolding spawnWall_def Let_def
  by (intro yields_intros) simp_all

lemma hp_spawnBurst:
  "p \<in> set (pipes g) \<Longrightarrow> yields (\<lambda>g'. p \<in> set (pipes g')) (spawnBurst g)"
  unfolding spawnBurst_def Let_def
  by (intro yields_intros hp_spawnSinglePipe)

lemma hp_spawnCrossfire:
  "p \<in> set (pipes g) \<Longrightarrow> yields (\<lambda>g'. p \<in> set (pipes g')) (spawnCrossfire g)"
  unfolding spawnCrossfire_def Let_def
  by (intro yields_intros hp_spawnSinglePipe)

lemma hp_spawnOrb:
  "p \<in> set (pipes g) \<Longrightarrow> yields (\<lambda>g'. p \<in> set (pipes g')) (spawnOrb g)"
  unfolding spawnOrb_def Let_def case_prod_beta
  by (intro yields_intros) simp_all

lemma hp_breakCombo:
  "p \<in> set (pipes g) \<Longrightarrow> yields (\<lambda>g'. p \<in> set (pipes g')) (breakCombo x y g)"
  unfolding breakCombo_def
  by (intro yields_intros) simp_all

lemma hp_emitTrail:
  "p \<in> set (pipes g) \<Longrightarrow> yields (\<lambda>g'. p \<in> set (pipes g')) (emitTrail dt g)"
  unfolding emitTrail_def Let_def
  by (intro yields_intros) simp_all

lemma hp_comboSparkles:
  "p \<in> set (pipes g) \<Longrightarrow> yields (\<lambda>g'. p \<in> set (pipes g')) (comboSparkles dt g)"
  unfolding comboSparkles_def Let_def
  by (intro yields_intros) simp_all

lemma hp_spawnPipes:
  "p \<in> set (pipes g) \<Longrightarrow> yields (\<lambda>g'. p \<in> set (pipes g')) (spawnPipes g)"
  unfolding spawnPipes_def Let_def
  by (intro yields_intros hp_spawnWall hp_spawnSinglePipe) simp_all

lemma hp_spawnSpecial:
  "p \<in> set (pipes g) \<Longrightarrow> yields (\<lambda>g'. p \<in> set (pipes g')) (spawnSpecial dt g)"
  unfolding spawnSpecial_def Let_def
  by (intro yields_intros hp_spawnWall hp_spawnBurst hp_spawnCrossfire) simp_all

lemma hp_spawnOrbs:
  "p \<in> set (pipes g) \<Longrightarrow> yields (\<lambda>g'. p \<in> set (pipes g')) (spawnOrbs dt g)"
  unfolding spawnOrbs_def Let_def
  by (intro yields_intros hp_spawnOrb) simp_all

lemma hp_perfectGate:
  "p \<in> set (pipes g) \<Longrightarrow> yields (\<lambda>g'. p \<in> set (pipes g')) (perfectGate i g)"
  unfolding perfectGate_def Let_def
  by (intro yields_intros) simp_all

lemma hp_updateGates:
  "p \<in> set (pipes g) \<Longrightarrow> yields (\<lambda>g'. p \<in> set (pipes g')) (updateGates dt g)"
  unfolding updateGates_def Let_def
  by (intro yields_intros hp_perfectGate) simp_all

lemma hp_expireOrbs:
  "p \<in> set (pipes g) \<Longrightarrow> yields (\<lambda>g'. p \<in> set (pipes g')) (expireOrbs dt g)"
  unfolding expireOrbs_def Let_def
  by (intro yields_intros hp_breakCombo) simp_all

lemma hp_pickupOne:
  "p \<in> set (pipes g) \<Longrightarrow> yields (\<lambda>g'. p \<in> set (pipes g')) (pickupOne ob g)"
  unfolding pickupOne_def Let_def
  by (intro yields_intros) simp_all

lemma hp_pickupOrbs:
  "p \<in> set (pipes g) \<Longrightarrow> yields (\<lambda>g'. p \<in> set (pipes g')) (pickupOrbs g)"
  unfolding pickupOrbs_def
  by (intro yields_intros hp_pickupOne) simp_all

text \<open>A pipe of unchanged place and size: what moving a stationary pipe gives.\<close>

lemma pipe_update_still:
  "p_vx p = 0 \<Longrightarrow> p_vy p = 0 \<Longrightarrow>
   p_x (pipe_update dt mul w h p) = p_x p \<and> p_y (pipe_update dt mul w h p) = p_y p
   \<and> p_w (pipe_update dt mul w h p) = p_w p \<and> p_h (pipe_update dt mul w h p) = p_h p"
  by (simp add: pipe_update_def Let_def)

text \<open>Every pipe present when a step begins reaches the collision check, moved once.\<close>

lemma update_PLAY_pipes:
  assumes play: "state g = PLAY"
    and run: "update inp dt g r = Some (Inr (g', r'))"
    and p: "p \<in> set (pipes g)"
  obtains g7 mul where "setting g7 = setting (updatePlayer inp dt (tickTimers dt g))"
    and "g' = (if collides g7 then g7\<lparr>state := OVER\<rparr> else caps (updateFx dt (removeOffField g7)))"
    and "pipe_update dt mul (W g) (H g) p \<in> set (pipes g7)"
proof -
  let ?g1 = "updatePlayer inp dt (tickTimers dt g)"
  let ?c = "setting ?g1"
  let ?P = "\<lambda>s. p \<in> set (pipes s) \<and> setting s = ?c"
  let ?Q = "\<lambda>s. (\<exists>mul. pipe_update dt mul (W g) (H g) p \<in> set (pipes s)) \<and> setting s = ?c"
  have andI: "yields A m \<Longrightarrow> yields B m \<Longrightarrow> yields (\<lambda>s. A s \<and> B s) m" for A B and m :: "game rand_m"
    unfolding yields_def by blast
  from play run obtain g2 r2 g3 r3 g7 r7 where
    a: "bindR (emitTrail dt ?g1) (comboSparkles dt) r = Inr (g2, r2)"
    and w: "whileR (\<lambda>s. pipeT s \<le> 0) spawnPipes (g2\<lparr>pipeT := pipeT g2 - dt\<rparr>) r2 = Some (Inr (g3, r3))"
    and b: "bindR (spawnSpecial dt g3) (\<lambda>g4.
                  bindR (spawnOrbs dt g4) (\<lambda>g5.
                  bindR (updateGates dt g5) (\<lambda>g6.
                  bindR (expireOrbs dt (updatePipes dt g6)) pickupOrbs))) r3 = Inr (g7, r7)"
    and fin: "g' = (if collides g7 then g7\<lparr>state := OVER\<rparr> else caps (updateFx dt (removeOffField g7)))"
    unfolding update_def Let_def by (auto simp: bindX_Some)
  have p1: "p \<in> set (pipes ?g1)"
    using p by (simp add: updatePlayer_def tickTimers_def tickCooldowns_def Let_def split: option.splits)
  have "yields ?P (bindR (emitTrail dt ?g1) (comboSparkles dt))"
    by (intro andI yields_intros set_emitTrail set_comboSparkles hp_emitTrail hp_comboSparkles)
      (simp_all add: p1)
  from yieldsD [OF this a] have P2: "?P g2" .
  have P3: "?P g3 \<and> \<not> pipeT g3 \<le> 0"
    by (rule whileR_invariant [OF w, where P = ?P])
      (use P2 in \<open>auto intro!: andI set_spawnPipes hp_spawnPipes\<close>)
  have WH: "W s = W g \<and> H s = H g" if "setting s = ?c" for s
    using that setting_tickTimers [of dt g] by (simp add: setting_def)
  have "yields ?Q (bindR (spawnSpecial dt g3) (\<lambda>g4.
                  bindR (spawnOrbs dt g4) (\<lambda>g5.
                  bindR (updateGates dt g5) (\<lambda>g6.
                  bindR (expireOrbs dt (updatePipes dt g6)) pickupOrbs))))"
  proof (rule yields_bindR [where Q = ?P], goal_cases)
    case 1
    show ?case using P3 by (intro andI set_spawnSpecial hp_spawnSpecial) simp_all
  next
    case (2 g4)
    show ?case
    proof (rule yields_bindR [where Q = ?P], goal_cases)
      case 1
      show ?case using 2 by (intro andI set_spawnOrbs hp_spawnOrbs) simp_all
    next
      case (2 g5)
      show ?case
      proof (rule yields_bindR [where Q = ?P], goal_cases)
        case 1
        show ?case using 2 by (intro andI set_updateGates hp_updateGates) simp_all
      next
        case (2 g6)
        define q where "q = pipe_update dt
            (case slowField g6 of None \<Rightarrow> 1
             | Some sf \<Rightarrow> (let dx = pipe_cx p - sf_x sf; dy = pipe_cy p - sf_y sf
                 in if dx * dx + dy * dy \<le> sf_r sf * sf_r sf then sf_fac sf else 1))
            (W g) (H g) p"
        from 2 WH [of g6] have q: "q \<in> set (pipes (updatePipes dt g6))"
          by (auto simp: updatePipes_def q_def image_iff intro!: bexI [of _ p])
        have "yields (\<lambda>s. q \<in> set (pipes s) \<and> setting s = ?c)
            (bindR (expireOrbs dt (updatePipes dt g6)) pickupOrbs)"
          using 2 q
          by (intro andI yields_intros set_expireOrbs set_pickupOrbs hp_expireOrbs hp_pickupOrbs)
            simp_all
        then show ?case unfolding yields_def q_def by blast
      qed
    qed
  qed
  from yieldsD [OF this b] fin that show thesis by blast
qed

lemma set_cap_list: "set (cap_list n xs) \<subseteq> set xs"
  by (auto simp: cap_list_def dest: in_set_dropD)

lemma collides_mono:
  assumes "player g' = player g" "set (pipes g') \<subseteq> set (pipes g)" "collides g'"
  shows "collides g"
  using assms by (auto simp: collides_def hitsPipe_def list_ex_iff)

lemma final_pipes_subset:
  "set (pipes (caps (updateFx dt (removeOffField g)))) \<subseteq> set (pipes g)"
  using set_cap_list [of 280 "pipes (updateFx dt (removeOffField g))"]
  by (auto simp: caps_def updateFx_def removeOffField_def Let_def)

lemma final_player:
  "player (caps (updateFx dt (removeOffField g))) = player g"
  "state (caps (updateFx dt (removeOffField g))) = state g"
  by (simp_all add: caps_def updateFx_def removeOffField_def Let_def)

lemma liveTick_OVER:
  assumes "state (m_game m) = OVER"
  shows "liveTick m = Some (Inr (m\<lparr>m_acc := m_acc m - SIM_DT\<rparr>))"
  using assms
  by (simp add: liveTick_def step_game_def on_game_def update_def liftR_def returnR_def bindO_def
      Let_def split: option.splits)

text \<open>
  Claim C7 (game over is terminal). A step in state Playing ends in state Over exactly
  when, after the motion of that step, the player overlaps a pipe while its
  invulnerability remaining is zero, and otherwise stays in Playing. In state Over a
  step and an action return the game and the random source unchanged, so every
  entity, the score and the combo are frozen; a round of the live loop leaves the
  game, the captured run and the random source as they are. Only starting a run
  leads back to Playing, with the score reset.
\<close>

theorem game_over_terminal:
  "(state g = PLAY \<and> update inp dt g r = Some (Inr (g', r')) \<longrightarrow>
      (state g' = OVER \<longleftrightarrow> collides g') \<and> (state g' = OVER \<or> state g' = PLAY))
   \<and> (state g = OVER \<longrightarrow>
        update inp dt g r = Some (Inr (g, r)) \<and> handleAction inp a g r = Inr (g, r))
   \<and> (state (m_game m) = OVER \<longrightarrow>
        (\<exists>m'. liveTick m = Some (Inr m') \<and> m_game m' = m_game m
              \<and> m_activeRun m' = m_activeRun m \<and> m_rnd m' = m_rnd m))
   \<and> (startRun g r = Inr (g', r') \<longrightarrow> state g' = PLAY \<and> score g' = 0)"
proof (intro conjI impI)
  assume a: "state g = PLAY \<and> update inp dt g r = Some (Inr (g', r'))"
  then have play: "state g = PLAY" and run: "update inp dt g r = Some (Inr (g', r'))" by simp_all
  from update_PLAY [OF play run] obtain g7
    where s: "setting g7 = setting (updatePlayer inp dt (tickTimers dt g))"
      and g': "g' = (if collides g7 then g7\<lparr>state := OVER\<rparr> else caps (updateFx dt (removeOffField g7)))"
    by blast
  from s play have s7: "state g7 = PLAY"
    using setting_tickTimers [of dt g] by (simp add: setting_def)
  show "state g' = OVER \<longleftrightarrow> collides g'"
  proof (cases "collides g7")
    case True
    with g' have e: "g' = g7\<lparr>state := OVER\<rparr>" by simp
    from True collides_mono [of g7 g'] have "collides g'" unfolding e by simp
    with e show ?thesis by simp
  next
    case False
    with g' have e: "g' = caps (updateFx dt (removeOffField g7))" by simp
    from False collides_mono [of g' g7] have "\<not> collides g'"
      unfolding e using final_pipes_subset [of dt g7] final_player(1) [of dt g7] by blast
    with e s7 show ?thesis by (simp add: final_player)
  qed
  from g' s7 show "state g' = OVER \<or> state g' = PLAY"
    by (simp add: final_player)
next
  assume "state g = OVER"
  then show "update inp dt g r = Some (Inr (g, r))"
    by (simp add: update_def liftR_def returnR_def)
next
  assume "state g = OVER"
  then show "handleAction inp a g r = Inr (g, r)"
    by (simp add: handleAction_def returnR_def)
next
  assume "state (m_game m) = OVER"
  from liveTick_OVER [OF this]
  show "\<exists>m'. liveTick m = Some (Inr m') \<and> m_game m' = m_game m
              \<and> m_activeRun m' = m_activeRun m \<and> m_rnd m' = m_rnd m"
    by simp
next
  assume "startRun g r = Inr (g', r')"
  then show "state g' = PLAY" "score g' = 0"
    by (auto simp: startRun_def resetRun_def resetPlayer_def Let_def bindR_Inr)
qed


lemma playing_game_fields:
  "state playing_game = PLAY" "W playing_game = 800" "H playing_game = 600"
  "cfg playing_game = DEFAULT_CONFIG"
  "player playing_game = \<lparr>pl_x = 400, pl_y = 300, pl_vx = 0, pl_vy = 0, pl_w = 33, pl_h = 33,
     pl_r = 1254 / 100, pl_lastX = 0, pl_lastY = - 1, pl_invT = 0, pl_dashT = 0, pl_dashVX = 0,
     pl_dashVY = 0\<rparr>"
  "cds playing_game = \<lparr>cd_dash = 0, cd_phase = 0, cd_teleport = 0, cd_slowField = 0\<rparr>"
  by (simp_all add: playing_game_def example_game_def resizeToWindow_def computePlayerSize_def
      new_Game_def Let_def num_or_def DEFAULT_CONFIG_def clamp_def)

lemma norm2_zero: "norm2 0 0 = \<lparr>n_x = 0, n_y = 0, n_len = 0\<rparr>"
  by (simp add: norm2_def)

lemma idle_player:
  "player (updatePlayer idle_input SIM_DT (tickTimers SIM_DT (playing_game\<lparr>pipes := ps\<rparr>)))
     = player playing_game"
  by (simp add: updatePlayer_def playerVelocity_def playerTimers_def playing_game_fields
      idle_input_def norm2_zero approach_def clamp_def Let_def DEFAULT_CONFIG_def num_or_def)

lemma doomed_collides:
  assumes run: "update idle_input SIM_DT doomed_game r = Some (Inr (g', r'))"
  shows "collides g'"
proof -
  have play: "state doomed_game = PLAY" by (simp add: doomed_game_def playing_game_fields)
  have "near_pipe \<in> set (pipes doomed_game)" by (simp add: doomed_game_def)
  from update_PLAY_pipes [OF play run this] obtain g7 mul
    where s: "setting g7 = setting (updatePlayer idle_input SIM_DT (tickTimers SIM_DT doomed_game))"
      and g': "g' = (if collides g7 then g7\<lparr>state := OVER\<rparr>
                     else caps (updateFx SIM_DT (removeOffField g7)))"
      and q: "pipe_update SIM_DT mul (W doomed_game) (H doomed_game) near_pipe \<in> set (pipes g7)"
    by blast
  from s have p7: "player g7 = player playing_game"
    by (simp add: setting_def doomed_game_def idle_player)
  have still: "p_vx near_pipe = 0" "p_vy near_pipe = 0" by (simp_all add: near_pipe_def new_Pipe_def)
  from pipe_update_still [OF still, of SIM_DT mul "W doomed_game" "H doomed_game"]
  have "hitsPipe g7 (pipe_update SIM_DT mul (W doomed_game) (H doomed_game) near_pipe)"
    by (simp add: hitsPipe_def p7 playing_game_fields circleRect_def clamp_def near_pipe_def
        new_Pipe_def Let_def)
  with q have "collides g7"
    by (auto simp: collides_def list_ex_iff p7 playing_game_fields)
  with g' have e: "g' = g7\<lparr>state := OVER\<rparr>" by simp
  from \<open>collides g7\<close> collides_mono [of g7 g'] show ?thesis unfolding e by simp
qed

text \<open>The scenario of the claim: a stationary pipe over the player, invulnerability 0.
  The step ends in Over, and the next step changes nothing.\<close>

theorem game_over_terminal_witness:
  "state (fst (projr (the (update idle_input SIM_DT doomed_game zero_rnd)))) = OVER
   \<and> update right_input SIM_DT (fst (projr (the (update idle_input SIM_DT doomed_game zero_rnd))))
        (snd (projr (the (update idle_input SIM_DT doomed_game zero_rnd))))
      = Some (Inr (projr (the (update idle_input SIM_DT doomed_game zero_rnd))))"
proof -
  let ?g' = "fst (projr (the (update idle_input SIM_DT doomed_game zero_rnd)))"
  let ?r' = "snd (projr (the (update idle_input SIM_DT doomed_game zero_rnd)))"
  have play: "state doomed_game = PLAY" by (simp add: doomed_game_def playing_game_fields)
  have run: "update idle_input SIM_DT doomed_game zero_rnd = Some (Inr (?g', ?r'))"
    by (rule update_the)
      (simp_all add: doomed_game_def playing_game_fields default_si_min no_player_zero_rnd)
  from game_over_terminal [of doomed_game idle_input SIM_DT zero_rnd ?g' ?r', THEN conjunct1]
    play run doomed_collides [OF run]
  have over: "state ?g' = OVER" by blast
  from game_over_terminal [of ?g' right_input SIM_DT ?r', THEN conjunct2, THEN conjunct1] over
  have "update right_input SIM_DT ?g' ?r' = Some (Inr (?g', ?r'))" by blast
  with over show ?thesis by simp
qed

section \<open>The caps on the entity lists\<close>

lemma cap_list_drop: "cap_list n xs = drop (length xs - n) xs"
  by (simp add: cap_list_def)

lemma length_cap_list: "length (cap_list n xs) \<le> n"
  by (simp add: cap_list_def)

text \<open>
  Claim C8, amended (hard caps). The caps keep the newest entries of each capped list
  and evict the oldest beyond the cap, whatever their state: after capping, the pipes
  are the last 280, the particles the last 1100, the floating texts the last 80 (a
  list within its cap is kept whole); gates, orbs, score, combo and player are not
  touched. A step that does not end the run leaves every capped list within its cap.
\<close>

theorem caps_keep_newest:
  "pipes (caps g) = drop (length (pipes g) - 280) (pipes g)
   \<and> parts (caps g) = drop (length (parts g) - 1100) (parts g)
   \<and> floats (caps g) = drop (length (floats g) - 80) (floats g)
   \<and> gates (caps g) = gates g \<and> orbs (caps g) = orbs g
   \<and> score (caps g) = score g \<and> combo (caps g) = combo g \<and> player (caps g) = player g
   \<and> (state g = PLAY \<and> update inp dt g r = Some (Inr (g', r')) \<longrightarrow>
        state g' = OVER
        \<or> (length (pipes g') \<le> 280 \<and> length (parts g') \<le> 1100 \<and> length (floats g') \<le> 80))"
proof -
  have "state g' = OVER
        \<or> (length (pipes g') \<le> 280 \<and> length (parts g') \<le> 1100 \<and> length (floats g') \<le> 80)"
    if a: "state g = PLAY \<and> update inp dt g r = Some (Inr (g', r'))"
  proof -
    from a update_PLAY [of g inp dt r g' r'] obtain g7
      where g': "g' = (if collides g7 then g7\<lparr>state := OVER\<rparr>
                       else caps (updateFx dt (removeOffField g7)))"
      by blast
    then show ?thesis by (simp add: caps_def length_cap_list)
  qed
  then show ?thesis by (simp add: caps_def cap_list_drop)
qed

lemma crowded_fields:
  "pipes crowded_game = near_pipe # replicate 280 far_pipe"
  "player crowded_game = (player playing_game)\<lparr>pl_invT := 4 / 10\<rparr>"
  "W crowded_game = 800" "H crowded_game = 600"
  by (simp_all add: crowded_game_def playing_game_fields)

text \<open>
  As stated, the claim fails: with 281 pipes the cap evicts the oldest one although it
  overlaps the (invulnerable) player, is on the field and has not been scored; its
  dodge score is never awarded.
\<close>

theorem caps_counterexample:
  "hd (pipes crowded_game) = near_pipe
   \<and> hitsPipe crowded_game near_pipe
   \<and> \<not> p_scored near_pipe
   \<and> \<not> pipe_off (W crowded_game) (H crowded_game) (margin crowded_game) near_pipe
   \<and> near_pipe \<notin> set (pipes (caps crowded_game))
   \<and> score (caps crowded_game) = score crowded_game"
proof -
  have "near_pipe \<noteq> far_pipe" by (simp add: near_pipe_def far_pipe_def new_Pipe_def)
  then have "near_pipe \<notin> set (pipes (caps crowded_game))"
    by (simp add: caps_def cap_list_def crowded_fields)
  moreover have "hitsPipe crowded_game near_pipe"
    by (simp add: hitsPipe_def crowded_fields playing_game_fields circleRect_def clamp_def
        near_pipe_def new_Pipe_def Let_def)
  moreover have "\<not> pipe_off (W crowded_game) (H crowded_game) (margin crowded_game) near_pipe"
    by (simp add: pipe_off_def crowded_fields margin_def clamp_def near_pipe_def new_Pipe_def)
  ultimately show ?thesis
    by (simp add: crowded_fields caps_def near_pipe_def new_Pipe_def)
qed

text \<open>A step of the example game.\<close>

theorem caps_keep_newest_witness:
  "state (fst (projr (the (update idle_input SIM_DT playing_game zero_rnd)))) = OVER
   \<or> (length (pipes (fst (projr (the (update idle_input SIM_DT playing_game zero_rnd))))) \<le> 280
      \<and> length (parts (fst (projr (the (update idle_input SIM_DT playing_game zero_rnd))))) \<le> 1100
      \<and> length (floats (fst (projr (the (update idle_input SIM_DT playing_game zero_rnd))))) \<le> 80)"
proof -
  let ?g' = "fst (projr (the (update idle_input SIM_DT playing_game zero_rnd)))"
  let ?r' = "snd (projr (the (update idle_input SIM_DT playing_game zero_rnd)))"
  have run: "update idle_input SIM_DT playing_game zero_rnd = Some (Inr (?g', ?r'))"
    by (rule update_the) (simp_all add: playing_game_fields default_si_min no_player_zero_rnd)
  from caps_keep_newest [of playing_game idle_input SIM_DT zero_rnd ?g' ?r'] run
  show ?thesis by (simp add: playing_game_fields)
qed

section \<open>Dash\<close>

lemma playerVelocity_dash:
  assumes "pl_dashT p > 0"
  shows "pl_vx (playerVelocity inp dt c p) = pl_dashVX (playerVelocity inp dt c p) * max 0 (dash_speed (c_skills c))"
    and "pl_vy (playerVelocity inp dt c p) = pl_dashVY (playerVelocity inp dt c p) * max 0 (dash_speed (c_skills c))"
    and "(pl_dashVX (playerVelocity inp dt c p), pl_dashVY (playerVelocity inp dt c p)) =
          (if n_len (norm2 (mv_dx inp) (mv_dy inp)) > 0
           then (n_x (norm2 (mv_dx inp) (mv_dy inp)), n_y (norm2 (mv_dx inp) (mv_dy inp)))
           else (pl_dashVX p, pl_dashVY p))"
  using assms by (simp_all add: playerVelocity_def Let_def num_or_def)

lemma playerVelocity_dashT [simp]: "pl_dashT (playerVelocity inp dt c p) = pl_dashT p"
  by (simp add: playerVelocity_def Let_def)

lemma playerTimers_dashV [simp]:
  "pl_dashVX (playerTimers dt p) = pl_dashVX p" "pl_dashVY (playerTimers dt p) = pl_dashVY p"
  by (simp_all add: playerTimers_def Let_def)

lemma updatePlayer_player:
  "pl_vx (player (updatePlayer inp dt g)) = pl_vx (playerVelocity inp dt (cfg g) (playerTimers dt (player g)))"
  "pl_vy (player (updatePlayer inp dt g)) = pl_vy (playerVelocity inp dt (cfg g) (playerTimers dt (player g)))"
  "pl_dashVX (player (updatePlayer inp dt g)) = pl_dashVX (playerVelocity inp dt (cfg g) (playerTimers dt (player g)))"
  "pl_dashVY (player (updatePlayer inp dt g)) = pl_dashVY (playerVelocity inp dt (cfg g) (playerTimers dt (player g)))"
  "pl_dashT (player (updatePlayer inp dt g)) = pl_dashT (playerTimers dt (player g))"
  by (simp_all add: updatePlayer_def Let_def)



lemma returns_no_player: "returns m \<Longrightarrow> no_player r \<Longrightarrow> no_player (snd (projr (m r)))"
  unfolding returns_def by (metis snd_conv sum.sel(2))

lemma norm2_unit: "norm2 1 0 = \<lparr>n_x = 1, n_y = 0, n_len = 1\<rparr>"
  "norm2 0 (- 1) = \<lparr>n_x = 0, n_y = - 1, n_len = 1\<rparr>"
  by (simp_all add: norm2_def)

lemma after_dash_run:
  "handleAction right_input Dash playing_game zero_rnd = Inr (fst after_dash, snd after_dash)"
  "no_player (snd after_dash)"
  unfolding after_dash_def
  by (rule returnsD [OF returns_handleAction no_player_zero_rnd],
      rule returns_no_player [OF returns_handleAction no_player_zero_rnd])

lemma after_dash_fields:
  "state (fst after_dash) = PLAY" "cfg (fst after_dash) = DEFAULT_CONFIG"
  "player (fst after_dash) = (player playing_game)\<lparr>pl_dashVX := 1, pl_dashVY := 0, pl_dashT := 18 / 100\<rparr>"
proof -
  have "useDash right_input playing_game zero_rnd = Inr (fst after_dash, snd after_dash)"
    using after_dash_run(1) by (simp add: handleAction_def useSkill_def cd_of_def playing_game_fields)
  note eq = sans_fx_eqD(1,6,8) [OF yieldsD [OF yields_useDash this]]
  from eq(1) show "state (fst after_dash) = PLAY" by (simp add: Let_def playing_game_fields)
  from eq(2) show "cfg (fst after_dash) = DEFAULT_CONFIG" by (simp add: Let_def playing_game_fields)
  from eq(3) show "player (fst after_dash)
      = (player playing_game)\<lparr>pl_dashVX := 1, pl_dashVY := 0, pl_dashT := 18 / 100\<rparr>"
    by (simp add: Let_def right_input_def norm2_unit playing_game_fields(4) DEFAULT_CONFIG_def
        clamp_def)
qed

lemma after_dash_update:
  "update inp SIM_DT (fst after_dash) (snd after_dash)
     = Some (Inr (fst (projr (the (update inp SIM_DT (fst after_dash) (snd after_dash)))),
                  snd (projr (the (update inp SIM_DT (fst after_dash) (snd after_dash))))))"
  by (rule update_the) (simp_all add: after_dash_fields default_si_min after_dash_run)



section \<open>The random source of a playback\<close>

lemma sound_liftR: "returns m \<Longrightarrow> sound (liftR m)"
  unfolding sound_def returns_def liftR_def by auto

lemma sound_bindX: "sound m \<Longrightarrow> (\<And>a. sound (f a)) \<Longrightarrow> sound (bindX m f)"
  unfolding sound_def bindX_def
  by (fastforce split: option.splits sum.splits)

lemma sound_whileR:
  assumes body: "\<And>s. returns (body s)"
  shows "sound (whileR c body s)"
proof -
  have "c0 = c \<longrightarrow> body0 = body \<longrightarrow> no_player r0 \<longrightarrow> (\<exists>x r'. y = Inr (x, r') \<and> no_player r')"
    if "whileR c0 body0 s0 r0 = Some y" for c0 body0 s0 r0 y
  proof (rule whileR.raw_induct
      [where P = "\<lambda>c0 body0 s0 r0 y. c0 = c \<longrightarrow> body0 = body \<longrightarrow> no_player r0 \<longrightarrow>
                    (\<exists>x r'. y = Inr (x, r') \<and> no_player r')", OF _ that],
      goal_cases)
    case (1 w c0 body0 s0 r0 y)
    show ?case
    proof (intro impI)
      assume c0: "c0 = c" and b0: "body0 = body" and np: "no_player r0"
      show "\<exists>x r'. y = Inr (x, r') \<and> no_player r'"
      proof (cases "c s0")
        case False
        with 1(2) np c0 show ?thesis by auto
      next
        case True
        from returnsE [OF body np] obtain s1 r1
          where b: "body s0 r0 = Inr (s1, r1)" and np1: "no_player r1" by blast
        with 1(2) True c0 b0 have "w c body s1 r1 = Some y" by simp
        from 1(1) [OF this] np1 show ?thesis by simp
      qed
    qed
  qed
  then show ?thesis unfolding sound_def by blast
qed

lemma sound_update: "sound (update inp dt g)"
proof (cases "state g = PLAY")
  case False
  then have "update inp dt g = liftR (returnR g)" by (simp add: update_def)
  then show ?thesis by (simp add: sound_liftR returns_returnR)
next
  case True
  then show ?thesis
    unfolding update_def Let_def
    apply simp
    apply (intro sound_bindX sound_liftR sound_whileR returns_intros returns_emitTrail
      returns_comboSparkles returns_spawnPipes returns_spawnSpecial returns_spawnOrbs
      returns_updateGates returns_expireOrbs returns_pickupOrbs)
    done
qed

lemma rnd_onGameOver [simp]: "m_rnd (onGameOver m) = m_rnd m"
  by (simp add: onGameOver_def split: option.splits)

lemma sound_step_game:
  assumes "no_player (m_rnd m)"
  shows "sound_main (step_game inp m)"
proof (cases "update inp SIM_DT (m_game m) (m_rnd m)")
  case None
  then show ?thesis by (simp add: step_game_def on_game_def bindO_def sound_main_def)
next
  case (Some y)
  with sound_update [of inp SIM_DT "m_game m"] assms obtain g r
    where "y = Inr (g, r)" "no_player r" unfolding sound_def by blast
  with Some show ?thesis
    by (simp add: step_game_def on_game_def bindO_def sound_main_def Let_def)
qed

lemma returns_replayAction: "returns (replayAction a vg)"
  unfolding replayAction_def Let_def by (intro returns_intros returns_handleAction)

lemma sound_replayTick:
  assumes "no_player (m_rnd m)"
  shows "sound_main (replayTick tk m)"
proof -
  let ?v0 = "\<lparr>mv_dx = fst (tk_move tk), mv_dy = snd (tk_move tk), in_cursor = tk_cursor tk\<rparr>"
  have "returns (forEachR (tk_actions tk) replayAction (?v0, m_game m))"
    by (intro returns_intros returns_replayAction)
  from returnsE [OF this assms] obtain x r
    where a: "forEachR (tk_actions tk) replayAction (?v0, m_game m) (m_rnd m) = Inr (x, r)"
      and np: "no_player r" by blast
  from np have "sound_main (step_game (fst x) (m\<lparr>m_game := snd x, m_rnd := r\<rparr>))"
    by (intro sound_step_game) simp
  with a show ?thesis by (simp add: replayTick_def Let_def case_prod_beta)
qed

lemma sound_replayLoop:
  "no_player (m_rnd m) \<Longrightarrow> sound_main (replayLoop tks m)"
proof (induction tks arbitrary: m)
  case Nil
  then show ?case by (simp add: sound_main_def)
next
  case (Cons tk tks)
  show ?case
  proof (cases "replayTick tk m")
    case None
    then show ?thesis by (simp add: sound_main_def bindO_def)
  next
    case (Some y)
    with sound_replayTick [OF Cons.prems, of tk] obtain m1
      where y: "y = Inr m1" and np: "no_player (m_rnd m1)"
      by (auto simp: sound_main_def split: sum.splits)
    from Cons.IH [OF np] np Some y show ?thesis
      by (simp add: bindO_def sound_main_def)
  qed
qed

text \<open>
  Claim C2 (tape player during playback), evaluated on the code: whatever the run and
  whatever its tape holds, \<^verbatim>\<open>playReplay\<close> never ends with the tape player's underrun
  error. The tape player installed by its first statement is replaced by a generator
  seeded from the run's seed before the first draw of the playback, and that
  generator serves every draw.
\<close>

theorem replay_never_underruns:
  "playReplay m \<noteq> Some (Inl (TapeUnderrun i n))"
proof (cases "m_activeRun m")
  case None
  then show ?thesis by (simp add: playReplay_def)
next
  case (Some run)
  show ?thesis
  proof (cases "\<not> r_ended run \<or> r_ticks run = []")
    case True
    with Some show ?thesis by (simp add: playReplay_def Let_def)
  next
    case False
    define m4 where "m4 = m\<lparr>m_rnd := (m_rnd m)\<lparr>src := SeededSrc (createSeededRand (r_seed run))\<rparr>,
        m_replayDriving := True, m_acc := 0, m_input := input_reset (m_input m), m_trace := []\<rparr>"
    have np: "no_player (m_rnd m4)" by (simp add: m4_def no_player_def)
    from returnsE [OF returns_startRun np] obtain g r
      where s: "startRun (m_game m4) (m_rnd m4) = Inr (g, r)" and npr: "no_player r" by blast
    from npr have "sound_main (replayLoop (r_ticks run) (m4\<lparr>m_game := g, m_rnd := r\<rparr>))"
      by (intro sound_replayLoop) simp
    moreover have "playReplay m = bindO (replayLoop (r_ticks run) (m4\<lparr>m_game := g, m_rnd := r\<rparr>))
        (\<lambda>m6. Some (Inr (m6\<lparr>m_replayDriving := False\<rparr>, True)))"
      using Some False s
      by (simp add: playReplay_def Let_def on_game_def liftR_def bindO_def m4_def)
    ultimately show ?thesis
      by (auto simp: sound_main_def bindO_def split: option.splits sum.splits)
  qed
qed


text \<open>
  A finished run of one tick whose tape holds no value: the tape player installed
  first would raise at the first draw; the playback does not.
\<close>

theorem replay_never_underruns_witness:
  "rand01 ((m_rnd replay_ready)\<lparr>src := PlayerSrc createTapeRandPlayer\<rparr>) = Inl (TapeUnderrun 0 0)
   \<and> playReplay replay_ready \<noteq> Some (Inl (TapeUnderrun 0 0))"
  using replay_never_underruns [of replay_ready 0 0]
  by (simp add: rand01_def replay_ready_def player_call_def createTapeRandPlayer_def)
section \<open>Orb pickup scoring in a step\<close>

lemma sans_fx_still:
  assumes "sans_fx a = sans_fx b"
  shows "still a = still b" "tally a = tally b"
  using sans_fx_eqD(1-12,14-17) [OF assms] by (simp_all add: still_def tally_def setting_def)

lemma still_combo:
  "still (g\<lparr>combo := c, score := s\<rparr>) = still g" "tally (g\<lparr>combo := c, score := s\<rparr>) = (c, s)"
  "still (g\<lparr>combo := c, comboBreakFlash := f\<rparr>) = still g"
  "tally (g\<lparr>combo := c, comboBreakFlash := f\<rparr>) = (c, score g)"
  by (simp_all add: still_def tally_def setting_def)

lemma yields_pickupOne_fx:
  "yields (\<lambda>g'. sans_fx g' = sans_fx
       (g\<lparr>combo := fst (scoring_step (cfg g) (tally g)),
          score := snd (scoring_step (cfg g) (tally g))\<rparr>)) (pickupOne ob g)"
  unfolding pickupOne_def Let_def
  apply (rule yields_bindR_any)
  apply (rule yields_fx_forR)
   apply (simp add: scoring_step_def tally_def orbPoints_def Let_def)
  apply (intro yields_bindR_any yields_returnR)
  apply simp
  done

lemma tally_pickupOne:
  "yields (\<lambda>g'. tally g' = scoring_step (cfg g) (tally g) \<and> still g' = still g) (pickupOne ob g)"
  unfolding yields_def
proof (intro allI impI)
  fix r x r' assume "pickupOne ob g r = Inr (x, r')"
  from sans_fx_still [OF yieldsD [OF yields_pickupOne_fx this]]
  show "tally x = scoring_step (cfg g) (tally g) \<and> still x = still g"
    by (simp add: still_combo)
qed

lemma tally_forEach_pickupOne:
  "yields (\<lambda>g'. tally g' = (scoring_step (cfg g) ^^ length xs) (tally g) \<and> still g' = still g)
     (forEachR xs pickupOne g)"
proof (induction xs arbitrary: g)
  case Nil
  show ?case by (simp add: yields_returnR)
next
  case (Cons x xs)
  show ?case unfolding forEachR.simps
  proof (rule yields_bindR [OF tally_pickupOne])
    fix a assume a: "tally a = scoring_step (cfg g) (tally g) \<and> still a = still g"
    then have "cfg a = cfg g" by (simp add: still_def setting_def)
    with Cons [of a] a
    show "yields (\<lambda>g'. tally g' = (scoring_step (cfg g) ^^ length (x # xs)) (tally g)
                      \<and> still g' = still g) (forEachR xs pickupOne a)"
      by (simp add: funpow_swap1)
  qed
qed

lemma tally_pickupOrbs:
  "yields (\<lambda>g'. tally g' = (scoring_step (cfg g) ^^ length (filter (touches g) (orbs g))) (tally g)
                 \<and> orbs g' = filter (\<lambda>ob. \<not> touches g ob) (orbs g)
                 \<and> setting g' = setting g \<and> pipes g' = pipes g \<and> gates g' = gates g)
     (pickupOrbs g)"
  unfolding yields_def
proof (intro allI impI)
  fix r x r' assume run: "pickupOrbs g r = Inr (x, r')"
  let ?g0 = "g\<lparr>orbs := filter (\<lambda>ob. \<not> touches g ob) (orbs g)\<rparr>"
  have len: "length (filter (touches g) (rev (orbs g))) = length (filter (touches g) (orbs g))"
    by (metis length_rev rev_filter)
  from run have "forEachR (filter (touches g) (rev (orbs g))) pickupOne ?g0 r = Inr (x, r')"
    by (simp add: pickupOrbs_def)
  from yieldsD [OF tally_forEach_pickupOne this]
  have t: "tally x = (scoring_step (cfg ?g0) ^^ length (filter (touches g) (orbs g))) (tally ?g0)"
    and s: "still x = still ?g0" unfolding len by simp_all
  have "cfg ?g0 = cfg g" "tally ?g0 = tally g" by (simp_all add: tally_def)
  with t have "tally x = (scoring_step (cfg g) ^^ length (filter (touches g) (orbs g))) (tally g)"
    by simp
  moreover from s have "orbs x = filter (\<lambda>ob. \<not> touches g ob) (orbs g)"
    "setting x = setting g" "pipes x = pipes g" "gates x = gates g"
    by (simp_all add: still_def setting_def)
  ultimately show "tally x = (scoring_step (cfg g) ^^ length (filter (touches g) (orbs g))) (tally g)
      \<and> orbs x = filter (\<lambda>ob. \<not> touches g ob) (orbs g)
      \<and> setting x = setting g \<and> pipes x = pipes g \<and> gates x = gates g" by simp
qed

lemma sans_fx_combo:
  "sans_fx (g\<lparr>combo := c, comboBreakFlash := f\<rparr>) = (sans_fx g)\<lparr>combo := c, comboBreakFlash := f\<rparr>"
  by (simp add: sans_fx_def)

lemma yields_breakCombo_fx:
  "yields (\<lambda>g'. sans_fx g' = sans_fx (g\<lparr>combo := 0, comboBreakFlash := 35 / 100\<rparr>)) (breakCombo x y g)"
  unfolding breakCombo_def
  apply (rule yields_bindR [where Q = "\<lambda>g'. sans_fx g' = sans_fx g"])
   apply (intro yields_if yields_bindR_any yields_returnR)
    apply simp
   apply simp
  apply (rule yields_returnR)
  apply (simp add: sans_fx_combo)
  done

lemma tally_expireOrbs:
  "yields (\<lambda>g'. tally g' = (if list_ex orb_dead (map (orb_update dt (W g) (H g)) (orbs g)) then 0
                              else combo g, score g)
                 \<and> orbs g' = filter (\<lambda>ob. \<not> orb_dead ob) (map (orb_update dt (W g) (H g)) (orbs g))
                 \<and> setting g' = setting g \<and> pipes g' = pipes g \<and> gates g' = gates g)
     (expireOrbs dt g)"
  unfolding yields_def
proof (intro allI impI)
  fix r x r' assume run: "expireOrbs dt g r = Inr (x, r')"
  let ?os = "map (orb_update dt (W g) (H g)) (orbs g)"
  let ?g1 = "g\<lparr>orbs := filter (\<lambda>ob. \<not> orb_dead ob) ?os\<rparr>"
  show "tally x = (if list_ex orb_dead ?os then 0 else combo g, score g)
      \<and> orbs x = filter (\<lambda>ob. \<not> orb_dead ob) ?os
      \<and> setting x = setting g \<and> pipes x = pipes g \<and> gates x = gates g"
  proof (cases "list_ex orb_dead ?os")
    case False
    with run have "x = ?g1" by (simp add: expireOrbs_def Let_def)
    with False show ?thesis by (simp add: tally_def)
  next
    case True
    with run obtain a b where "breakCombo a b ?g1 r = Inr (x, r')"
      by (simp add: expireOrbs_def Let_def)
    from sans_fx_still [OF yieldsD [OF yields_breakCombo_fx this]] True
    show ?thesis by (simp add: still_combo) (simp add: still_def tally_def)
  qed
qed

lemma still_upd [simp]:
  "still (g\<lparr>parts := d\<rparr>) = still g" "still (g\<lparr>floats := e\<rparr>) = still g"
  "still (g\<lparr>comboSparkAcc := t\<rparr>) = still g" "still (g\<lparr>trailAcc := t\<rparr>) = still g"
  "still (g\<lparr>trailHue := t\<rparr>) = still g"
  "tally (g\<lparr>parts := d\<rparr>) = tally g" "tally (g\<lparr>floats := e\<rparr>) = tally g"
  "tally (g\<lparr>comboSparkAcc := t\<rparr>) = tally g" "tally (g\<lparr>trailAcc := t\<rparr>) = tally g"
  "tally (g\<lparr>trailHue := t\<rparr>) = tally g"
  by (simp_all add: still_def tally_def)

lemma still_emitTrail:
  "still g = c \<and> tally g = t \<Longrightarrow> yields (\<lambda>g'. still g' = c \<and> tally g' = t) (emitTrail dt g)"
  unfolding emitTrail_def Let_def
  by (intro yields_intros) simp_all

lemma still_comboSparkles:
  "still g = c \<and> tally g = t \<Longrightarrow> yields (\<lambda>g'. still g' = c \<and> tally g' = t) (comboSparkles dt g)"
  unfolding comboSparkles_def Let_def
  by (intro yields_intros) simp_all

lemma bindR_returnR [simp]: "bindR (returnR a) f = f a"
  by (simp add: bindR_def returnR_def fun_eq_iff)

lemma fld_tickTimers:
  fixes f :: "game \<Rightarrow> 'a"
  assumes "\<And>g a. f (g\<lparr>timeAlive := a\<rparr>) = f g" "\<And>g a. f (g\<lparr>cds := a\<rparr>) = f g"
    "\<And>g a. f (g\<lparr>comboBreakFlash := a\<rparr>) = f g" "\<And>g a. f (g\<lparr>perfectT := a\<rparr>) = f g"
    "\<And>g a. f (g\<lparr>slowField := a\<rparr>) = f g"
  shows "f (tickTimers dt g) = f g"
  unfolding tickTimers_def tickCooldowns_def Let_def
  by (simp only: assms if_distrib [of f] option.case_distrib [of f] if_cancel option.case_eq_if
      cong: if_cong)

lemma quiet_tickTimers [simp]:
  "pipes (tickTimers dt g) = pipes g" "gates (tickTimers dt g) = gates g"
  "orbs (tickTimers dt g) = orbs g" "pipeT (tickTimers dt g) = pipeT g"
  "specialT (tickTimers dt g) = specialT g" "orbT (tickTimers dt g) = orbT g"
  "combo (tickTimers dt g) = combo g" "score (tickTimers dt g) = score g"
  by (rule fld_tickTimers; simp)+

lemma updatePlayer_shape: "\<exists>p. updatePlayer inp dt g = g\<lparr>player := p\<rparr>"
  unfolding updatePlayer_def Let_def by (rule exI, rule refl)

lemma quiet_updatePlayer [simp]:
  "pipes (updatePlayer inp dt g) = pipes g" "gates (updatePlayer inp dt g) = gates g"
  "orbs (updatePlayer inp dt g) = orbs g" "pipeT (updatePlayer inp dt g) = pipeT g"
  "specialT (updatePlayer inp dt g) = specialT g" "orbT (updatePlayer inp dt g) = orbT g"
  "combo (updatePlayer inp dt g) = combo g" "score (updatePlayer inp dt g) = score g"
  using updatePlayer_shape [of inp dt g] by auto

text \<open>A step in state Playing during which nothing is spawned, with no pipe and no gate
  on the field: the orbs move and expire, the player picks up those it touches.\<close>

lemma update_quiet:
  assumes play: "state g = PLAY" and run: "update inp dt g r = Some (Inr (g', r'))"
    and quiet: "pipes g = []" "gates g = []" "pipeT g > dt" "specialT g > dt" "orbT g > dt"
  shows "tally g' =
     (scoring_step (cfg g)
        ^^ length (filter (touches (updatePlayer inp dt (tickTimers dt g)))
              (filter (\<lambda>ob. \<not> orb_dead ob) (map (orb_update dt (W g) (H g)) (orbs g)))))
       (if list_ex orb_dead (map (orb_update dt (W g) (H g)) (orbs g)) then 0 else combo g, score g)"
proof -
  let ?g1 = "updatePlayer inp dt (tickTimers dt g)"
  let ?os = "map (orb_update dt (W g) (H g)) (orbs g)"
  have g1: "still ?g1 = (setting ?g1, [], [], orbs g, pipeT g, specialT g, orbT g)"
    "tally ?g1 = (combo g, score g)"
    using quiet(1,2) by (simp_all add: still_def tally_def)
  from play run obtain g2 r2 g3 r3 g7 r7 where
    a: "bindR (emitTrail dt ?g1) (comboSparkles dt) r = Inr (g2, r2)"
    and w: "whileR (\<lambda>s. pipeT s \<le> 0) spawnPipes (g2\<lparr>pipeT := pipeT g2 - dt\<rparr>) r2 = Some (Inr (g3, r3))"
    and b: "bindR (spawnSpecial dt g3) (\<lambda>g4.
                  bindR (spawnOrbs dt g4) (\<lambda>g5.
                  bindR (updateGates dt g5) (\<lambda>g6.
                  bindR (expireOrbs dt (updatePipes dt g6)) pickupOrbs))) r3 = Inr (g7, r7)"
    and fin: "g' = (if collides g7 then g7\<lparr>state := OVER\<rparr> else caps (updateFx dt (removeOffField g7)))"
    unfolding update_def Let_def by (auto simp: bindX_Some)
  have "yields (\<lambda>s. still s = still ?g1 \<and> tally s = tally ?g1)
      (bindR (emitTrail dt ?g1) (comboSparkles dt))"
    by (intro yields_intros still_emitTrail still_comboSparkles) simp_all
  from yieldsD [OF this a] have s2: "still g2 = still ?g1" and t2: "tally g2 = tally ?g1"
    by simp_all
  from s2 g1(1) have f2: "setting g2 = setting ?g1" "pipes g2 = []" "gates g2 = []"
    "orbs g2 = orbs g" "pipeT g2 = pipeT g" "specialT g2 = specialT g" "orbT g2 = orbT g"
    by (simp_all add: still_def)
  from f2(5) quiet(3)
  have "whileR (\<lambda>s. pipeT s \<le> 0) spawnPipes (g2\<lparr>pipeT := pipeT g2 - dt\<rparr>) r2
      = Some (Inr (g2\<lparr>pipeT := pipeT g2 - dt\<rparr>, r2))"
    by (subst whileR.simps) simp
  with w have g3: "g3 = g2\<lparr>pipeT := pipeT g2 - dt\<rparr>" and r3: "r3 = r2"
    by simp_all
  define g6 where "g6 = (if orbs_enabled (c_orbs (cfg g3))
      then g3\<lparr>specialT := specialT g3 - dt, orbT := orbT g3 - dt, gates := []\<rparr>
      else g3\<lparr>specialT := specialT g3 - dt, gates := []\<rparr>)"
  have ss: "spawnSpecial dt g3 = returnR (g3\<lparr>specialT := specialT g3 - dt\<rparr>)"
    using quiet(4) f2(6) by (simp add: spawnSpecial_def Let_def g3)
  have so: "spawnOrbs dt (g3\<lparr>specialT := specialT g3 - dt\<rparr>)
      = returnR (if orbs_enabled (c_orbs (cfg g3))
                 then g3\<lparr>specialT := specialT g3 - dt, orbT := orbT g3 - dt\<rparr>
                 else g3\<lparr>specialT := specialT g3 - dt\<rparr>)"
    using quiet(5) f2(7) by (simp add: spawnOrbs_def Let_def g3)
  have ug: "updateGates dt (if orbs_enabled (c_orbs (cfg g3))
                 then g3\<lparr>specialT := specialT g3 - dt, orbT := orbT g3 - dt\<rparr>
                 else g3\<lparr>specialT := specialT g3 - dt\<rparr>) = returnR g6"
    using f2(3) by (simp add: updateGates_def Let_def g3 g6_def)
  from b have "bindR (expireOrbs dt (updatePipes dt g6)) pickupOrbs r3 = Inr (g7, r7)"
    by (simp only: ss so ug bindR_returnR)
  then obtain ge re where e: "expireOrbs dt (updatePipes dt g6) r3 = Inr (ge, re)"
    and p: "pickupOrbs ge re = Inr (g7, r7)"
    unfolding bindR_Inr by blast
  have f6: "setting g6 = setting ?g1" "pipes (updatePipes dt g6) = []"
    "gates (updatePipes dt g6) = []" "orbs (updatePipes dt g6) = orbs g"
    "combo (updatePipes dt g6) = combo g" "score (updatePipes dt g6) = score g"
    using f2 t2 g1(2)
    by (simp_all add: g6_def g3 updatePipes_def setting_def tally_def)
  from f6(1) have wh6: "W g6 = W g" "H g6 = H g" "cfg g6 = cfg g"
    using setting_updatePlayer [of inp dt "tickTimers dt g"] setting_tickTimers [of dt g]
    by (simp_all add: setting_def)
  then have wh: "W (updatePipes dt g6) = W g" "H (updatePipes dt g6) = H g"
    "cfg (updatePipes dt g6) = cfg g"
    by (simp_all add: updatePipes_def)
  from yieldsD [OF tally_expireOrbs e]
  have te: "tally ge = (if list_ex orb_dead ?os then 0 else combo g, score g)"
    and oe: "orbs ge = filter (\<lambda>ob. \<not> orb_dead ob) ?os"
    and se: "setting ge = setting ?g1" and pe: "pipes ge = []"
    by (simp_all add: f6 wh cong: if_cong)
  from se have tch: "touches ge = touches ?g1" and ce: "cfg ge = cfg g"
    using wh6(3) f6(1) by (simp_all add: touches_def setting_def fun_eq_iff)
  from yieldsD [OF tally_pickupOrbs p]
  have t7: "tally g7 = (scoring_step (cfg g) ^^ length (filter (touches ?g1)
        (filter (\<lambda>ob. \<not> orb_dead ob) ?os))) (if list_ex orb_dead ?os then 0 else combo g, score g)"
    and p7: "pipes g7 = []"
    by (simp_all add: te oe tch ce pe)
  from p7 have "\<not> collides g7" by (simp add: collides_def)
  with fin have "g' = caps (updateFx dt (removeOffField g7))" by simp
  with p7 have "tally g' = tally g7"
    by (simp add: tally_def caps_def updateFx_def removeOffField_def Let_def)
  with t7 show ?thesis by simp
qed

text \<open>
  Claim C6, amended (orb pickup scoring). One pickup takes the combo to
  \<open>newCombo = min maxC (combo + 1)\<close>, where \<open>maxC\<close> is \<open>orbComboMax\<close> raised to at least 1
  (30 when it is 0), and then adds \<open>round (base + bonus * max 0 (newCombo - 1))\<close> to
  the score, where \<open>base\<close> and \<open>bonus\<close> are \<open>orbBase\<close> and \<open>orbComboBonus\<close> raised to at
  least 0: the combo after the increment is used. The pickup loop of a step does this
  once for every orb that touches the player and removes those orbs; the expiry loop
  leaves the score and resets the combo to 0 when an orb has expired; and a step in
  state Playing with no pipe and no gate on the field and no spawn due does the
  expiry and then the pickups, and nothing else, to combo and score. For
  \<open>orbComboMax \<ge> 1\<close>, \<open>orbBase \<ge> 0\<close>, \<open>orbComboBonus \<ge> 0\<close> and a combo of at least 0,
  one pickup is \<open>newCombo = min orbComboMax (combo + 1)\<close> and
  \<open>round (orbBase + orbComboBonus * (newCombo - 1))\<close> points.
\<close>

theorem orb_pickup_scoring:
  "(pickupOrbs g r = Inr (g', r') \<longrightarrow>
      (combo g', score g') =
        (scoring_step (cfg g) ^^ length (filter (touches g) (orbs g))) (combo g, score g)
      \<and> orbs g' = filter (\<lambda>ob. \<not> touches g ob) (orbs g))
   \<and> (expireOrbs dt g r = Inr (g', r') \<longrightarrow>
      (combo g', score g') =
        (if list_ex orb_dead (map (orb_update dt (W g) (H g)) (orbs g)) then 0 else combo g,
         score g))
   \<and> (state g = PLAY \<and> pipes g = [] \<and> gates g = [] \<and> dt < pipeT g \<and> dt < specialT g
        \<and> dt < orbT g \<and> update inp dt g r = Some (Inr (g', r')) \<longrightarrow>
      (combo g', score g') =
        (scoring_step (cfg g)
           ^^ length (filter (touches (updatePlayer inp dt (tickTimers dt g)))
                 (filter (\<lambda>ob. \<not> orb_dead ob) (map (orb_update dt (W g) (H g)) (orbs g)))))
          (if list_ex orb_dead (map (orb_update dt (W g) (H g)) (orbs g)) then 0 else combo g,
           score g))
   \<and> (1 \<le> orbComboMax (c_scoring c) \<and> 0 \<le> orbBase (c_scoring c)
        \<and> 0 \<le> orbComboBonus (c_scoring c) \<and> 0 \<le> k \<longrightarrow>
      scoring_step c (k, s) =
        (min (orbComboMax (c_scoring c)) (k + 1),
         s + real_of_int (round (orbBase (c_scoring c)
               + orbComboBonus (c_scoring c) * (min (orbComboMax (c_scoring c)) (k + 1) - 1)))))"
proof (intro conjI impI)
  assume "pickupOrbs g r = Inr (g', r')"
  from yieldsD [OF tally_pickupOrbs this]
  show "(combo g', score g') =
        (scoring_step (cfg g) ^^ length (filter (touches g) (orbs g))) (combo g, score g)"
    and "orbs g' = filter (\<lambda>ob. \<not> touches g ob) (orbs g)"
    by (simp_all add: tally_def)
next
  assume "expireOrbs dt g r = Inr (g', r')"
  from yieldsD [OF tally_expireOrbs this]
  show "(combo g', score g') =
        (if list_ex orb_dead (map (orb_update dt (W g) (H g)) (orbs g)) then 0 else combo g,
         score g)"
    by (simp add: tally_def)
next
  assume a: "state g = PLAY \<and> pipes g = [] \<and> gates g = [] \<and> dt < pipeT g \<and> dt < specialT g
        \<and> dt < orbT g \<and> update inp dt g r = Some (Inr (g', r'))"
  then have "state g = PLAY" "update inp dt g r = Some (Inr (g', r'))" "pipes g = []"
    "gates g = []" "pipeT g > dt" "specialT g > dt" "orbT g > dt" by simp_all
  from update_quiet [OF this]
  show "(combo g', score g') =
        (scoring_step (cfg g)
           ^^ length (filter (touches (updatePlayer inp dt (tickTimers dt g)))
                 (filter (\<lambda>ob. \<not> orb_dead ob) (map (orb_update dt (W g) (H g)) (orbs g)))))
          (if list_ex orb_dead (map (orb_update dt (W g) (H g)) (orbs g)) then 0 else combo g,
           score g)"
    by (simp add: tally_def)
next
  assume a: "1 \<le> orbComboMax (c_scoring c) \<and> 0 \<le> orbBase (c_scoring c)
        \<and> 0 \<le> orbComboBonus (c_scoring c) \<and> 0 \<le> k"
  then have m: "max 1 (num_or (orbComboMax (c_scoring c)) 30) = orbComboMax (c_scoring c)"
    and b: "max 0 (num_or (orbBase (c_scoring c)) 0) = orbBase (c_scoring c)"
    and n: "max 0 (num_or (orbComboBonus (c_scoring c)) 0) = orbComboBonus (c_scoring c)"
    by (simp_all add: num_or_def)
  from a have "min (orbComboMax (c_scoring c)) (k + 1) \<ge> 1" by simp
  then have "max 0 (min (orbComboMax (c_scoring c)) (k + 1) - 1)
      = min (orbComboMax (c_scoring c)) (k + 1) - 1" by simp
  then show "scoring_step c (k, s) =
        (min (orbComboMax (c_scoring c)) (k + 1),
         s + real_of_int (round (orbBase (c_scoring c)
               + orbComboBonus (c_scoring c) * (min (orbComboMax (c_scoring c)) (k + 1) - 1))))"
    by (simp add: scoring_step_def Let_def m b n)
qed

lemma idle_player_any:
  assumes "player g = player playing_game" "W g = 800" "H g = 600"
  shows "player (updatePlayer idle_input SIM_DT (tickTimers SIM_DT g)) = player playing_game"
  using assms
  by (simp add: updatePlayer_def playerVelocity_def playerTimers_def playing_game_fields
      idle_input_def norm2_zero approach_def clamp_def Let_def)

lemma orb_game_fields:
  "state (orb_game c s os) = PLAY" "pipes (orb_game c s os) = []" "gates (orb_game c s os) = []"
  "pipeT (orb_game c s os) = 1" "specialT (orb_game c s os) = 16 / 10" "orbT (orb_game c s os) = 1"
  "player (orb_game c s os) = player playing_game" "W (orb_game c s os) = 800"
  "H (orb_game c s os) = 600" "cfg (orb_game c s os) = DEFAULT_CONFIG"
  "combo (orb_game c s os) = c" "score (orb_game c s os) = s" "orbs (orb_game c s os) = os"
  by (simp_all add: orb_game_def playing_game_def example_game_def resizeToWindow_def
      computePlayerSize_def new_Game_def Let_def)

lemma example_orb_step:
  "orb_update SIM_DT 800 600 example_orb
     = example_orb\<lparr>o_life := 10 - 1 / 120, o_ph := 1 / 120 * (22 / 10)\<rparr>"
  "orb_update SIM_DT 800 600 dying_orb
     = dying_orb\<lparr>o_life := 1 / 240 - 1 / 120, o_ph := 1 / 120 * (22 / 10)\<rparr>"
  by (simp_all add: orb_update_def example_orb_def dying_orb_def SIM_DT_def Let_def)

lemma touches_example:
  assumes "player g = player playing_game"
  shows "touches g (example_orb\<lparr>o_life := a, o_ph := b\<rparr>)"
    "\<not> touches g (dying_orb\<lparr>o_life := a, o_ph := b\<rparr>)"
  using assms
  by (simp_all add: touches_def circleCircle_def playing_game_fields example_orb_def
      dying_orb_def Let_def)

lemma example_orb_alive:
  "\<not> orb_dead (orb_update SIM_DT 800 600 example_orb)"
  "orb_dead (orb_update SIM_DT 800 600 dying_orb)"
  unfolding example_orb_step by (simp_all add: orb_dead_def)

lemma example_orb_touch:
  assumes "player g = player playing_game"
  shows "touches g (orb_update SIM_DT 800 600 example_orb)"
  unfolding example_orb_step by (rule touches_example(1) [OF assms])

lemma one_orb_count:
  assumes "player g = player playing_game" "W g = 800" "H g = 600" "orbs g = [example_orb]"
  shows "length (filter (touches (updatePlayer idle_input SIM_DT (tickTimers SIM_DT g)))
      (filter (\<lambda>ob. \<not> orb_dead ob) (map (orb_update SIM_DT (W g) (H g)) (orbs g)))) = 1"
    and "\<not> list_ex orb_dead (map (orb_update SIM_DT (W g) (H g)) (orbs g))"
  using example_orb_touch [OF idle_player_any [OF assms(1-3)]]
  by (simp_all add: assms(2-4) example_orb_alive)

lemma dying_orb_count:
  assumes "W g = 800" "H g = 600" "orbs g = [dying_orb]"
  shows "length (filter (touches (updatePlayer idle_input SIM_DT (tickTimers SIM_DT g)))
      (filter (\<lambda>ob. \<not> orb_dead ob) (map (orb_update SIM_DT (W g) (H g)) (orbs g)))) = 0"
    and "list_ex orb_dead (map (orb_update SIM_DT (W g) (H g)) (orbs g))"
  by (simp_all add: assms example_orb_alive)

lemma orb_game_count:
  "length (filter (touches (updatePlayer idle_input SIM_DT (tickTimers SIM_DT (orb_game c s [example_orb]))))
      (filter (\<lambda>ob. \<not> orb_dead ob)
         (map (orb_update SIM_DT (W (orb_game c s [example_orb])) (H (orb_game c s [example_orb])))
            (orbs (orb_game c s [example_orb]))))) = 1"
  "list_ex orb_dead
      (map (orb_update SIM_DT (W (orb_game c s [example_orb])) (H (orb_game c s [example_orb])))
         (orbs (orb_game c s [example_orb]))) = False"
  "length (filter (touches (updatePlayer idle_input SIM_DT (tickTimers SIM_DT (orb_game c s [dying_orb]))))
      (filter (\<lambda>ob. \<not> orb_dead ob)
         (map (orb_update SIM_DT (W (orb_game c s [dying_orb])) (H (orb_game c s [dying_orb])))
            (orbs (orb_game c s [dying_orb]))))) = 0"
  "list_ex orb_dead
      (map (orb_update SIM_DT (W (orb_game c s [dying_orb])) (H (orb_game c s [dying_orb])))
         (orbs (orb_game c s [dying_orb]))) = True"
  using one_orb_count [of "orb_game c s [example_orb]"] dying_orb_count [of "orb_game c s [dying_orb]"]
  by (simp_all only: orb_game_fields simp_thms)

lemma scoring_default:
  "scoring_step DEFAULT_CONFIG (0, s) = (1, s + 5)" "scoring_step DEFAULT_CONFIG (1, s) = (2, s + 6)"
  "scoring_step DEFAULT_CONFIG (2, s) = (3, s + 7)"
  by (simp_all add: scoring_step_def DEFAULT_CONFIG_def num_or_def Let_def round_def)

lemma orb_game_run:
  "update idle_input SIM_DT (orb_game c s os) zero_rnd
     = Some (Inr (fst (projr (the (update idle_input SIM_DT (orb_game c s os) zero_rnd))),
                  snd (projr (the (update idle_input SIM_DT (orb_game c s os) zero_rnd)))))"
  by (rule update_the) (simp_all add: orb_game_fields default_si_min no_player_zero_rnd)

text \<open>
  As stated, the claim fails: with \<open>orbComboMax = 0\<close> and combo 5, a step in which the
  player picks up one orb leaves the combo at 6, not at \<open>min 0 6 = 0\<close>, and awards
  \<open>5 + 1 * 5 = 10\<close> points.
\<close>

theorem orb_pickup_scoring_counterexample:
  "orbComboMax (c_scoring (cfg zero_max_game)) = 0 \<and> combo zero_max_game = 5
   \<and> score zero_max_game = 0
   \<and> min (orbComboMax (c_scoring (cfg zero_max_game))) (combo zero_max_game + 1) = 0
   \<and> combo (fst (projr (the (update idle_input SIM_DT zero_max_game zero_rnd)))) = 6
   \<and> score (fst (projr (the (update idle_input SIM_DT zero_max_game zero_rnd)))) = 10"
proof -
  let ?g' = "fst (projr (the (update idle_input SIM_DT zero_max_game zero_rnd)))"
  have f: "state zero_max_game = PLAY" "pipes zero_max_game = []" "gates zero_max_game = []"
    "pipeT zero_max_game = 1" "specialT zero_max_game = 16 / 10" "orbT zero_max_game = 1"
    "player zero_max_game = player playing_game" "W zero_max_game = 800" "H zero_max_game = 600"
    "combo zero_max_game = 5" "score zero_max_game = 0" "orbs zero_max_game = [example_orb]"
    "cfg zero_max_game = DEFAULT_CONFIG\<lparr>c_scoring := (c_scoring DEFAULT_CONFIG)\<lparr>orbComboMax := 0\<rparr>\<rparr>"
    by (simp_all add: zero_max_game_def orb_game_fields)
  have run: "update idle_input SIM_DT zero_max_game zero_rnd
      = Some (Inr (?g', snd (projr (the (update idle_input SIM_DT zero_max_game zero_rnd)))))"
    by (rule update_the) (simp_all add: f DEFAULT_CONFIG_def no_player_zero_rnd)
  have q: "SIM_DT < pipeT zero_max_game" "SIM_DT < specialT zero_max_game"
    "SIM_DT < orbT zero_max_game" by (simp_all add: f SIM_DT_def)
  have "tally ?g' = scoring_step (cfg zero_max_game) (5, 0)"
    using update_quiet [OF f(1) run f(2,3) q] one_orb_count [OF f(7,8,9,12)]
    by (simp add: f(10,11))
  also have "\<dots> = (6, 10)"
    by (simp add: f(13) scoring_step_def DEFAULT_CONFIG_def num_or_def Let_def round_def)
  finally show ?thesis by (simp add: tally_def f)
qed

text \<open>The scenario of the claim, with the default configuration (base 5, bonus 1), each
  line one step in state Playing: pickups at combo 1, 2, 3 award 5, 6, 7; the expiry
  of an orb resets the combo to 0 and leaves the score; the next pickup awards 5.\<close>

theorem orb_pickup_scoring_witness:
  "(combo (fst (projr (the (update idle_input SIM_DT (orb_game 0 0 [example_orb]) zero_rnd)))),
    score (fst (projr (the (update idle_input SIM_DT (orb_game 0 0 [example_orb]) zero_rnd))))) = (1, 5)
   \<and> (combo (fst (projr (the (update idle_input SIM_DT (orb_game 1 5 [example_orb]) zero_rnd)))),
      score (fst (projr (the (update idle_input SIM_DT (orb_game 1 5 [example_orb]) zero_rnd))))) = (2, 11)
   \<and> (combo (fst (projr (the (update idle_input SIM_DT (orb_game 2 11 [example_orb]) zero_rnd)))),
      score (fst (projr (the (update idle_input SIM_DT (orb_game 2 11 [example_orb]) zero_rnd))))) = (3, 18)
   \<and> (combo (fst (projr (the (update idle_input SIM_DT (orb_game 3 18 [dying_orb]) zero_rnd)))),
      score (fst (projr (the (update idle_input SIM_DT (orb_game 3 18 [dying_orb]) zero_rnd))))) = (0, 18)
   \<and> (combo (fst (projr (the (update idle_input SIM_DT (orb_game 0 18 [example_orb]) zero_rnd)))),
      score (fst (projr (the (update idle_input SIM_DT (orb_game 0 18 [example_orb]) zero_rnd))))) = (1, 23)
   \<and> scoring_step DEFAULT_CONFIG (2, 11) = (min 30 (2 + 1), 11 + real_of_int (round (5 + 1 * (min 30 (2 + 1) - 1 :: real))))"
proof -
  have pre: "state (orb_game c s os) = PLAY \<and> pipes (orb_game c s os) = []
      \<and> gates (orb_game c s os) = [] \<and> SIM_DT < pipeT (orb_game c s os)
      \<and> SIM_DT < specialT (orb_game c s os) \<and> SIM_DT < orbT (orb_game c s os)
      \<and> update idle_input SIM_DT (orb_game c s os) zero_rnd
          = Some (Inr (fst (projr (the (update idle_input SIM_DT (orb_game c s os) zero_rnd))),
                       snd (projr (the (update idle_input SIM_DT (orb_game c s os) zero_rnd)))))"
    for c s os
    using orb_game_run [of c s os] by (simp add: orb_game_fields SIM_DT_def)
  note step = orb_pickup_scoring [THEN conjunct2, THEN conjunct2, THEN conjunct1, rule_format, OF pre]
  note formula = orb_pickup_scoring [THEN conjunct2, THEN conjunct2, THEN conjunct2, rule_format,
      of DEFAULT_CONFIG 2 11]
  from step [of 0 0 "[example_orb]", unfolded orb_game_count]
    step [of 1 5 "[example_orb]", unfolded orb_game_count]
    step [of 2 11 "[example_orb]", unfolded orb_game_count]
    step [of 3 18 "[dying_orb]", unfolded orb_game_count]
    step [of 0 18 "[example_orb]", unfolded orb_game_count] formula
  show ?thesis
    by (simp add: scoring_default orb_game_fields example_scoring)
qed

end
